theory Spec2Isabelle
  imports Main "HOL-Library.Word" "HOL-Library.Sublist"
begin

unbundle bit_operations_syntax

section \<open>The provisioning scripts of the CTO dashboard\<close>

text \<open>
  The repository holds two stand-alone scripts, \<^verbatim>\<open>setup-database.py\<close> and
  \<^verbatim>\<open>setup-with-ipv6.py\<close>. Both open a PostgreSQL connection through psycopg2, send
  one SQL file as a single batch, commit, and then look at the result; the first one
  also upserts the administrator's row and records a password hash in the audit log.

  The scripts are modelled as programs over an explicit process state (console, the
  requests sent to the server, the transaction's view of the database and the committed
  database). Every \<^verbatim>\<open>raise\<close> is a value. The database server, the network and the
  file system are the \<open>world\<close>: what they answer is a parameter of each run.
  Strings are byte strings (the UTF-8 encoding of the Python text); the decoration of
  the console (emoji, blank lines, rules of \<^verbatim>\<open>=\<close>) is left out of the printed lines.
\<close>

subsection \<open>SHA-256 (\<^verbatim>\<open>hashlib.sha256\<close>, FIPS 180-4)\<close>

type_synonym byte = "8 word"
type_synonym w32 = "32 word"

definition K256 :: "w32 list" where
  "K256 =
   [0x428A2F98, 0x71374491, 0xB5C0FBCF, 0xE9B5DBA5, 0x3956C25B, 0x59F111F1, 0x923F82A4, 0xAB1C5ED5,
    0xD807AA98, 0x12835B01, 0x243185BE, 0x550C7DC3, 0x72BE5D74, 0x80DEB1FE, 0x9BDC06A7, 0xC19BF174,
    0xE49B69C1, 0xEFBE4786, 0x0FC19DC6, 0x240CA1CC, 0x2DE92C6F, 0x4A7484AA, 0x5CB0A9DC, 0x76F988DA,
    0x983E5152, 0xA831C66D, 0xB00327C8, 0xBF597FC7, 0xC6E00BF3, 0xD5A79147, 0x06CA6351, 0x14292967,
    0x27B70A85, 0x2E1B2138, 0x4D2C6DFC, 0x53380D13, 0x650A7354, 0x766A0ABB, 0x81C2C92E, 0x92722C85,
    0xA2BFE8A1, 0xA81A664B, 0xC24B8B70, 0xC76C51A3, 0xD192E819, 0xD6990624, 0xF40E3585, 0x106AA070,
    0x19A4C116, 0x1E376C08, 0x2748774C, 0x34B0BCB5, 0x391C0CB3, 0x4ED8AA4A, 0x5B9CCA4F, 0x682E6FF3,
    0x748F82EE, 0x78A5636F, 0x84C87814, 0x8CC70208, 0x90BEFFFA, 0xA4506CEB, 0xBEF9A3F7, 0xC67178F2]"

definition H256 :: "w32 list" where
  "H256 = [0x6A09E667, 0xBB67AE85, 0x3C6EF372, 0xA54FF53A,
           0x510E527F, 0x9B05688C, 0x1F83D9AB, 0x5BE0CD19]"

definition rotr :: "nat \<Rightarrow> w32 \<Rightarrow> w32" where
  "rotr n x = (drop_bit n x) OR (push_bit (32 - n) x)"

definition bsig0 :: "w32 \<Rightarrow> w32" where
  "bsig0 x = rotr 2 x XOR rotr 13 x XOR rotr 22 x"

definition bsig1 :: "w32 \<Rightarrow> w32" where
  "bsig1 x = rotr 6 x XOR rotr 11 x XOR rotr 25 x"

definition ssig0 :: "w32 \<Rightarrow> w32" where
  "ssig0 x = rotr 7 x XOR rotr 18 x XOR drop_bit 3 x"

definition ssig1 :: "w32 \<Rightarrow> w32" where
  "ssig1 x = rotr 17 x XOR rotr 19 x XOR drop_bit 10 x"

definition ch :: "w32 \<Rightarrow> w32 \<Rightarrow> w32 \<Rightarrow> w32" where
  "ch x y z = (x AND y) XOR (NOT x AND z)"

definition maj :: "w32 \<Rightarrow> w32 \<Rightarrow> w32 \<Rightarrow> w32" where
  "maj x y z = (x AND y) XOR (x AND z) XOR (y AND z)"

definition length_bytes :: "nat \<Rightarrow> byte list" where
  "length_bytes n =
     map (\<lambda>i. ucast (drop_bit (8 * i) (of_nat (8 * n) :: 64 word))) [7, 6, 5, 4, 3, 2, 1, 0]"

definition pad :: "byte list \<Rightarrow> byte list" where
  "pad m = m @ [0x80] @ replicate ((119 - length m mod 64) mod 64) 0 @ length_bytes (length m)"

fun be_words :: "byte list \<Rightarrow> w32 list" where
  "be_words (a # b # c # d # bs) =
     (push_bit 24 (ucast a) OR push_bit 16 (ucast b) OR push_bit 8 (ucast c) OR ucast d) # be_words bs"
| "be_words _ = []"

fun blocks :: "w32 list \<Rightarrow> w32 list list" where
  "blocks ws = (if length ws < 16 then [] else take 16 ws # blocks (drop 16 ws))"

declare blocks.simps [simp del]

definition next_word :: "w32 list \<Rightarrow> w32 list" where
  "next_word ws = ws @ [ssig1 (ws ! (length ws - 2)) + ws ! (length ws - 7)
                     + ssig0 (ws ! (length ws - 15)) + ws ! (length ws - 16)]"

definition schedule :: "w32 list \<Rightarrow> w32 list" where
  "schedule blk = (next_word ^^ 48) blk"

definition round :: "w32 \<times> w32 \<Rightarrow> w32 list \<Rightarrow> w32 list" where
  "round kw s =
     (let a = s ! 0; b = s ! 1; c = s ! 2; d = s ! 3; e = s ! 4; f = s ! 5; g = s ! 6; h = s ! 7;
          t1 = h + bsig1 e + ch e f g + fst kw + snd kw;
          t2 = bsig0 a + maj a b c
      in [t1 + t2, a, b, c, d + t1, e, f, g])"

definition compress :: "w32 list \<Rightarrow> w32 list \<Rightarrow> w32 list" where
  "compress blk hs = map2 (+) hs (fold round (zip K256 (schedule blk)) hs)"

definition sha256 :: "byte list \<Rightarrow> byte list" where
  "sha256 m = concat (map (\<lambda>w. map (\<lambda>i. ucast (drop_bit (8 * i) w)) [3, 2, 1, 0])
                      (fold compress (blocks (be_words (pad m))) H256))"

definition hex_digit :: "nat \<Rightarrow> char" where
  "hex_digit n = ''0123456789abcdef'' ! n"

definition hexdigest :: "byte list \<Rightarrow> string" where
  "hexdigest bs = concat (map (\<lambda>b. [hex_digit (unat b div 16), hex_digit (unat b mod 16)]) bs)"

definition encode :: "string \<Rightarrow> byte list" where
  "encode s = map of_char s"

subsection \<open>Configuration\<close>

text \<open>
  The constants at the head of \<^verbatim>\<open>setup-database.py\<close> (lines 14 to 20). They are
  credentials, so the model takes them as a parameter: every theorem holds for the
  values in the source and for any others.
\<close>

record settings =
  DATABASE_URL :: string
  JWT_SECRET :: string
  ADMIN_EMAIL :: string
  ADMIN_PASSWORD :: string
  ADMIN_NAME :: string
  ADMIN_ROLE :: string

text \<open>\<^verbatim>\<open>hash_password\<close>, lines 22 to 24:
  \<^verbatim>\<open>hashlib.sha256((password + JWT_SECRET).encode()).hexdigest()\<close>.\<close>

definition hash_password :: "settings \<Rightarrow> string \<Rightarrow> string" where
  "hash_password cfg password = hexdigest (sha256 (encode (password @ JWT_SECRET cfg)))"

text \<open>One entry of \<^verbatim>\<open>CONNECTION_ATTEMPTS\<close> (\<^verbatim>\<open>setup-with-ipv6.py\<close>, lines 12 to 40).\<close>

record config =
  host :: string
  port :: nat
  database :: string
  user :: string
  password :: string
  sslmode :: string

definition CONNECTION_ATTEMPTS :: "string \<Rightarrow> config list" where
  "CONNECTION_ATTEMPTS pw =
    [\<lparr>host = ''db.iithtbuedvwmtbagquxy.supabase.co'', port = 5432, database = ''postgres'',
      user = ''postgres'', password = pw, sslmode = ''require''\<rparr>,
     \<lparr>host = ''2600:1f16:1cd0:3300:b302:cf8b:1d42:4843'', port = 5432, database = ''postgres'',
      user = ''postgres'', password = pw, sslmode = ''require''\<rparr>,
     \<lparr>host = ''db.iithtbuedvwmtbagquxy.supabase.co'', port = 6543, database = ''postgres'',
      user = ''postgres'', password = pw, sslmode = ''require''\<rparr>]"

subsection \<open>The database\<close>

text \<open>
  Modelled from the spec: the tables are declared in \<^verbatim>\<open>database/schema.sql\<close>, which is
  not among the sources. The rows have the columns the spec's data model gives them.
  Generated ids are taken from a sequence; timestamps are natural numbers; the JSON
  text of \<open>details\<close> is kept as the list of its members.
\<close>

record user_row =
  u_id :: nat
  u_email :: string
  u_name :: string
  u_role :: string
  u_created_at :: nat
  u_updated_at :: nat

type_synonym json = "(string \<times> string) list"

record audit_row =
  a_id :: nat
  a_user_id :: nat
  a_action :: string
  a_entity_type :: string
  a_entity_id :: nat
  a_details :: json
  a_created_at :: nat

text \<open>
  A database: the base tables of schema \<open>public\<close> by name, the rows of \<open>users\<close> and
  \<open>audit_log\<close>, the row counts of \<open>projects\<close> and \<open>bugs\<close> (the scripts only count them),
  and the two id sequences.
\<close>

record db =
  tables :: "string list"
  users :: "user_row list"
  audit_log :: "audit_row list"
  projects :: nat
  bugs :: nat
  users_seq :: nat
  audit_seq :: nat

subsection \<open>Exceptions\<close>

text \<open>
  A \<^verbatim>\<open>psycopg2.Error\<close> carries its class, its text \<^verbatim>\<open>str(e)\<close>, and the server's
  \<^verbatim>\<open>pgcode\<close> and \<^verbatim>\<open>pgerror\<close> (both \<^verbatim>\<open>None\<close> for an error raised on the client side).
\<close>

datatype db_error =
  PgError (err_class: string) (err_str: string) (pgcode: "string option") (pgerror: "string option")

text \<open>The instances of Python's \<^verbatim>\<open>Exception\<close> that the scripts can meet.\<close>

datatype exception =
    DbError db_error
  | FileNotFoundError string
  | OtherException string string

text \<open>What propagates: an \<^verbatim>\<open>Exception\<close>, or the \<^verbatim>\<open>SystemExit\<close> of \<^verbatim>\<open>sys.exit\<close>, which
  \<^verbatim>\<open>except Exception\<close> does not catch.\<close>

datatype raised = Exc exception | SystemExit nat

fun exc_class :: "exception \<Rightarrow> string" where
  "exc_class (DbError e) = err_class e"
| "exc_class (FileNotFoundError m) = ''FileNotFoundError''"
| "exc_class (OtherException c m) = c"

fun exc_str :: "exception \<Rightarrow> string" where
  "exc_str (DbError e) = err_str e"
| "exc_str (FileNotFoundError m) = m"
| "exc_str (OtherException c m) = m"

definition str_opt :: "string option \<Rightarrow> string" where
  "str_opt x = (case x of None \<Rightarrow> ''None'' | Some s \<Rightarrow> s)"

fun str_nat :: "nat \<Rightarrow> string" where
  "str_nat n = (if n < 10 then [hex_digit n] else str_nat (n div 10) @ [hex_digit (n mod 10)])"

declare str_nat.simps [simp del]

subsection \<open>The world of a run\<close>

text \<open>The arguments of one call of \<^verbatim>\<open>psycopg2.connect\<close>: the URL form of
  \<^verbatim>\<open>setup-database.py\<close> (URL, \<open>sslmode\<close>, \<open>connect_timeout\<close>) and the keyword form of
  \<^verbatim>\<open>setup-with-ipv6.py\<close> (the configuration, \<open>connect_timeout\<close>).\<close>

datatype connect_args = ConnectUrl string string nat | ConnectKw config nat

fun connect_timeout :: "connect_args \<Rightarrow> nat" where
  "connect_timeout (ConnectUrl url mode t) = t"
| "connect_timeout (ConnectKw c t) = t"

datatype file_result = Contents string | Missing | Unreadable string string

text \<open>
  The world answers: does the server accept a connection (\<open>None\<close>) or does the call
  raise; what does a path hold; what does the server make of a SQL script; does the
  \<open>n\<close>-th request on the connection fail for a reason of the server or the network
  before it has any effect; and what is \<^verbatim>\<open>NOW()\<close>.

  A script is text to the program: its meaning belongs to the server. The server's
  answer to a script run on the database \<open>d\<close> has two parts. The first is what the
  script has made durable by itself, through transaction control of its own (a
  \<^verbatim>\<open>COMMIT\<close> among its statements): the committed database as it stands when the
  statement returns or fails, \<open>None\<close> when the script has committed nothing. The second
  is the error that the statement raises, or the database as the open transaction sees
  it afterwards. So a script may fail after a part of it has become durable.
\<close>

record world =
  server_accepts :: "connect_args \<Rightarrow> exception option"
  files :: "string \<Rightarrow> file_result"
  server_script :: "string \<Rightarrow> db \<Rightarrow> db option \<times> (db_error + db)"
  fault :: "nat \<Rightarrow> db_error option"
  now :: nat

subsection \<open>SQL statements of the scripts and their meaning\<close>

datatype stmt =
    Script string
  | SelectTables
  | SelectUsersByEmail string
  | UpdateUser string string string
  | InsertUser string string string
  | InsertAudit nat string string nat json
  | SelectCounts

datatype request = Execute stmt | Commit

datatype rows =
    NoRows
  | NameRows "string list"
  | UserRows "user_row list"
  | IdRows "nat list"
  | CountRows "nat list list"

definition undefined_table :: "string \<Rightarrow> db_error" where
  "undefined_table t =
     PgError ''psycopg2.errors.UndefinedTable''
       (''relation '' @ t @ '' does not exist'') (Some ''42P01'')
       (Some (''ERROR:  relation '' @ t @ '' does not exist''))"

text \<open>The first of the named tables that the database lacks.\<close>

fun missing_table :: "db \<Rightarrow> string list \<Rightarrow> string option" where
  "missing_table d [] = None"
| "missing_table d (t # ts) = (if t \<in> set (tables d) then missing_table d ts else Some t)"

text \<open>
  \<^item> \<open>Script s\<close>: \<^verbatim>\<open>cursor.execute(<file contents>)\<close>.
  \<^item> \<open>SelectTables\<close>: the query on \<^verbatim>\<open>information_schema.tables\<close> (the catalogue keeps
    the names in order).
  \<^item> \<open>SelectUsersByEmail e\<close>: \<^verbatim>\<open>SELECT ... FROM users WHERE email = e\<close> (lines 71, 110 of
    \<^verbatim>\<open>setup-database.py\<close>, line 102 of \<^verbatim>\<open>setup-with-ipv6.py\<close>; the columns selected are
    taken from the rows where they are printed).
  \<^item> \<open>UpdateUser n r e\<close>:
    \<^verbatim>\<open>UPDATE users SET name = n, role = r, updated_at = NOW() WHERE email = e RETURNING id\<close>.
  \<^item> \<open>InsertUser e n r\<close>: \<^verbatim>\<open>INSERT INTO users (email, name, role, created_at, updated_at)
    VALUES (e, n, r, NOW(), NOW()) RETURNING id\<close>.
  \<^item> \<open>InsertAudit u a t i j\<close>: \<^verbatim>\<open>INSERT INTO audit_log (user_id, action, entity_type,
    entity_id, details, created_at) VALUES (u, a, t, i, j, NOW())\<close>.
  \<^item> \<open>SelectCounts\<close>: the four \<^verbatim>\<open>COUNT(*)\<close> of lines 125 to 131.
\<close>

fun run_stmt :: "world \<Rightarrow> stmt \<Rightarrow> db \<Rightarrow> db_error + (rows \<times> db)" where
  "run_stmt w (Script s) d =
     (case snd (server_script w s d) of Inl e \<Rightarrow> Inl e | Inr d' \<Rightarrow> Inr (NoRows, d'))"
| "run_stmt w SelectTables d = Inr (NameRows (tables d), d)"
| "run_stmt w (SelectUsersByEmail e) d =
     (case missing_table d [''users''] of
        Some t \<Rightarrow> Inl (undefined_table t)
      | None \<Rightarrow> Inr (UserRows (filter (\<lambda>u. u_email u = e) (users d)), d))"
| "run_stmt w (UpdateUser n r e) d =
     (case missing_table d [''users''] of
        Some t \<Rightarrow> Inl (undefined_table t)
      | None \<Rightarrow>
          Inr (IdRows (map u_id (filter (\<lambda>u. u_email u = e) (users d))),
               d\<lparr>users := map (\<lambda>u. if u_email u = e
                                      then u\<lparr>u_name := n, u_role := r, u_updated_at := now w\<rparr>
                                      else u) (users d)\<rparr>))"
| "run_stmt w (InsertUser e n r) d =
     (case missing_table d [''users''] of
        Some t \<Rightarrow> Inl (undefined_table t)
      | None \<Rightarrow>
          Inr (IdRows [Suc (users_seq d)],
               d\<lparr>users := users d @
                    [\<lparr>u_id = Suc (users_seq d), u_email = e, u_name = n, u_role = r,
                      u_created_at = now w, u_updated_at = now w\<rparr>],
                 users_seq := Suc (users_seq d)\<rparr>))"
| "run_stmt w (InsertAudit u a t i j) d =
     (case missing_table d [''audit_log''] of
        Some t \<Rightarrow> Inl (undefined_table t)
      | None \<Rightarrow>
          Inr (NoRows,
               d\<lparr>audit_log := audit_log d @
                    [\<lparr>a_id = Suc (audit_seq d), a_user_id = u, a_action = a, a_entity_type = t,
                      a_entity_id = i, a_details = j, a_created_at = now w\<rparr>],
                 audit_seq := Suc (audit_seq d)\<rparr>))"
| "run_stmt w SelectCounts d =
     (case missing_table d [''users'', ''projects'', ''bugs'', ''audit_log''] of
        Some t \<Rightarrow> Inl (undefined_table t)
      | None \<Rightarrow>
          Inr (CountRows [[length (users d), projects d, bugs d, length (audit_log d)]], d))"

text \<open>What a statement makes durable by itself: only a script can.\<close>

fun own_commit :: "world \<Rightarrow> stmt \<Rightarrow> db \<Rightarrow> db option" where
  "own_commit w (Script s) d = fst (server_script w s d)"
| "own_commit w SelectTables d = None"
| "own_commit w (SelectUsersByEmail e) d = None"
| "own_commit w (UpdateUser n r e) d = None"
| "own_commit w (InsertUser e n r) d = None"
| "own_commit w (InsertAudit u a t i j) d = None"
| "own_commit w SelectCounts d = None"

subsection \<open>Programs\<close>

text \<open>
  The state of the process and of what it talks to: the lines printed, the calls of
  \<^verbatim>\<open>psycopg2.connect\<close>, the requests sent on the connection, the database as the open
  transaction sees it (\<open>txn\<close>) and the committed database (\<open>durable\<close>). What is not
  committed when the process ends is lost, so \<open>durable\<close> is what a run leaves behind.
\<close>

record state =
  console :: "string list"
  attempts :: "connect_args list"
  sent :: "request list"
  txn :: db
  durable :: db

datatype 'a result = Return 'a | Raise raised

type_synonym 'a prog = "state \<Rightarrow> 'a result \<times> state"

definition ret :: "'a \<Rightarrow> 'a prog" where
  "ret x p = (Return x, p)"

definition raise :: "raised \<Rightarrow> 'a prog" where
  "raise e p = (Raise e, p)"

definition andthen :: "'a prog \<Rightarrow> ('a \<Rightarrow> 'b prog) \<Rightarrow> 'b prog" where
  "andthen m f p = (case m p of (Return x, p') \<Rightarrow> f x p' | (Raise e, p') \<Rightarrow> (Raise e, p'))"

definition seq :: "unit prog \<Rightarrow> 'a prog \<Rightarrow> 'a prog" where
  "seq m n = andthen m (\<lambda>_. n)"

definition block :: "unit prog list \<Rightarrow> unit prog" where
  "block ms = foldr seq ms (ret ())"

text \<open>\<^verbatim>\<open>try: m  except Exception as e: h e\<close>. A \<^verbatim>\<open>SystemExit\<close> passes through.\<close>

definition try_except :: "'a prog \<Rightarrow> (exception \<Rightarrow> 'a prog) \<Rightarrow> 'a prog" where
  "try_except m h p = (case m p of (Raise (Exc e), p') \<Rightarrow> h e p' | r \<Rightarrow> r)"

definition print :: "string \<Rightarrow> unit prog" where
  "print l p = (Return (), p\<lparr>console := console p @ [l]\<rparr>)"

definition sys_exit :: "nat \<Rightarrow> 'a prog" where
  "sys_exit n = raise (SystemExit n)"

text \<open>\<^verbatim>\<open>traceback.print_exc()\<close>: the header and the line naming the exception; the
  frames between them (file names and line numbers of the installation) are left out.\<close>

definition print_exc :: "exception \<Rightarrow> unit prog" where
  "print_exc e = block [print ''Traceback (most recent call last):'',
                        print (exc_class e @ '': '' @ exc_str e)]"

text \<open>\<^verbatim>\<open>psycopg2.connect\<close>: the connection is named by the arguments that opened it; its
  transaction starts from the committed database.\<close>

definition connect :: "world \<Rightarrow> connect_args \<Rightarrow> connect_args prog" where
  "connect w args p =
     (let p' = p\<lparr>attempts := attempts p @ [args]\<rparr>
      in case server_accepts w args of
           Some e \<Rightarrow> (Raise (Exc e), p')
         | None \<Rightarrow> (Return args, p'\<lparr>txn := durable p\<rparr>))"

text \<open>\<^verbatim>\<open>cursor.execute\<close>: the request goes out; it fails if the world fails it or if the
  statement fails on the transaction's database, and otherwise yields the rows. What
  the statement has committed by itself is durable whether it then fails or not.\<close>

definition execute :: "world \<Rightarrow> stmt \<Rightarrow> rows prog" where
  "execute w q p =
     (let p' = p\<lparr>sent := sent p @ [Execute q]\<rparr>
      in case fault w (length (sent p)) of
           Some e \<Rightarrow> (Raise (Exc (DbError e)), p')
         | None \<Rightarrow>
            (let p'' = (case own_commit w q (txn p) of
                          None \<Rightarrow> p'
                        | Some c \<Rightarrow> p'\<lparr>durable := c\<rparr>)
             in case run_stmt w q (txn p) of
                  Inl e \<Rightarrow> (Raise (Exc (DbError e)), p'')
                | Inr (r, d) \<Rightarrow> (Return r, p''\<lparr>txn := d\<rparr>)))"

text \<open>\<^verbatim>\<open>conn.commit()\<close>: what the transaction did becomes the committed database.\<close>

definition commit :: "world \<Rightarrow> unit prog" where
  "commit w p =
     (let p' = p\<lparr>sent := sent p @ [Commit]\<rparr>
      in case fault w (length (sent p)) of
           Some e \<Rightarrow> (Raise (Exc (DbError e)), p')
         | None \<Rightarrow> (Return (), p'\<lparr>durable := txn p\<rparr>))"

text \<open>\<^verbatim>\<open>cursor.close(); conn.close()\<close>: what was not committed is dropped.\<close>

definition close :: "unit prog" where
  "close p = (Return (), p\<lparr>txn := durable p\<rparr>)"

text \<open>\<^verbatim>\<open>with open(path, 'r') as f: f.read()\<close>; \<open>no_such_file\<close> is the text of the
  \<^verbatim>\<open>FileNotFoundError\<close> that \<^verbatim>\<open>open\<close> raises, the path between single quotes.\<close>

definition no_such_file :: "string \<Rightarrow> string" where
  "no_such_file path = ''[Errno 2] No such file or directory: '' @ [CHR 0x27] @ path @ [CHR 0x27]"

definition open_read :: "world \<Rightarrow> string \<Rightarrow> string prog" where
  "open_read w path =
     (case files w path of
        Contents s \<Rightarrow> ret s
      | Missing \<Rightarrow> raise (Exc (FileNotFoundError (no_such_file path)))
      | Unreadable c m \<Rightarrow> raise (Exc (OtherException c m)))"

text \<open>\<^verbatim>\<open>cursor.fetchone()\<close> on user rows, and \<^verbatim>\<open>cursor.fetchone()[0]\<close> after
  \<^verbatim>\<open>RETURNING id\<close>, which raises \<^verbatim>\<open>TypeError\<close> when there is no row.\<close>

fun fetchone :: "rows \<Rightarrow> user_row option" where
  "fetchone (UserRows (u # us)) = Some u"
| "fetchone _ = None"

fun fetchone_id :: "rows \<Rightarrow> nat prog" where
  "fetchone_id (IdRows (i # is)) = ret i"
| "fetchone_id _ =
     raise (Exc (OtherException ''TypeError'' ''NoneType object is not subscriptable''))"

subsection \<open>\<^verbatim>\<open>setup-database.py\<close>\<close>

text \<open>Step 2, lines 42 to 50: the Schema Applier.\<close>

definition apply_schema :: "world \<Rightarrow> unit prog" where
  "apply_schema w =
     seq (print ''Creating database schema...'')
    (andthen (open_read w ''database/schema.sql'') (\<lambda>schema_sql.
       block [print ''   Executing schema.sql (409 lines)...'',
              andthen (execute w (Script schema_sql)) (\<lambda>_. ret ()),
              commit w,
              print ''Database schema created successfully!'']))"

text \<open>Step 3, lines 52 to 65 (and lines 87 to 99 of \<^verbatim>\<open>setup-with-ipv6.py\<close>, under another
  heading): list the tables.\<close>

fun fetchall_names :: "rows \<Rightarrow> string list" where
  "fetchall_names (NameRows ns) = ns"
| "fetchall_names _ = []"

definition report_tables :: "world \<Rightarrow> string \<Rightarrow> unit prog" where
  "report_tables w heading =
     seq (print heading)
    (andthen (execute w SelectTables) (\<lambda>r.
       block (print (''Created '' @ str_nat (length (fetchall_names r)) @ '' tables:'')
              # map (\<lambda>table. print (''   '' @ table)) (fetchall_names r))))"

text \<open>Step 4, lines 67 to 90: look the administrator up by email, update or insert the
  row, and yield \<^verbatim>\<open>user_id\<close>.\<close>

definition upsert_user :: "world \<Rightarrow> settings \<Rightarrow> nat prog" where
  "upsert_user w cfg =
     seq (print ''Creating admin account...'')
    (andthen (execute w (SelectUsersByEmail (ADMIN_EMAIL cfg))) (\<lambda>r.
       case fetchone r of
         Some existing \<Rightarrow>
           seq (print ''User already exists, updating...'')
          (andthen (execute w (UpdateUser (ADMIN_NAME cfg) (ADMIN_ROLE cfg) (ADMIN_EMAIL cfg)))
             (\<lambda>_. ret (u_id existing)))
       | None \<Rightarrow>
           andthen (execute w (InsertUser (ADMIN_EMAIL cfg) (ADMIN_NAME cfg) (ADMIN_ROLE cfg)))
             (\<lambda>r'. andthen (fetchone_id r') (\<lambda>user_id.
                seq (print (''User created with ID: '' @ str_nat user_id)) (ret user_id)))))"

text \<open>Step 5, lines 92 to 104: the password hash goes into a new audit-log row.\<close>

definition details :: "settings \<Rightarrow> json" where
  "details cfg = [(''email'', ADMIN_EMAIL cfg),
                  (''password_hash'', hash_password cfg (ADMIN_PASSWORD cfg))]"

definition store_hash :: "world \<Rightarrow> settings \<Rightarrow> nat \<Rightarrow> unit prog" where
  "store_hash w cfg user_id =
     block [andthen (execute w (InsertAudit user_id ''password_created'' ''user'' user_id
                                  (details cfg))) (\<lambda>_. ret ()),
            print ''Password hash stored securely'']"

text \<open>The Admin Upserter: steps 4 and 5.\<close>

definition admin_upserter :: "world \<Rightarrow> settings \<Rightarrow> unit prog" where
  "admin_upserter w cfg = andthen (upsert_user w cfg) (store_hash w cfg)"

text \<open>Step 6, lines 108 to 121.\<close>

definition verify_admin :: "world \<Rightarrow> settings \<Rightarrow> unit prog" where
  "verify_admin w cfg =
     seq (print ''Verifying admin account...'')
    (andthen (execute w (SelectUsersByEmail (ADMIN_EMAIL cfg))) (\<lambda>r.
       case fetchone r of
         Some u \<Rightarrow>
           block [print ''Admin account verified:'',
                  print (''   ID:    '' @ str_nat (u_id u)),
                  print (''   Email: '' @ u_email u),
                  print (''   Name:  '' @ u_name u),
                  print (''   Role:  '' @ u_role u)]
       | None \<Rightarrow> ret ()))"

text \<open>Step 7, lines 123 to 137: \<^verbatim>\<open>stats = cursor.fetchone()\<close>, then \<^verbatim>\<open>stats[0]\<close> to
  \<^verbatim>\<open>stats[3]\<close>.\<close>

definition fetchone_counts :: "rows \<Rightarrow> nat list prog" where
  "fetchone_counts r =
     (case r of
        CountRows (c # cs) \<Rightarrow>
          if 4 \<le> length c then ret c
          else raise (Exc (OtherException ''IndexError'' ''tuple index out of range''))
      | _ \<Rightarrow> raise (Exc (OtherException ''TypeError'' ''NoneType object is not subscriptable'')))"

definition report_stats :: "world \<Rightarrow> unit prog" where
  "report_stats w =
     seq (print ''Database Statistics:'')
    (andthen (execute w SelectCounts) (\<lambda>r.
     andthen (fetchone_counts r) (\<lambda>stats.
       block [print (''   Users:     '' @ str_nat (stats ! 0)),
              print (''   Projects:  '' @ str_nat (stats ! 1)),
              print (''   Bugs:      '' @ str_nat (stats ! 2)),
              print (''   Audit Log: '' @ str_nat (stats ! 3))])))"

text \<open>Lines 139 to 152.\<close>

definition print_success :: "settings \<Rightarrow> unit prog" where
  "print_success cfg =
     block [print ''Setup Complete!'',
            print ''Login Credentials:'',
            print (''   Email:    '' @ ADMIN_EMAIL cfg),
            print (''   Password: '' @ ADMIN_PASSWORD cfg),
            print (''   Role:     '' @ ADMIN_ROLE cfg),
            print ''Dashboard URL:'',
            print ''   https://cto-dashboard-qyypjst6d-axaiinovation.vercel.app'',
            print ''Next Steps:'',
            print ''   1. Login to the dashboard'',
            print ''   2. Import projects: ./import-via-supabase.sh'',
            print ''   3. Add team members'',
            print ''   4. Customize branding'']"

text \<open>The body of the \<^verbatim>\<open>try\<close>, lines 31 to 155.\<close>

definition main_body :: "world \<Rightarrow> settings \<Rightarrow> unit prog" where
  "main_body w cfg =
     block [print ''Connecting to Supabase...'',
            andthen (connect w (ConnectUrl (DATABASE_URL cfg) ''require'' 10)) (\<lambda>_. ret ()),
            print ''Connected to database'',
            apply_schema w,
            report_tables w ''Verifying tables...'',
            admin_upserter w cfg,
            commit w,
            verify_admin w cfg,
            report_stats w,
            print_success cfg,
            close]"

text \<open>The three \<^verbatim>\<open>except\<close> clauses, lines 157 to 170, in their order.\<close>

fun handlers :: "exception \<Rightarrow> unit prog" where
  "handlers (DbError e) =
     block [print (''Database Error: '' @ err_str e),
            print (''Error Code: '' @ str_opt (pgcode e)),
            print (''Error Details: '' @ str_opt (pgerror e)),
            sys_exit 1]"
| "handlers (FileNotFoundError m) =
     block [print ''Error: database/schema.sql not found'',
            print ''   Make sure you're running this from the project root directory'',
            sys_exit 1]"
| "handlers (OtherException c m) =
     block [print (''Error: '' @ m),
            print_exc (OtherException c m),
            sys_exit 1]"

definition main_setup_database :: "world \<Rightarrow> settings \<Rightarrow> unit prog" where
  "main_setup_database w cfg =
     seq (print ''CTO Dashboard - Complete Database Setup'')
         (try_except (main_body w cfg) handlers)"

subsection \<open>\<^verbatim>\<open>setup-with-ipv6.py\<close>\<close>

text \<open>
  \<^verbatim>\<open>s[:n]\<close>, the first \<open>n\<close> code points of a text, on its UTF-8 encoding: a byte
  \<^verbatim>\<open>10xxxxxx\<close> continues the code point begun before it, every other byte begins one.
\<close>

definition continuation :: "char \<Rightarrow> bool" where
  "continuation c = (128 \<le> (of_char c :: nat) \<and> (of_char c :: nat) < 192)"

fun str_take :: "nat \<Rightarrow> string \<Rightarrow> string" where
  "str_take n [] = []"
| "str_take n (c # cs) =
     (if continuation c then c # str_take n cs
      else case n of 0 \<Rightarrow> [] | Suc m \<Rightarrow> c # str_take m cs)"

text \<open>\<^verbatim>\<open>try_connection\<close>, lines 42 to 51.\<close>

definition try_connection :: "world \<Rightarrow> config \<Rightarrow> connect_args option prog" where
  "try_connection w config =
     try_except
       (seq (print (''  Trying: '' @ host config @ '':'' @ str_nat (port config) @ ''...''))
       (andthen (connect w (ConnectKw config 10)) (\<lambda>conn.
        seq (print ''SUCCESS!'') (ret (Some conn)))))
       (\<lambda>e. seq (print (''Failed: '' @ str_take 50 (exc_str e))) (ret None))"

text \<open>The loop of lines 57 to 62: \<^verbatim>\<open>for i, config in enumerate(CONNECTION_ATTEMPTS, 1)\<close>,
  left by \<^verbatim>\<open>break\<close> at the first connection.\<close>

fun connector :: "world \<Rightarrow> nat \<Rightarrow> config list \<Rightarrow> connect_args option prog" where
  "connector w i [] = ret None"
| "connector w i (config # rest) =
     seq (print (''Attempt '' @ str_nat i @ '':''))
    (andthen (try_connection w config) (\<lambda>conn.
       case conn of Some c \<Rightarrow> ret (Some c) | None \<Rightarrow> connector w (Suc i) rest))"

text \<open>Lines 64 to 70.\<close>

definition all_failed :: "unit prog" where
  "all_failed =
     block [print ''All connection attempts failed'',
            print ''Please use Supabase SQL Editor:'',
            print ''   https://app.supabase.com/project/iithtbuedvwmtbagquxy/sql/new'',
            print ''   Then execute: database/complete-setup.sql'',
            sys_exit 1]"

text \<open>Lines 78 to 85: the Schema Applier of this script.\<close>

definition apply_setup :: "world \<Rightarrow> unit prog" where
  "apply_setup w =
     andthen (open_read w ''database/complete-setup.sql'') (\<lambda>sql.
       block [print ''Executing complete-setup.sql...'',
              andthen (execute w (Script sql)) (\<lambda>_. ret ()),
              commit w,
              print ''Setup SQL executed successfully!''])"

text \<open>Lines 101 to 112.\<close>

definition verify_admin_ipv6 :: "world \<Rightarrow> unit prog" where
  "verify_admin_ipv6 w =
     andthen (execute w (SelectUsersByEmail ''jonathan.mitchell.anderson@gmail.com'')) (\<lambda>r.
       case fetchone r of
         Some u \<Rightarrow>
           block [print ''Admin user created:'',
                  print (''   Email: '' @ u_email u),
                  print (''   Name:  '' @ u_name u),
                  print (''   Role:  '' @ u_role u)]
       | None \<Rightarrow> ret ())"

text \<open>Lines 117 to 124; the password printed is a literal of the source and, like the
  other credentials, a parameter here.\<close>

definition print_success_ipv6 :: "string \<Rightarrow> unit prog" where
  "print_success_ipv6 admin_pw =
     block [print ''Setup Complete!'',
            print ''Login Credentials:'',
            print ''   Email:    jonathan.mitchell.anderson@gmail.com'',
            print (''   Password: '' @ admin_pw),
            print ''   Role:     cto'',
            print ''Dashboard:'',
            print ''   https://cto-dashboard-qyypjst6d-axaiinovation.vercel.app'']"

text \<open>The \<^verbatim>\<open>try\<close> of lines 72 to 130.\<close>

definition setup_body :: "world \<Rightarrow> string \<Rightarrow> unit prog" where
  "setup_body w admin_pw =
     block [print ''Connected! Executing setup...'',
            apply_setup w,
            report_tables w ''Verifying setup...'',
            verify_admin_ipv6 w,
            close,
            print_success_ipv6 admin_pw]"

definition setup_handler :: "exception \<Rightarrow> unit prog" where
  "setup_handler e =
     block [print (''Error during setup: '' @ exc_str e),
            print_exc e,
            sys_exit 1]"

definition main_setup_with_ipv6 :: "world \<Rightarrow> string \<Rightarrow> string \<Rightarrow> unit prog" where
  "main_setup_with_ipv6 w pw admin_pw =
     seq (print ''Attempting Database Connection...'')
    (andthen (connector w 1 (CONNECTION_ATTEMPTS pw)) (\<lambda>conn.
       case conn of
         None \<Rightarrow> all_failed
       | Some c \<Rightarrow> try_except (setup_body w admin_pw) setup_handler))"

subsection \<open>Running a script\<close>

text \<open>A process starts with an empty console and nothing sent; \<open>d\<close> is the committed
  database it finds.\<close>

definition start :: "db \<Rightarrow> state" where
  "start d = \<lparr>console = [], attempts = [], sent = [], txn = d, durable = d\<rparr>"

text \<open>The exit status: 0 when \<^verbatim>\<open>main\<close> returns, the argument of \<^verbatim>\<open>sys.exit\<close>, and 1 when
  an exception reaches the top level.\<close>

fun exit_code :: "'a result \<times> state \<Rightarrow> nat" where
  "exit_code (Return x, p) = 0"
| "exit_code (Raise (SystemExit n), p) = n"
| "exit_code (Raise (Exc e), p) = 1"

section \<open>Notions used in the properties\<close>

text \<open>The statements that only read: the three \<^verbatim>\<open>SELECT\<close>s.\<close>

fun read_only :: "stmt \<Rightarrow> bool" where
  "read_only SelectTables = True"
| "read_only (SelectUsersByEmail e) = True"
| "read_only SelectCounts = True"
| "read_only _ = False"

fun is_query :: "request \<Rightarrow> bool" where
  "is_query (Execute q) = read_only q"
| "is_query Commit = False"

text \<open>A program reads only, from a state: it leaves the transaction's database and the
  committed database as they were, and every request it sends is a read-only statement.\<close>

definition reads_only :: "'a prog \<Rightarrow> state \<Rightarrow> bool" where
  "reads_only m p =
     (txn (snd (m p)) = txn p \<and> durable (snd (m p)) = durable p \<and>
      list_all is_query (drop (length (sent p)) (sent (snd (m p)))))"

text \<open>The world refuses a configuration: \<^verbatim>\<open>psycopg2.connect(**config, connect_timeout=10)\<close>
  raises.\<close>

definition refused :: "world \<Rightarrow> config \<Rightarrow> bool" where
  "refused w c = (server_accepts w (ConnectKw c 10) \<noteq> None)"

text \<open>The rows of the administrator's email, and the audit rows of the action
  \<^verbatim>\<open>password_created\<close>.\<close>

definition admin_rows :: "settings \<Rightarrow> db \<Rightarrow> user_row list" where
  "admin_rows cfg d = filter (\<lambda>u. u_email u = ADMIN_EMAIL cfg) (users d)"

definition password_rows :: "db \<Rightarrow> audit_row list" where
  "password_rows d = filter (\<lambda>a. a_action a = ''password_created'') (audit_log d)"

text \<open>The audit row that step 5 writes for user \<open>uid\<close> on database \<open>d\<close>.\<close>

definition audit_entry :: "settings \<Rightarrow> world \<Rightarrow> db \<Rightarrow> nat \<Rightarrow> audit_row" where
  "audit_entry cfg w d uid =
     \<lparr>a_id = Suc (audit_seq d), a_user_id = uid, a_action = ''password_created'',
      a_entity_type = ''user'', a_entity_id = uid, a_details = details cfg, a_created_at = now w\<rparr>"

text \<open>What steps 4 and 5 together make of a database when every statement succeeds
  (lemma \<open>admin_upserter_healthy\<close> below proves that this is what the program does).\<close>

definition upsert_effect :: "settings \<Rightarrow> world \<Rightarrow> db \<Rightarrow> db" where
  "upsert_effect cfg w d =
    (case admin_rows cfg d of
       [] \<Rightarrow> d\<lparr>users := users d @
                    [\<lparr>u_id = Suc (users_seq d), u_email = ADMIN_EMAIL cfg,
                      u_name = ADMIN_NAME cfg, u_role = ADMIN_ROLE cfg,
                      u_created_at = now w, u_updated_at = now w\<rparr>],
               users_seq := Suc (users_seq d),
               audit_log := audit_log d @ [audit_entry cfg w d (Suc (users_seq d))],
               audit_seq := Suc (audit_seq d)\<rparr>
     | u # us \<Rightarrow> d\<lparr>users := map (\<lambda>u. if u_email u = ADMIN_EMAIL cfg
                    then u\<lparr>u_name := ADMIN_NAME cfg, u_role := ADMIN_ROLE cfg, u_updated_at := now w\<rparr>
                    else u) (users d),
               audit_log := audit_log d @ [audit_entry cfg w d (u_id u)],
               audit_seq := Suc (audit_seq d)\<rparr>)"



text \<open>The number of commits a process has sent.\<close>

definition commits :: "state \<Rightarrow> nat" where
  "commits p = length (filter (\<lambda>r. r = Commit) (sent p))"

text \<open>A program is without exit when it never raises \<^verbatim>\<open>SystemExit\<close>.\<close>

definition no_exit :: "'a prog \<Rightarrow> bool" where
  "no_exit m = (\<forall>p n. fst (m p) \<noteq> Raise (SystemExit n))"

text \<open>The script \<open>sql\<close>, sent as the first request on a connection that sees the database
  \<open>d\<close>, raises the database error \<open>e\<close>: the world fails the request, or the server
  fails the script.\<close>

definition script_fails :: "world \<Rightarrow> string \<Rightarrow> db \<Rightarrow> db_error \<Rightarrow> bool" where
  "script_fails w sql d e =
     (fault w 0 = Some e \<or> (fault w 0 = None \<and> snd (server_script w sql d) = Inl e))"

text \<open>What is durable once the script \<open>sql\<close> has been sent as the first request, before
  any commit of the program: what the script has committed by itself, and \<open>d\<close> if that is
  nothing or if the world has failed the request.\<close>

definition left_by_script :: "world \<Rightarrow> string \<Rightarrow> db \<Rightarrow> db" where
  "left_by_script w sql d =
     (case fault w 0 of
        Some e \<Rightarrow> d
      | None \<Rightarrow> (case fst (server_script w sql d) of None \<Rightarrow> d | Some c \<Rightarrow> c))"

text \<open>
  The requests of a complete run of \<^verbatim>\<open>setup-database.py\<close>, in the order of the source,
  when the schema script \<open>sql\<close> has made the database \<open>S1\<close>: the script and the commit of
  lines 48 and 49; the table listing of step 3; the look-up of step 4 and, as it finds a
  row or not, the \<^verbatim>\<open>UPDATE\<close> or the \<^verbatim>\<open>INSERT\<close>; the audit insert of step 5 with the
  user id of step 4; the commit of line 106; the two reads of steps 6 and 7. The
  theorems below prove that this is what the program sends.
\<close>

definition upsert_request :: "settings \<Rightarrow> db \<Rightarrow> request" where
  "upsert_request cfg d =
     (case admin_rows cfg d of
        [] \<Rightarrow> Execute (InsertUser (ADMIN_EMAIL cfg) (ADMIN_NAME cfg) (ADMIN_ROLE cfg))
      | u # us \<Rightarrow> Execute (UpdateUser (ADMIN_NAME cfg) (ADMIN_ROLE cfg) (ADMIN_EMAIL cfg)))"

definition upsert_id :: "settings \<Rightarrow> db \<Rightarrow> nat" where
  "upsert_id cfg d = (case admin_rows cfg d of [] \<Rightarrow> Suc (users_seq d) | u # us \<Rightarrow> u_id u)"

definition upserter_requests :: "settings \<Rightarrow> db \<Rightarrow> request list" where
  "upserter_requests cfg d =
     [Execute (SelectUsersByEmail (ADMIN_EMAIL cfg)),
      upsert_request cfg d,
      Execute (InsertAudit (upsert_id cfg d) ''password_created'' ''user'' (upsert_id cfg d)
                 (details cfg))]"

definition requests :: "settings \<Rightarrow> string \<Rightarrow> db \<Rightarrow> request list" where
  "requests cfg sql S1 =
     [Execute (Script sql), Commit, Execute SelectTables] @ upserter_requests cfg S1 @
     [Commit, Execute (SelectUsersByEmail (ADMIN_EMAIL cfg)), Execute SelectCounts]"

definition requests_ipv6 :: "string \<Rightarrow> request list" where
  "requests_ipv6 sql =
     [Execute (Script sql), Commit, Execute SelectTables,
      Execute (SelectUsersByEmail ''jonathan.mitchell.anderson@gmail.com'')]"

text \<open>
  The errors a run can meet, as conditions on the world it runs in. A connection error:
  the connect call raises (for \<^verbatim>\<open>setup-with-ipv6.py\<close>, each of the three does). A file
  error: the SQL file cannot be read. A database error: the server fails one of the
  requests of the run, that is, the world fails one of them, the server fails the
  script, or a table that a later statement names is not among those the script has
  left.
\<close>

definition file_error :: "world \<Rightarrow> string \<Rightarrow> bool" where
  "file_error w path =
     (case files w path of Contents s \<Rightarrow> False | Missing \<Rightarrow> True | Unreadable c m \<Rightarrow> True)"

definition connection_error :: "world \<Rightarrow> settings \<Rightarrow> bool" where
  "connection_error w cfg =
     (server_accepts w (ConnectUrl (DATABASE_URL cfg) ''require'' 10) \<noteq> None)"

definition database_error :: "world \<Rightarrow> db \<Rightarrow> bool" where
  "database_error w d =
     (case files w ''database/schema.sql'' of
        Contents sql \<Rightarrow>
          list_ex (\<lambda>n. fault w n \<noteq> None) [0..<9] \<or>
          (case snd (server_script w sql d) of
             Inl e \<Rightarrow> True
           | Inr S1 \<Rightarrow> list_ex (\<lambda>t. t \<notin> set (tables S1))
                        [''users'', ''projects'', ''bugs'', ''audit_log''])
      | Missing \<Rightarrow> False
      | Unreadable c m \<Rightarrow> False)"

definition connection_error_ipv6 :: "world \<Rightarrow> string \<Rightarrow> bool" where
  "connection_error_ipv6 w pw = list_all (refused w) (CONNECTION_ATTEMPTS pw)"

definition database_error_ipv6 :: "world \<Rightarrow> db \<Rightarrow> bool" where
  "database_error_ipv6 w d =
     (case files w ''database/complete-setup.sql'' of
        Contents sql \<Rightarrow>
          list_ex (\<lambda>n. fault w n \<noteq> None) [0..<4] \<or>
          (case snd (server_script w sql d) of
             Inl e \<Rightarrow> True
           | Inr S1 \<Rightarrow> ''users'' \<notin> set (tables S1))
      | Missing \<Rightarrow> False
      | Unreadable c m \<Rightarrow> False)"

subsection \<open>Example worlds\<close>

definition cfg0 :: settings where
  "cfg0 = \<lparr>DATABASE_URL = ''postgresql://postgres:pw@db.example.org:5432/postgres'',
           JWT_SECRET = ''s3cret'', ADMIN_EMAIL = ''admin@example.org'',
           ADMIN_PASSWORD = ''hunter2'', ADMIN_NAME = ''Admin'', ADMIN_ROLE = ''cto''\<rparr>"

definition db_empty :: db where
  "db_empty = \<lparr>tables = [], users = [], audit_log = [], projects = 0, bugs = 0,
               users_seq = 0, audit_seq = 0\<rparr>"

definition db_fresh :: db where
  "db_fresh = db_empty\<lparr>tables := [''audit_log'', ''bugs'', ''projects'', ''users'']\<rparr>"

definition db_admin :: db where
  "db_admin = db_fresh\<lparr>users := [\<lparr>u_id = 5, u_email = ''admin@example.org'', u_name = ''Old'',
                                   u_role = ''dev'', u_created_at = 1, u_updated_at = 1\<rparr>],
                        users_seq := 5\<rparr>"

text \<open>A world where everything works: the server accepts, the file is there, the script
  creates the four tables, nothing fails.\<close>

definition w_ok :: world where
  "w_ok = \<lparr>server_accepts = (\<lambda>a. None),
           files = (\<lambda>path. Contents ''CREATE TABLE users (...); ...''),
           server_script =
             (\<lambda>s d. (None, Inr (d\<lparr>tables := [''audit_log'', ''bugs'', ''projects'', ''users'']\<rparr>))),
           fault = (\<lambda>n. None),
           now = 7\<rparr>"

definition w_later :: world where
  "w_later = w_ok\<lparr>now := 9\<rparr>"

text \<open>The server cannot be reached; the server rejects the script with a syntax error;
  the SQL file is not there.\<close>

definition unreachable :: exception where
  "unreachable = DbError (PgError ''psycopg2.OperationalError''
                   ''could not translate host name to address'' None None)"

definition syntax_error :: db_error where
  "syntax_error = PgError ''psycopg2.errors.SyntaxError'' ''syntax error at or near CREAT''
                    (Some ''42601'') (Some ''ERROR:  syntax error at or near CREAT'')"

definition constraint_error :: db_error where
  "constraint_error = PgError ''psycopg2.errors.CheckViolation''
                        ''new row for relation audit_log violates check constraint''
                        (Some ''23514'')
                        (Some ''ERROR:  new row for relation audit_log violates check constraint'')"

text \<open>A world where all goes well until the sixth request, the insert into the audit
  log, which the server rejects.\<close>

definition w_audit_fails :: world where
  "w_audit_fails = w_ok\<lparr>fault := (\<lambda>n. if n = 5 then Some constraint_error else None)\<rparr>"

definition w_down :: world where
  "w_down = w_ok\<lparr>server_accepts := (\<lambda>a. Some unreachable)\<rparr>"

definition w_syntax :: world where
  "w_syntax = w_ok\<lparr>server_script := (\<lambda>s d. (None, Inl syntax_error))\<rparr>"

definition w_nofile :: world where
  "w_nofile = w_ok\<lparr>files := (\<lambda>path. Missing)\<rparr>"

text \<open>The file creates a table, commits by itself, and then fails on a statement that
  creates the table again: the first table is durable when the error is raised.\<close>

definition duplicate_table :: db_error where
  "duplicate_table = PgError ''psycopg2.errors.DuplicateTable'' ''relation users already exists''
                       (Some ''42P07'') (Some ''ERROR:  relation users already exists'')"

definition w_partial :: world where
  "w_partial =
     w_ok\<lparr>files := (\<lambda>path. Contents ''CREATE TABLE users (id int); COMMIT; CREATE TABLE users (id int);''),
          server_script := (\<lambda>s d. (Some (d\<lparr>tables := [''users'']\<rparr>), Inl duplicate_table))\<rparr>"

text \<open>Settings whose password and secret make up the message \<open>abc\<close> of the first test
  vector of FIPS 180-4.\<close>

definition cfg_abc :: settings where
  "cfg_abc = cfg0\<lparr>JWT_SECRET := ''bc'', ADMIN_PASSWORD := ''a''\<rparr>"

section \<open>Properties\<close>

subsection \<open>The combinators\<close>

lemma block_Nil: "block [] = ret ()"
  by (simp add: block_def)

lemma block_Cons: "block (m # ms) = seq m (block ms)"
  by (simp add: block_def)

lemmas prog_defs = ret_def raise_def andthen_def seq_def block_Nil block_Cons try_except_def
  print_def sys_exit_def

lemma block_prints:
  "block (map (\<lambda>x. print (f x)) ls) p = (Return (), p\<lparr>console := console p @ map f ls\<rparr>)"
  by (induction ls arbitrary: p) (simp_all add: prog_defs)

lemma andthen_alt:
  "andthen m f p = (case fst (m p) of Return x \<Rightarrow> f x (snd (m p)) | Raise e \<Rightarrow> (Raise e, snd (m p)))"
  by (simp add: andthen_def split: prod.splits result.splits)

lemma seq_alt:
  "seq m n p = (case fst (m p) of Return x \<Rightarrow> n (snd (m p)) | Raise e \<Rightarrow> (Raise e, snd (m p)))"
  by (simp add: seq_def andthen_alt)

subsection \<open>SHA-256: the shape of a digest, and two test vectors\<close>

text \<open>A digest has 32 bytes, so its hexadecimal form has 64 characters, all of them among
  \<open>0\<close> to \<open>9\<close> and \<open>a\<close> to \<open>f\<close>.\<close>

lemma length_round: "length (round kw s) = 8"
  by (simp add: round_def Let_def)

lemma length_fold_round: "kws \<noteq> [] \<Longrightarrow> length (fold round kws s) = 8"
proof (induction kws arbitrary: s)
  case Nil
  then show ?case by simp
next
  case (Cons kw kws)
  then show ?case by (cases kws) (simp_all add: length_round)
qed

lemma length_next_word: "length (next_word ws) = Suc (length ws)"
  by (simp add: next_word_def)

lemma length_schedule: "length (schedule blk) = length blk + 48"
proof -
  have "length ((next_word ^^ n) ws) = length ws + n" for n ws
    by (induction n) (simp_all add: length_next_word)
  then show ?thesis by (simp add: schedule_def)
qed

lemma length_compress: "length hs = 8 \<Longrightarrow> length (compress blk hs) = 8"
proof -
  assume h: "length hs = 8"
  have "length (zip K256 (schedule blk)) = min 64 (length blk + 48)"
    by (simp add: length_schedule K256_def)
  then have "zip K256 (schedule blk) \<noteq> []" by auto
  then show ?thesis
    using h by (simp add: compress_def length_fold_round)
qed

lemma length_fold_compress: "length hs = 8 \<Longrightarrow> length (fold compress bs hs) = 8"
  by (induction bs arbitrary: hs) (simp_all add: length_compress)

lemma length_sha256: "length (sha256 m) = 32"
  by (simp add: sha256_def length_concat o_def sum_list_triv length_fold_compress H256_def)

lemma length_hexdigest: "length (hexdigest bs) = 2 * length bs"
  by (simp add: hexdigest_def length_concat o_def sum_list_triv)

lemma hexdigest_chars: "list_all (\<lambda>c. c \<in> set ''0123456789abcdef'') (hexdigest bs)"
proof -
  define H where "H = set ''0123456789abcdef''"
  have m: "hex_digit n \<in> H" if "n < 16" for n
    unfolding hex_digit_def H_def using that by (intro nth_mem) simp
  have "unat b < 256" for b :: byte
    using unsigned_less [of b, where ?'a = nat] by simp
  then have d: "unat b div 16 < 16" for b :: byte
    using less_mult_imp_div_less [of "unat b" 16 16] by simp
  have "list_all (\<lambda>c. c \<in> H) (hexdigest bs)"
    by (induction bs) (simp_all add: hexdigest_def m d)
  then show ?thesis by (simp only: H_def)
qed

text \<open>
  The two test vectors of FIPS 180-4 for SHA-256, the message \<open>abc\<close> (one block) and the
  message of 56 bytes (two blocks), evaluated by rewriting: the message schedule of each
  block, then its 64 rounds in four groups of 16. The two rules \<open>round_eval\<close> and
  \<open>next_word_eval\<close> only keep the numerals below \<open>2^32\<close> while they are computed.
\<close>

lemma funpow_48:
  "(f ^^ 48) x =
     f (f (f (f (f (f (f (f (f (f (f (f (f (f (f (f (f (f (f (f (f (f (f (f
    (f (f (f (f (f (f (f (f (f (f (f (f (f (f (f (f (f (f (f (f (f (f (f (f
     x)))))))))))))))))))))))))))))))))))))))))))))))"
  by (simp add: eval_nat_numeral)

lemma and_mask32: "(x :: 32 word) AND 0xFFFFFFFF = x"
proof -
  have "(0xFFFFFFFF :: 32 word) = mask 32"
    by (simp add: mask_eq_exp_minus_1)
  then have "x AND 0xFFFFFFFF = take_bit 32 x"
    by (simp add: take_bit_eq_mask)
  also have "\<dots> = x"
    by (simp add: take_bit_word_eq_self)
  finally show ?thesis .
qed

lemma round_eval:
  "round (k, w) [a, b, c, d, e, f, g, h] =
     (let t1 = h + bsig1 e + ch e f g + k + w;
          t2 = bsig0 a + maj a b c
      in [(t1 + t2) AND 0xFFFFFFFF, a, b, c, (d + t1) AND 0xFFFFFFFF, e, f, g])"
  by (simp add: round_def Let_def and_mask32)

lemma next_word_eval:
  "next_word ws = ws @ [(ssig1 (ws ! (length ws - 2)) + ws ! (length ws - 7)
                     + ssig0 (ws ! (length ws - 15)) + ws ! (length ws - 16)) AND 0xFFFFFFFF]"
  by (simp add: next_word_def and_mask32)

lemma replicate_numeral: "replicate (numeral k) x = x # replicate (pred_numeral k) x"
  by (simp add: numeral_eq_Suc)

lemma schedule_abc:
  "schedule
     [0x61626380, 0x00000000, 0x00000000, 0x00000000, 0x00000000, 0x00000000, 0x00000000, 0x00000000,
      0x00000000, 0x00000000, 0x00000000, 0x00000000, 0x00000000, 0x00000000, 0x00000000, 0x00000018] =
     [0x61626380, 0x00000000, 0x00000000, 0x00000000, 0x00000000, 0x00000000, 0x00000000, 0x00000000,
      0x00000000, 0x00000000, 0x00000000, 0x00000000, 0x00000000, 0x00000000, 0x00000000, 0x00000018,
      0x61626380, 0x000F0000, 0x7DA86405, 0x600003C6, 0x3E9D7B78, 0x0183FC00, 0x12DCBFDB, 0xE2E2C38E,
      0xC8215C1A, 0xB73679A2, 0xE5BC3909, 0x32663C5B, 0x9D209D67, 0xEC8726CB, 0x702138A4, 0xD3B7973B,
      0x93F5997F, 0x3B68BA73, 0xAFF4FFC1, 0xF10A5C62, 0x0A8B3996, 0x72AF830A, 0x9409E33E, 0x24641522,
      0x9F47BF94, 0xF0A64F5A, 0x3E246A79, 0x27333BA3, 0x0C4763F2, 0x840ABF27, 0x7A290D5D, 0x065C43DA,
      0xFB3E89CB, 0xCC7617DB, 0xB9E66C34, 0xA9993667, 0x84BADEDD, 0xC21462BC, 0x1487472C, 0xB20F7A99,
      0xEF57B9CD, 0xEBE6B238, 0x9FE3095E, 0x78BC8D4B, 0xA43FCF15, 0x668B2FF8, 0xEEABA2CC, 0x12B1EDEB]"
  by (simp add: schedule_def funpow_48 next_word_eval ssig0_def ssig1_def bsig0_def bsig1_def ch_def maj_def rotr_def)

lemma rounds_abc_1:
  "fold round
     ((0x428A2F98, 0x61626380) # (0x71374491, 0x00000000) # (0xB5C0FBCF, 0x00000000) #
      (0xE9B5DBA5, 0x00000000) # (0x3956C25B, 0x00000000) # (0x59F111F1, 0x00000000) #
      (0x923F82A4, 0x00000000) # (0xAB1C5ED5, 0x00000000) # (0xD807AA98, 0x00000000) #
      (0x12835B01, 0x00000000) # (0x243185BE, 0x00000000) # (0x550C7DC3, 0x00000000) #
      (0x72BE5D74, 0x00000000) # (0x80DEB1FE, 0x00000000) # (0x9BDC06A7, 0x00000000) #
      (0xC19BF174, 0x00000018) # kws)
     [0x6A09E667, 0xBB67AE85, 0x3C6EF372, 0xA54FF53A, 0x510E527F, 0x9B05688C, 0x1F83D9AB, 0x5BE0CD19] =
   fold round kws
     [0xB0FA238E, 0xC0645FDE, 0xD932EB16, 0x87912990, 0x07590DCD, 0x0B92F20C, 0x745A48DE, 0x1E578218]"
  by (simp add: round_eval ssig0_def ssig1_def bsig0_def bsig1_def ch_def maj_def rotr_def)

lemma rounds_abc_2:
  "fold round
     ((0xE49B69C1, 0x61626380) # (0xEFBE4786, 0x000F0000) # (0x0FC19DC6, 0x7DA86405) #
      (0x240CA1CC, 0x600003C6) # (0x2DE92C6F, 0x3E9D7B78) # (0x4A7484AA, 0x0183FC00) #
      (0x5CB0A9DC, 0x12DCBFDB) # (0x76F988DA, 0xE2E2C38E) # (0x983E5152, 0xC8215C1A) #
      (0xA831C66D, 0xB73679A2) # (0xB00327C8, 0xE5BC3909) # (0xBF597FC7, 0x32663C5B) #
      (0xC6E00BF3, 0x9D209D67) # (0xD5A79147, 0xEC8726CB) # (0x06CA6351, 0x702138A4) #
      (0x14292967, 0xD3B7973B) # kws)
     [0xB0FA238E, 0xC0645FDE, 0xD932EB16, 0x87912990, 0x07590DCD, 0x0B92F20C, 0x745A48DE, 0x1E578218] =
   fold round kws
     [0x73B33BF5, 0xEA992A22, 0xA0060B30, 0x363482C9, 0xBA591112, 0x0109AB3A, 0xADE79437, 0x6112A3B7]"
  by (simp add: round_eval ssig0_def ssig1_def bsig0_def bsig1_def ch_def maj_def rotr_def)

lemma rounds_abc_3:
  "fold round
     ((0x27B70A85, 0x93F5997F) # (0x2E1B2138, 0x3B68BA73) # (0x4D2C6DFC, 0xAFF4FFC1) #
      (0x53380D13, 0xF10A5C62) # (0x650A7354, 0x0A8B3996) # (0x766A0ABB, 0x72AF830A) #
      (0x81C2C92E, 0x9409E33E) # (0x92722C85, 0x24641522) # (0xA2BFE8A1, 0x9F47BF94) #
      (0xA81A664B, 0xF0A64F5A) # (0xC24B8B70, 0x3E246A79) # (0xC76C51A3, 0x27333BA3) #
      (0xD192E819, 0x0C4763F2) # (0xD6990624, 0x840ABF27) # (0xF40E3585, 0x7A290D5D) #
      (0x106AA070, 0x065C43DA) # kws)
     [0x73B33BF5, 0xEA992A22, 0xA0060B30, 0x363482C9, 0xBA591112, 0x0109AB3A, 0xADE79437, 0x6112A3B7] =
   fold round kws
     [0x4172328D, 0xA14C14B0, 0x72AB4B91, 0x26628815, 0xFECF0BC6, 0xD57B94A9, 0xB7755DA1, 0xA80F11F0]"
  by (simp add: round_eval ssig0_def ssig1_def bsig0_def bsig1_def ch_def maj_def rotr_def)

lemma rounds_abc_4:
  "fold round
     ((0x19A4C116, 0xFB3E89CB) # (0x1E376C08, 0xCC7617DB) # (0x2748774C, 0xB9E66C34) #
      (0x34B0BCB5, 0xA9993667) # (0x391C0CB3, 0x84BADEDD) # (0x4ED8AA4A, 0xC21462BC) #
      (0x5B9CCA4F, 0x1487472C) # (0x682E6FF3, 0xB20F7A99) # (0x748F82EE, 0xEF57B9CD) #
      (0x78A5636F, 0xEBE6B238) # (0x84C87814, 0x9FE3095E) # (0x8CC70208, 0x78BC8D4B) #
      (0x90BEFFFA, 0xA43FCF15) # (0xA4506CEB, 0x668B2FF8) # (0xBEF9A3F7, 0xEEABA2CC) #
      (0xC67178F2, 0x12B1EDEB) # kws)
     [0x4172328D, 0xA14C14B0, 0x72AB4B91, 0x26628815, 0xFECF0BC6, 0xD57B94A9, 0xB7755DA1, 0xA80F11F0] =
   fold round kws
     [0x506E3058, 0xD39A2165, 0x04D24D6C, 0xB85E2CE9, 0x5EF50F24, 0xFB121210, 0x948D25B6, 0x961F4894]"
  by (simp add: round_eval ssig0_def ssig1_def bsig0_def bsig1_def ch_def maj_def rotr_def)

lemma compress_abc:
  "compress
     [0x61626380, 0x00000000, 0x00000000, 0x00000000, 0x00000000, 0x00000000, 0x00000000, 0x00000000,
      0x00000000, 0x00000000, 0x00000000, 0x00000000, 0x00000000, 0x00000000, 0x00000000, 0x00000018]
     [0x6A09E667, 0xBB67AE85, 0x3C6EF372, 0xA54FF53A, 0x510E527F, 0x9B05688C, 0x1F83D9AB, 0x5BE0CD19] =
   [0xBA7816BF, 0x8F01CFEA, 0x414140DE, 0x5DAE2223, 0xB00361A3, 0x96177A9C, 0xB410FF61, 0xF20015AD]"
  by (simp add: compress_def schedule_abc K256_def rounds_abc_1 rounds_abc_2 rounds_abc_3 rounds_abc_4 del: fold_Cons)

lemma be_words_abc:
  "be_words (pad (encode ''abc'')) =
   [0x61626380, 0x00000000, 0x00000000, 0x00000000, 0x00000000, 0x00000000, 0x00000000, 0x00000000,
    0x00000000, 0x00000000, 0x00000000, 0x00000000, 0x00000000, 0x00000000, 0x00000000, 0x00000018]"
  by (simp add: encode_def pad_def length_bytes_def replicate_numeral)

lemma sha256_abc:
  "hexdigest (sha256 (encode ''abc'')) =
   ''ba7816bf8f01cfea414140de5dae2223b00361a396177a9cb410ff61f20015ad''"
  unfolding sha256_def be_words_abc
  by (simp add: blocks.simps H256_def hexdigest_def hex_digit_def compress_abc)

lemma schedule_two_1:
  "schedule
     [0x61626364, 0x62636465, 0x63646566, 0x64656667, 0x65666768, 0x66676869, 0x6768696A, 0x68696A6B,
      0x696A6B6C, 0x6A6B6C6D, 0x6B6C6D6E, 0x6C6D6E6F, 0x6D6E6F70, 0x6E6F7071, 0x80000000, 0x00000000] =
     [0x61626364, 0x62636465, 0x63646566, 0x64656667, 0x65666768, 0x66676869, 0x6768696A, 0x68696A6B,
      0x696A6B6C, 0x6A6B6C6D, 0x6B6C6D6E, 0x6C6D6E6F, 0x6D6E6F70, 0x6E6F7071, 0x80000000, 0x00000000,
      0xEB8012AD, 0xA7C3AE92, 0x76E93BA2, 0xBA42E743, 0x92A92204, 0xD847E75E, 0x9E160036, 0xB280A7CB,
      0xDDEB1516, 0xF36586F4, 0x969CD048, 0xE959D99D, 0x6ACCC0EC, 0xF54CB098, 0x2AF1B2DA, 0xEE59C4C9,
      0xA835E16A, 0x1DFF4429, 0xD6E15959, 0xC397CD6E, 0x6F1801CA, 0x21574205, 0x35FF7A84, 0x9743EE78,
      0xE44183E7, 0x0D09F00D, 0x9C89AF54, 0x042D5BEF, 0x71F134D0, 0x0F94F463, 0x7E49DC63, 0x6F65C997,
      0x0B706583, 0x179312CA, 0x503054E9, 0xBA125C39, 0x7E9392C9, 0xD5CBAA1E, 0x78E0585D, 0xF6E7611C,
      0x8AC830CE, 0x8B47A303, 0xFD6E627F, 0x8C6E2C6A, 0x4001ADF1, 0x1A3DD097, 0xA9DF6F62, 0x6AA60A39]"
  by (simp add: schedule_def funpow_48 next_word_eval ssig0_def ssig1_def bsig0_def bsig1_def ch_def maj_def rotr_def)

lemma rounds_two_1_1:
  "fold round
     ((0x428A2F98, 0x61626364) # (0x71374491, 0x62636465) # (0xB5C0FBCF, 0x63646566) #
      (0xE9B5DBA5, 0x64656667) # (0x3956C25B, 0x65666768) # (0x59F111F1, 0x66676869) #
      (0x923F82A4, 0x6768696A) # (0xAB1C5ED5, 0x68696A6B) # (0xD807AA98, 0x696A6B6C) #
      (0x12835B01, 0x6A6B6C6D) # (0x243185BE, 0x6B6C6D6E) # (0x550C7DC3, 0x6C6D6E6F) #
      (0x72BE5D74, 0x6D6E6F70) # (0x80DEB1FE, 0x6E6F7071) # (0x9BDC06A7, 0x80000000) #
      (0xC19BF174, 0x00000000) # kws)
     [0x6A09E667, 0xBB67AE85, 0x3C6EF372, 0xA54FF53A, 0x510E527F, 0x9B05688C, 0x1F83D9AB, 0x5BE0CD19] =
   fold round kws
     [0xC3486194, 0xDD16CBB3, 0xD68E6457, 0x101A4861, 0x1496A54F, 0x9162ADED, 0x9243F8AF, 0x839A0FC9]"
  by (simp add: round_eval ssig0_def ssig1_def bsig0_def bsig1_def ch_def maj_def rotr_def)

lemma rounds_two_1_2:
  "fold round
     ((0xE49B69C1, 0xEB8012AD) # (0xEFBE4786, 0xA7C3AE92) # (0x0FC19DC6, 0x76E93BA2) #
      (0x240CA1CC, 0xBA42E743) # (0x2DE92C6F, 0x92A92204) # (0x4A7484AA, 0xD847E75E) #
      (0x5CB0A9DC, 0x9E160036) # (0x76F988DA, 0xB280A7CB) # (0x983E5152, 0xDDEB1516) #
      (0xA831C66D, 0xF36586F4) # (0xB00327C8, 0x969CD048) # (0xBF597FC7, 0xE959D99D) #
      (0xC6E00BF3, 0x6ACCC0EC) # (0xD5A79147, 0xF54CB098) # (0x06CA6351, 0x2AF1B2DA) #
      (0x14292967, 0xEE59C4C9) # kws)
     [0xC3486194, 0xDD16CBB3, 0xD68E6457, 0x101A4861, 0x1496A54F, 0x9162ADED, 0x9243F8AF, 0x839A0FC9] =
   fold round kws
     [0x5581AB07, 0xEB43F3ED, 0xDF7151A0, 0x74BCF468, 0xDF980085, 0x0635D880, 0x7629C961, 0x72ABAECD]"
  by (simp add: round_eval ssig0_def ssig1_def bsig0_def bsig1_def ch_def maj_def rotr_def)

lemma rounds_two_1_3:
  "fold round
     ((0x27B70A85, 0xA835E16A) # (0x2E1B2138, 0x1DFF4429) # (0x4D2C6DFC, 0xD6E15959) #
      (0x53380D13, 0xC397CD6E) # (0x650A7354, 0x6F1801CA) # (0x766A0ABB, 0x21574205) #
      (0x81C2C92E, 0x35FF7A84) # (0x92722C85, 0x9743EE78) # (0xA2BFE8A1, 0xE44183E7) #
      (0xA81A664B, 0x0D09F00D) # (0xC24B8B70, 0x9C89AF54) # (0xC76C51A3, 0x042D5BEF) #
      (0xD192E819, 0x71F134D0) # (0xD6990624, 0x0F94F463) # (0xF40E3585, 0x7E49DC63) #
      (0x106AA070, 0x6F65C997) # kws)
     [0x5581AB07, 0xEB43F3ED, 0xDF7151A0, 0x74BCF468, 0xDF980085, 0x0635D880, 0x7629C961, 0x72ABAECD] =
   fold round kws
     [0x13D82741, 0x165BE9CD, 0x18F0D19D, 0xDE71E2F2, 0xA7802A4D, 0xA483F080, 0x6B88472C, 0xFF61C636]"
  by (simp add: round_eval ssig0_def ssig1_def bsig0_def bsig1_def ch_def maj_def rotr_def)

lemma rounds_two_1_4:
  "fold round
     ((0x19A4C116, 0x0B706583) # (0x1E376C08, 0x179312CA) # (0x2748774C, 0x503054E9) #
      (0x34B0BCB5, 0xBA125C39) # (0x391C0CB3, 0x7E9392C9) # (0x4ED8AA4A, 0xD5CBAA1E) #
      (0x5B9CCA4F, 0x78E0585D) # (0x682E6FF3, 0xF6E7611C) # (0x748F82EE, 0x8AC830CE) #
      (0x78A5636F, 0x8B47A303) # (0x84C87814, 0xFD6E627F) # (0x8CC70208, 0x8C6E2C6A) #
      (0x90BEFFFA, 0x4001ADF1) # (0xA4506CEB, 0x1A3DD097) # (0xBEF9A3F7, 0xA9DF6F62) #
      (0xC67178F2, 0x6AA60A39) # kws)
     [0x13D82741, 0x165BE9CD, 0x18F0D19D, 0xDE71E2F2, 0xA7802A4D, 0xA483F080, 0x6B88472C, 0xFF61C636] =
   fold round kws
     [0x1BDC6F6F, 0x86126910, 0xF6F443F8, 0xBCFCE922, 0x25D2430A, 0x2FC08F85, 0xACC75916, 0x962D8621]"
  by (simp add: round_eval ssig0_def ssig1_def bsig0_def bsig1_def ch_def maj_def rotr_def)

lemma compress_two_1:
  "compress
     [0x61626364, 0x62636465, 0x63646566, 0x64656667, 0x65666768, 0x66676869, 0x6768696A, 0x68696A6B,
      0x696A6B6C, 0x6A6B6C6D, 0x6B6C6D6E, 0x6C6D6E6F, 0x6D6E6F70, 0x6E6F7071, 0x80000000, 0x00000000]
     [0x6A09E667, 0xBB67AE85, 0x3C6EF372, 0xA54FF53A, 0x510E527F, 0x9B05688C, 0x1F83D9AB, 0x5BE0CD19] =
   [0x85E655D6, 0x417A1795, 0x3363376A, 0x624CDE5C, 0x76E09589, 0xCAC5F811, 0xCC4B32C1, 0xF20E533A]"
  by (simp add: compress_def schedule_two_1 K256_def rounds_two_1_1 rounds_two_1_2 rounds_two_1_3 rounds_two_1_4 del: fold_Cons)

lemma schedule_two_2:
  "schedule
     [0x00000000, 0x00000000, 0x00000000, 0x00000000, 0x00000000, 0x00000000, 0x00000000, 0x00000000,
      0x00000000, 0x00000000, 0x00000000, 0x00000000, 0x00000000, 0x00000000, 0x00000000, 0x000001C0] =
     [0x00000000, 0x00000000, 0x00000000, 0x00000000, 0x00000000, 0x00000000, 0x00000000, 0x00000000,
      0x00000000, 0x00000000, 0x00000000, 0x00000000, 0x00000000, 0x00000000, 0x00000000, 0x000001C0,
      0x00000000, 0x00D80000, 0x00000000, 0x00003677, 0x00000000, 0x1DF5600D, 0x000001C0, 0x1C00501C,
      0x01B00000, 0x220A8D94, 0x0000A365, 0x177017E7, 0x63D38035, 0x090AB713, 0x4C7539CA, 0x0F19A8C9,
      0x5DF4B0C4, 0xE257036A, 0xC97BB6F1, 0xC5B46F4D, 0xF8253C4E, 0xA558D189, 0x78696285, 0xED07117F,
      0x107358F6, 0x390AE496, 0x565010A2, 0xC51D7D44, 0x9E74C972, 0x6614B561, 0x30FC129D, 0x9AC684A8,
      0x2B658DBD, 0xE290F793, 0x9EEBB24C, 0x9713B5DE, 0x41061AB7, 0xE022E23B, 0x0772079E, 0x7DE22D9C,
      0xC8B83778, 0x75A79849, 0xD93DBDDB, 0x0A036C9D, 0xCB4F6AC6, 0x823F97E2, 0xEA2F2A7A, 0xB9018B52]"
  by (simp add: schedule_def funpow_48 next_word_eval ssig0_def ssig1_def bsig0_def bsig1_def ch_def maj_def rotr_def)

lemma rounds_two_2_1:
  "fold round
     ((0x428A2F98, 0x00000000) # (0x71374491, 0x00000000) # (0xB5C0FBCF, 0x00000000) #
      (0xE9B5DBA5, 0x00000000) # (0x3956C25B, 0x00000000) # (0x59F111F1, 0x00000000) #
      (0x923F82A4, 0x00000000) # (0xAB1C5ED5, 0x00000000) # (0xD807AA98, 0x00000000) #
      (0x12835B01, 0x00000000) # (0x243185BE, 0x00000000) # (0x550C7DC3, 0x00000000) #
      (0x72BE5D74, 0x00000000) # (0x80DEB1FE, 0x00000000) # (0x9BDC06A7, 0x00000000) #
      (0xC19BF174, 0x000001C0) # kws)
     [0x85E655D6, 0x417A1795, 0x3363376A, 0x624CDE5C, 0x76E09589, 0xCAC5F811, 0xCC4B32C1, 0xF20E533A] =
   fold round kws
     [0x16A8CC79, 0x0CEA5CBC, 0xD74080FA, 0x35EE996D, 0x0FCB1F6F, 0x60356548, 0x68AA893F, 0x5C24E2A2]"
  by (simp add: round_eval ssig0_def ssig1_def bsig0_def bsig1_def ch_def maj_def rotr_def)

lemma rounds_two_2_2:
  "fold round
     ((0xE49B69C1, 0x00000000) # (0xEFBE4786, 0x00D80000) # (0x0FC19DC6, 0x00000000) #
      (0x240CA1CC, 0x00003677) # (0x2DE92C6F, 0x00000000) # (0x4A7484AA, 0x1DF5600D) #
      (0x5CB0A9DC, 0x000001C0) # (0x76F988DA, 0x1C00501C) # (0x983E5152, 0x01B00000) #
      (0xA831C66D, 0x220A8D94) # (0xB00327C8, 0x0000A365) # (0xBF597FC7, 0x177017E7) #
      (0xC6E00BF3, 0x63D38035) # (0xD5A79147, 0x090AB713) # (0x06CA6351, 0x4C7539CA) #
      (0x14292967, 0x0F19A8C9) # kws)
     [0x16A8CC79, 0x0CEA5CBC, 0xD74080FA, 0x35EE996D, 0x0FCB1F6F, 0x60356548, 0x68AA893F, 0x5C24E2A2] =
   fold round kws
     [0xB0EAB1C5, 0x02EF3A5F, 0x1CFA5EB0, 0xD958B529, 0xF6D93952, 0x5DA10665, 0x6C49DB9F, 0xC2FA99B1]"
  by (simp add: round_eval ssig0_def ssig1_def bsig0_def bsig1_def ch_def maj_def rotr_def)

lemma rounds_two_2_3:
  "fold round
     ((0x27B70A85, 0x5DF4B0C4) # (0x2E1B2138, 0xE257036A) # (0x4D2C6DFC, 0xC97BB6F1) #
      (0x53380D13, 0xC5B46F4D) # (0x650A7354, 0xF8253C4E) # (0x766A0ABB, 0xA558D189) #
      (0x81C2C92E, 0x78696285) # (0x92722C85, 0xED07117F) # (0xA2BFE8A1, 0x107358F6) #
      (0xA81A664B, 0x390AE496) # (0xC24B8B70, 0x565010A2) # (0xC76C51A3, 0xC51D7D44) #
      (0xD192E819, 0x9E74C972) # (0xD6990624, 0x6614B561) # (0xF40E3585, 0x30FC129D) #
      (0x106AA070, 0x9AC684A8) # kws)
     [0xB0EAB1C5, 0x02EF3A5F, 0x1CFA5EB0, 0xD958B529, 0xF6D93952, 0x5DA10665, 0x6C49DB9F, 0xC2FA99B1] =
   fold round kws
     [0xD7354D5B, 0x0B3303A7, 0x104A7DB4, 0x0F154E11, 0xAAD55B6B, 0xBBE1C39A, 0x5348E8F6, 0x6F9517CB]"
  by (simp add: round_eval ssig0_def ssig1_def bsig0_def bsig1_def ch_def maj_def rotr_def)

lemma rounds_two_2_4:
  "fold round
     ((0x19A4C116, 0x2B658DBD) # (0x1E376C08, 0xE290F793) # (0x2748774C, 0x9EEBB24C) #
      (0x34B0BCB5, 0x9713B5DE) # (0x391C0CB3, 0x41061AB7) # (0x4ED8AA4A, 0xE022E23B) #
      (0x5B9CCA4F, 0x0772079E) # (0x682E6FF3, 0x7DE22D9C) # (0x748F82EE, 0xC8B83778) #
      (0x78A5636F, 0x75A79849) # (0x84C87814, 0xD93DBDDB) # (0x8CC70208, 0x0A036C9D) #
      (0x90BEFFFA, 0xCB4F6AC6) # (0xA4506CEB, 0x823F97E2) # (0xBEF9A3F7, 0xEA2F2A7A) #
      (0xC67178F2, 0xB9018B52) # kws)
     [0xD7354D5B, 0x0B3303A7, 0x104A7DB4, 0x0F154E11, 0xAAD55B6B, 0xBBE1C39A, 0x5348E8F6, 0x6F9517CB] =
   fold round kws
     [0x9EA7148B, 0x908C2123, 0xB25CEF29, 0xA9F181DD, 0x2C5C4ED0, 0x9A392956, 0x2AA1BB13, 0x27CCB387]"
  by (simp add: round_eval ssig0_def ssig1_def bsig0_def bsig1_def ch_def maj_def rotr_def)

lemma compress_two_2:
  "compress
     [0x00000000, 0x00000000, 0x00000000, 0x00000000, 0x00000000, 0x00000000, 0x00000000, 0x00000000,
      0x00000000, 0x00000000, 0x00000000, 0x00000000, 0x00000000, 0x00000000, 0x00000000, 0x000001C0]
     [0x85E655D6, 0x417A1795, 0x3363376A, 0x624CDE5C, 0x76E09589, 0xCAC5F811, 0xCC4B32C1, 0xF20E533A] =
   [0x248D6A61, 0xD20638B8, 0xE5C02693, 0x0C3E6039, 0xA33CE459, 0x64FF2167, 0xF6ECEDD4, 0x19DB06C1]"
  by (simp add: compress_def schedule_two_2 K256_def rounds_two_2_1 rounds_two_2_2 rounds_two_2_3 rounds_two_2_4 del: fold_Cons)

lemma be_words_two:
  "be_words (pad (encode ''abcdbcdecdefdefgefghfghighijhijkijkljklmklmnlmnomnopnopq'')) =
   [0x61626364, 0x62636465, 0x63646566, 0x64656667, 0x65666768, 0x66676869, 0x6768696A, 0x68696A6B,
    0x696A6B6C, 0x6A6B6C6D, 0x6B6C6D6E, 0x6C6D6E6F, 0x6D6E6F70, 0x6E6F7071, 0x80000000, 0x00000000,
    0x00000000, 0x00000000, 0x00000000, 0x00000000, 0x00000000, 0x00000000, 0x00000000, 0x00000000,
    0x00000000, 0x00000000, 0x00000000, 0x00000000, 0x00000000, 0x00000000, 0x00000000, 0x000001C0]"
  by (simp add: encode_def pad_def length_bytes_def replicate_numeral)

lemma sha256_two:
  "hexdigest (sha256 (encode ''abcdbcdecdefdefgefghfghighijhijkijkljklmklmnlmnomnopnopq'')) =
   ''248d6a61d20638b8e5c026930c3e6039a33ce45964ff2167f6ecedd419db06c1''"
  unfolding sha256_def be_words_two
  by (simp add: blocks.simps H256_def hexdigest_def hex_digit_def compress_two_1 compress_two_2)

text \<open>On text without multi-byte characters, \<open>str_take\<close> is \<open>take\<close>.\<close>

lemma str_take_ascii: "list_all (\<lambda>c. \<not> continuation c) s \<Longrightarrow> str_take n s = take n s"
  by (induction s arbitrary: n) (auto split: nat.splits)

subsection \<open>The Reporter\<close>

lemma report_tables_frame: "reads_only (report_tables w h) p"
  unfolding report_tables_def reads_only_def
  by (auto simp: execute_def Let_def prog_defs block_prints split: option.splits sum.splits)

lemma report_stats_frame: "reads_only (report_stats w) p"
  unfolding report_stats_def reads_only_def
  by (auto simp: execute_def Let_def prog_defs fetchone_counts_def
      split: option.splits sum.splits)

lemma verify_admin_frame: "reads_only (verify_admin w cfg) p"
  unfolding verify_admin_def reads_only_def
  by (auto simp: execute_def Let_def prog_defs split: option.splits sum.splits)

lemma verify_admin_ipv6_frame: "reads_only (verify_admin_ipv6 w) p"
  unfolding verify_admin_ipv6_def reads_only_def
  by (auto simp: execute_def Let_def prog_defs split: option.splits sum.splits)

text \<open>
  Claim C8. The Reporter (the table listing of both scripts, the row counts of step 7 and
  the two look-ups of the administrator's row) sends only read-only statements and has
  no effect on the database: from every state, in every world, the transaction's
  database and the committed database after it are those before it.
\<close>

theorem reporter_no_effect:
  "reads_only (report_tables w heading) p \<and> reads_only (report_stats w) p \<and>
   reads_only (verify_admin w cfg) p \<and> reads_only (verify_admin_ipv6 w) p"
  by (simp add: report_tables_frame report_stats_frame verify_admin_frame
      verify_admin_ipv6_frame)

subsection \<open>The Connector\<close>

lemma try_connection_eq:
  "try_connection w c p =
    (case server_accepts w (ConnectKw c 10) of
       None \<Rightarrow> (Return (Some (ConnectKw c 10)),
                p\<lparr>console := console p @
                    [''  Trying: '' @ host c @ '':'' @ str_nat (port c) @ ''...'', ''SUCCESS!''],
                  attempts := attempts p @ [ConnectKw c 10], txn := durable p\<rparr>)
     | Some e \<Rightarrow> (Return None,
                p\<lparr>console := console p @
                    [''  Trying: '' @ host c @ '':'' @ str_nat (port c) @ ''...'',
                     ''Failed: '' @ str_take 50 (exc_str e)],
                  attempts := attempts p @ [ConnectKw c 10]\<rparr>))"
  by (simp add: try_connection_def connect_def Let_def prog_defs split: option.splits)

lemma connector_result:
  "fst (connector w i cs p) = Return (map_option (\<lambda>c. ConnectKw c 10) (find (\<lambda>c. \<not> refused w c) cs))"
  by (induction cs arbitrary: i p)
     (auto simp: prog_defs try_connection_eq refused_def split: option.splits)

lemma connector_attempts:
  "attempts (snd (connector w i cs p)) =
     attempts p @ map (\<lambda>c. ConnectKw c 10) (takeWhile (refused w) cs @
        (case find (\<lambda>c. \<not> refused w c) cs of None \<Rightarrow> [] | Some c \<Rightarrow> [c]))"
  by (induction cs arbitrary: i p)
     (auto simp: prog_defs try_connection_eq refused_def split: option.splits)

lemma connector_frame:
  "sent (snd (connector w i cs p)) = sent p \<and> durable (snd (connector w i cs p)) = durable p"
  by (induction cs arbitrary: i p)
     (auto simp: prog_defs try_connection_eq refused_def split: option.splits)

lemma connector_attempts_take:
  "attempts (snd (connector w i cs p)) =
     attempts p @ map (\<lambda>c. ConnectKw c 10) (take (Suc (length (takeWhile (refused w) cs))) cs)"
  by (induction cs arbitrary: i p)
     (auto simp: prog_defs try_connection_eq refused_def split: option.splits)

text \<open>
  Claim C10. \<^verbatim>\<open>try_connection\<close> is total over the outcomes of the connect call: for every
  configuration it returns, with the connection when the call succeeds and with
  \<^verbatim>\<open>None\<close> when the call raises, and never raises itself. So the loop of the Connector
  never raises either, and the connect calls it makes are those of the configurations
  in order, up to and including the first one that succeeds (all of them when none
  does).
\<close>

theorem try_connection_total:
  "fst (try_connection w c p) = Return (if refused w c then None else Some (ConnectKw c 10)) \<and>
   (\<exists>r. fst (connector w i cs p) = Return r) \<and>
   attempts (snd (connector w i cs p)) =
     attempts p @ map (\<lambda>c. ConnectKw c 10) (take (Suc (length (takeWhile (refused w) cs))) cs)"
  by (simp add: try_connection_eq refused_def connector_result connector_attempts_take
      split: option.splits)

lemma find_refused: "list_all (refused w) cs \<Longrightarrow> find (\<lambda>c. \<not> refused w c) cs = None"
  by (induction cs) auto

lemma connector_txn_refused:
  "list_all (refused w) cs \<Longrightarrow> txn (snd (connector w i cs p)) = txn p"
  by (induction cs arbitrary: i p)
     (auto simp: prog_defs try_connection_eq refused_def split: option.splits)

lemma all_failed_eq:
  "all_failed p = (Raise (SystemExit 1),
     p\<lparr>console := console p @
        [''All connection attempts failed'', ''Please use Supabase SQL Editor:'',
         ''   https://app.supabase.com/project/iithtbuedvwmtbagquxy/sql/new'',
         ''   Then execute: database/complete-setup.sql'']\<rparr>)"
  by (simp add: all_failed_def prog_defs)

lemma main_ipv6_all_refused:
  assumes "list_all (refused w) (CONNECTION_ATTEMPTS pw)"
  shows "fst (main_setup_with_ipv6 w pw apw p) = Raise (SystemExit 1) \<and>
         sent (snd (main_setup_with_ipv6 w pw apw p)) = sent p \<and>
         durable (snd (main_setup_with_ipv6 w pw apw p)) = durable p \<and>
         txn (snd (main_setup_with_ipv6 w pw apw p)) = txn p \<and>
         set [''All connection attempts failed'', ''Please use Supabase SQL Editor:'',
         ''   https://app.supabase.com/project/iithtbuedvwmtbagquxy/sql/new'',
         ''   Then execute: database/complete-setup.sql''] \<subseteq> set (console (snd (main_setup_with_ipv6 w pw apw p)))"
proof -
  let ?p = "snd (print ''Attempting Database Connection...'' p)"
  have r: "fst (connector w 1 (CONNECTION_ATTEMPTS pw) ?p) = Return None"
    using find_refused [OF assms] by (simp add: connector_result)
  have m: "main_setup_with_ipv6 w pw apw p = all_failed (snd (connector w 1 (CONNECTION_ATTEMPTS pw) ?p))"
    using r by (simp add: main_setup_with_ipv6_def seq_alt andthen_alt print_def)
  show ?thesis
    unfolding m all_failed_eq
    using connector_frame [of w 1 "CONNECTION_ATTEMPTS pw" ?p]
      connector_txn_refused [OF assms, of 1 ?p]
    by (simp add: print_def)
qed

lemma handlers_exit:
  "fst (handlers e p) = Raise (SystemExit 1) \<and> sent (snd (handlers e p)) = sent p \<and>
   durable (snd (handlers e p)) = durable p \<and> txn (snd (handlers e p)) = txn p \<and>
   attempts (snd (handlers e p)) = attempts p"
  by (cases e) (simp_all add: prog_defs print_exc_def)

lemma main_db_refused:
  assumes "server_accepts w (ConnectUrl (DATABASE_URL cfg) ''require'' 10) = Some e"
  shows "main_setup_database w cfg p =
           handlers e (p\<lparr>console := console p @ [''CTO Dashboard - Complete Database Setup'',
                                                  ''Connecting to Supabase...''],
                        attempts := attempts p @ [ConnectUrl (DATABASE_URL cfg) ''require'' 10]\<rparr>)"
  using assms
  by (simp add: main_setup_database_def main_body_def prog_defs connect_def Let_def)

text \<open>
  Claim C3. The Connector tries the configurations of its list in order, each with
  \<^verbatim>\<open>connect_timeout=10\<close>; it returns the connection of the first configuration that the
  server accepts, and the connect calls made are those of the refused configurations
  before it and of that one, none after it. If every configuration of
  \<^verbatim>\<open>CONNECTION_ATTEMPTS\<close> is refused, the script prints the remediation text and ends with
  exit status 1.
\<close>

theorem connector_first_live:
  "fst (connector w i cs p) =
     Return (map_option (\<lambda>c. ConnectKw c 10) (find (\<lambda>c. \<not> refused w c) cs)) \<and>
   attempts (snd (connector w i cs p)) =
     attempts p @ map (\<lambda>c. ConnectKw c 10) (takeWhile (refused w) cs @
        (case find (\<lambda>c. \<not> refused w c) cs of None \<Rightarrow> [] | Some c \<Rightarrow> [c])) \<and>
   list_all (\<lambda>a. connect_timeout a = 10)
     (drop (length (attempts p)) (attempts (snd (connector w i cs p)))) \<and>
   (list_all (refused w) (CONNECTION_ATTEMPTS pw) \<longrightarrow>
      exit_code (main_setup_with_ipv6 w pw admin_pw (start d)) = 1 \<and>
      set [''Please use Supabase SQL Editor:'',
           ''   https://app.supabase.com/project/iithtbuedvwmtbagquxy/sql/new'',
           ''   Then execute: database/complete-setup.sql'']
        \<subseteq> set (console (snd (main_setup_with_ipv6 w pw admin_pw (start d)))))"
proof -
  have t: "list_all (\<lambda>a. connect_timeout a = 10)
     (drop (length (attempts p)) (attempts (snd (connector w i cs p))))"
    by (auto simp add: connector_attempts list_all_iff split: option.splits)
  have e: "exit_code (main_setup_with_ipv6 w pw admin_pw (start d)) = 1"
    if "list_all (refused w) (CONNECTION_ATTEMPTS pw)"
    using main_ipv6_all_refused [OF that, of admin_pw "start d"]
    by (cases "main_setup_with_ipv6 w pw admin_pw (start d)") simp
  show ?thesis
    using t e main_ipv6_all_refused [of w pw admin_pw "start d"]
    by (simp add: connector_result connector_attempts)
qed

theorem connector_first_live_witness:
  "list_all (refused w_down) (CONNECTION_ATTEMPTS ''pw'') \<and>
   exit_code (main_setup_with_ipv6 w_down ''pw'' ''hunter2'' (start db_empty)) = 1 \<and>
   ''   Then execute: database/complete-setup.sql''
     \<in> set (console (snd (main_setup_with_ipv6 w_down ''pw'' ''hunter2'' (start db_empty)))) \<and>
   length (attempts (snd (connector w_down 1 (CONNECTION_ATTEMPTS ''pw'') (start db_empty)))) = 3"
  using connector_first_live [of w_down 1 "CONNECTION_ATTEMPTS ''pw''" "start db_empty" "''pw''"
      "''hunter2''" db_empty]
  by (simp add: refused_def w_down_def w_ok_def CONNECTION_ATTEMPTS_def start_def)

text \<open>
  Claim C6. If all connection attempts fail, nothing is sent to the database: no request
  at all goes out, the committed database after the run is the one before it, and the
  process ends with exit status 1 after printing a diagnostic. This holds for the three
  attempts of \<^verbatim>\<open>setup-with-ipv6.py\<close> and for the single attempt of \<^verbatim>\<open>setup-database.py\<close>.
\<close>

theorem no_connection_no_write:
  "(list_all (refused w) (CONNECTION_ATTEMPTS pw) \<longrightarrow>
      sent (snd (main_setup_with_ipv6 w pw admin_pw (start d))) = [] \<and>
      durable (snd (main_setup_with_ipv6 w pw admin_pw (start d))) = d \<and>
      txn (snd (main_setup_with_ipv6 w pw admin_pw (start d))) = d \<and>
      exit_code (main_setup_with_ipv6 w pw admin_pw (start d)) = 1 \<and>
      ''All connection attempts failed''
         \<in> set (console (snd (main_setup_with_ipv6 w pw admin_pw (start d))))) \<and>
   (server_accepts w (ConnectUrl (DATABASE_URL cfg) ''require'' 10) \<noteq> None \<longrightarrow>
      sent (snd (main_setup_database w cfg (start d))) = [] \<and>
      durable (snd (main_setup_database w cfg (start d))) = d \<and>
      txn (snd (main_setup_database w cfg (start d))) = d \<and>
      exit_code (main_setup_database w cfg (start d)) = 1 \<and>
      length (console (snd (main_setup_database w cfg (start d)))) > 2)"
proof -
  have a: "exit_code (main_setup_with_ipv6 w pw admin_pw (start d)) = 1"
    if "list_all (refused w) (CONNECTION_ATTEMPTS pw)"
    using main_ipv6_all_refused [OF that, of admin_pw "start d"]
    by (cases "main_setup_with_ipv6 w pw admin_pw (start d)") simp
  have b: "sent (snd (main_setup_database w cfg (start d))) = [] \<and>
      durable (snd (main_setup_database w cfg (start d))) = d \<and>
      txn (snd (main_setup_database w cfg (start d))) = d \<and>
      exit_code (main_setup_database w cfg (start d)) = 1 \<and>
      length (console (snd (main_setup_database w cfg (start d)))) > 2"
    if "server_accepts w (ConnectUrl (DATABASE_URL cfg) ''require'' 10) = Some e" for e
    unfolding main_db_refused [OF that]
    by (cases e) (simp_all add: prog_defs print_exc_def start_def)
  show ?thesis
    using a b main_ipv6_all_refused [of w pw admin_pw "start d"]
    by (auto simp: start_def)
qed

theorem no_connection_no_write_witness:
  "list_all (refused w_down) (CONNECTION_ATTEMPTS ''pw'') \<and>
   server_accepts w_down (ConnectUrl (DATABASE_URL cfg0) ''require'' 10) \<noteq> None \<and>
   sent (snd (main_setup_with_ipv6 w_down ''pw'' ''hunter2'' (start db_fresh))) = [] \<and>
   durable (snd (main_setup_with_ipv6 w_down ''pw'' ''hunter2'' (start db_fresh))) = db_fresh \<and>
   exit_code (main_setup_with_ipv6 w_down ''pw'' ''hunter2'' (start db_fresh)) = 1 \<and>
   sent (snd (main_setup_database w_down cfg0 (start db_fresh))) = [] \<and>
   durable (snd (main_setup_database w_down cfg0 (start db_fresh))) = db_fresh \<and>
   exit_code (main_setup_database w_down cfg0 (start db_fresh)) = 1"
  using no_connection_no_write [of w_down "''pw''" "''hunter2''" db_fresh cfg0]
  by (simp add: refused_def w_down_def w_ok_def CONNECTION_ATTEMPTS_def)

subsection \<open>The Admin Upserter\<close>

lemma upsert_user_found:
  assumes "fault w (length (sent p)) = None" "fault w (Suc (length (sent p))) = None"
      and "''users'' \<in> set (tables (txn p))"
      and "admin_rows cfg (txn p) = u # us"
  shows "upsert_user w cfg p =
     (Return (u_id u),
      p\<lparr>console := console p @ [''Creating admin account...'', ''User already exists, updating...''],
        sent := sent p @ [Execute (SelectUsersByEmail (ADMIN_EMAIL cfg)),
                          Execute (UpdateUser (ADMIN_NAME cfg) (ADMIN_ROLE cfg) (ADMIN_EMAIL cfg))],
        txn := (txn p)\<lparr>users := map (\<lambda>u. if u_email u = ADMIN_EMAIL cfg
                    then u\<lparr>u_name := ADMIN_NAME cfg, u_role := ADMIN_ROLE cfg, u_updated_at := now w\<rparr>
                    else u) (users (txn p))\<rparr>\<rparr>)"
  using assms
  by (simp add: upsert_user_def admin_rows_def execute_def Let_def prog_defs)

lemma upsert_user_absent:
  assumes "fault w (length (sent p)) = None" "fault w (Suc (length (sent p))) = None"
      and "''users'' \<in> set (tables (txn p))"
      and "admin_rows cfg (txn p) = []"
  shows "upsert_user w cfg p =
     (Return (Suc (users_seq (txn p))),
      p\<lparr>console := console p @ [''Creating admin account...'',
                                ''User created with ID: '' @ str_nat (Suc (users_seq (txn p)))],
        sent := sent p @ [Execute (SelectUsersByEmail (ADMIN_EMAIL cfg)),
                          Execute (InsertUser (ADMIN_EMAIL cfg) (ADMIN_NAME cfg) (ADMIN_ROLE cfg))],
        txn := (txn p)\<lparr>users := users (txn p) @
                    [\<lparr>u_id = Suc (users_seq (txn p)), u_email = ADMIN_EMAIL cfg,
                      u_name = ADMIN_NAME cfg, u_role = ADMIN_ROLE cfg,
                      u_created_at = now w, u_updated_at = now w\<rparr>],
                 users_seq := Suc (users_seq (txn p))\<rparr>\<rparr>)"
  using assms
  by (simp add: upsert_user_def admin_rows_def execute_def Let_def prog_defs)

lemma store_hash_ok:
  assumes "fault w (length (sent p)) = None" "''audit_log'' \<in> set (tables (txn p))"
  shows "store_hash w cfg uid p =
     (Return (),
      p\<lparr>sent := sent p @ [Execute (InsertAudit uid ''password_created'' ''user'' uid (details cfg))],
        txn := (txn p)\<lparr>audit_log := audit_log (txn p) @ [audit_entry cfg w (txn p) uid],
                       audit_seq := Suc (audit_seq (txn p))\<rparr>,
        console := console p @ [''Password hash stored securely'']\<rparr>)"
  using assms
  by (simp add: store_hash_def audit_entry_def execute_def Let_def prog_defs)

lemma admin_upserter_success_D:
  "fst (admin_upserter w cfg p) = Return () \<Longrightarrow>
     fault w (length (sent p)) = None \<and> fault w (Suc (length (sent p))) = None \<and>
     fault w (Suc (Suc (length (sent p)))) = None \<and>
     ''users'' \<in> set (tables (txn p)) \<and> ''audit_log'' \<in> set (tables (txn p))"
  unfolding admin_upserter_def upsert_user_def store_hash_def
  by (auto simp: execute_def Let_def prog_defs split: option.splits sum.splits if_splits list.splits prod.splits result.splits)

lemma admin_upserter_healthy:
  assumes "fault w (length (sent p)) = None" "fault w (Suc (length (sent p))) = None"
     "fault w (Suc (Suc (length (sent p)))) = None"
     "''users'' \<in> set (tables (txn p))" "''audit_log'' \<in> set (tables (txn p))"
  shows "fst (admin_upserter w cfg p) = Return () \<and>
         txn (snd (admin_upserter w cfg p)) = upsert_effect cfg w (txn p) \<and>
         durable (snd (admin_upserter w cfg p)) = durable p \<and>
         length (sent (snd (admin_upserter w cfg p))) = length (sent p) + 3"
proof (cases "admin_rows cfg (txn p)")
  case Nil
  show ?thesis
    using assms
    by (simp add: admin_upserter_def andthen_def upsert_user_absent [OF assms(1,2,4) Nil]
        store_hash_ok upsert_effect_def Nil audit_entry_def)
next
  case (Cons u us)
  show ?thesis
    using assms
    by (simp add: admin_upserter_def andthen_def upsert_user_found [OF assms(1,2,4) Cons]
        store_hash_ok upsert_effect_def Cons audit_entry_def)
qed

lemma admin_upserter_durable: "durable (snd (admin_upserter w cfg p)) = durable p"
  unfolding admin_upserter_def upsert_user_def store_hash_def
  by (auto simp: execute_def Let_def prog_defs split: option.splits sum.splits if_splits list.splits prod.splits result.splits)



lemma upsert_effect_props:
  "tables (upsert_effect cfg w d) = tables d"
  "length (admin_rows cfg (upsert_effect cfg w d)) = max 1 (length (admin_rows cfg d))"
  "length (audit_log (upsert_effect cfg w d)) = Suc (length (audit_log d))"
  "length (password_rows (upsert_effect cfg w d)) = Suc (length (password_rows d))"
proof -
  have F: "filter (\<lambda>u. u_email u = e) (map (\<lambda>u. if u_email u = e then f u else u) xs)
           = map (\<lambda>u. if u_email u = e then f u else u) (filter (\<lambda>u. u_email u = e) xs)"
    if "\<And>u. u_email (f u) = u_email u" for e f and xs :: "user_row list"
    using that by (induction xs) auto
  show "tables (upsert_effect cfg w d) = tables d"
    by (simp add: upsert_effect_def split: list.splits)
  show "length (admin_rows cfg (upsert_effect cfg w d)) = max 1 (length (admin_rows cfg d))"
    by (cases "admin_rows cfg d")
       (auto simp: upsert_effect_def admin_rows_def F split: list.splits)
  show "length (audit_log (upsert_effect cfg w d)) = Suc (length (audit_log d))"
    by (simp add: upsert_effect_def split: list.splits)
  show "length (password_rows (upsert_effect cfg w d)) = Suc (length (password_rows d))"
    by (simp add: upsert_effect_def password_rows_def audit_entry_def split: list.splits)
qed





lemma last_audit_effect:
  "last (audit_log (upsert_effect cfg w d)) =
     audit_entry cfg w d (case admin_rows cfg d of [] \<Rightarrow> Suc (users_seq d) | u # us \<Rightarrow> u_id u)"
  by (simp add: upsert_effect_def split: list.splits)

text \<open>
  Claim C2. For every state of the users table (in a world where no request fails): if
  a row with the administrator's email exists, the Admin Upserter updates name, role and
  \<open>updated_at\<close> of it in place, the ids stay as they were, and the user id it goes on
  with is the id of the row found; if no such row exists, it appends a new row and goes
  on with the id that the database generated. That id is the \<open>user_id\<close> of the audit row
  written afterwards.
\<close>

theorem upsert_user_keeps_id:
  assumes "\<forall>n. fault w n = None" and "''users'' \<in> set (tables (txn p))"
  shows "(case admin_rows cfg (txn p) of
            existing # others \<Rightarrow>
              fst (upsert_user w cfg p) = Return (u_id existing) \<and>
              users (txn (snd (upsert_user w cfg p))) =
                map (\<lambda>u. if u_email u = ADMIN_EMAIL cfg
                         then u\<lparr>u_name := ADMIN_NAME cfg, u_role := ADMIN_ROLE cfg,
                                u_updated_at := now w\<rparr>
                         else u) (users (txn p)) \<and>
              map u_id (users (txn (snd (upsert_user w cfg p)))) = map u_id (users (txn p))
          | [] \<Rightarrow>
              fst (upsert_user w cfg p) = Return (Suc (users_seq (txn p))) \<and>
              users (txn (snd (upsert_user w cfg p))) =
                users (txn p) @
                  [\<lparr>u_id = Suc (users_seq (txn p)), u_email = ADMIN_EMAIL cfg,
                    u_name = ADMIN_NAME cfg, u_role = ADMIN_ROLE cfg,
                    u_created_at = now w, u_updated_at = now w\<rparr>]) \<and>
         (''audit_log'' \<in> set (tables (txn p)) \<longrightarrow>
            a_user_id (last (audit_log (txn (snd (admin_upserter w cfg p))))) =
              (case admin_rows cfg (txn p) of
                 existing # others \<Rightarrow> u_id existing
               | [] \<Rightarrow> Suc (users_seq (txn p))))"
proof -
  have f: "fault w (length (sent p)) = None" "fault w (Suc (length (sent p))) = None"
      "fault w (Suc (Suc (length (sent p)))) = None"
    using assms(1) by simp_all
  have A: "a_user_id (last (audit_log (txn (snd (admin_upserter w cfg p))))) =
              (case admin_rows cfg (txn p) of
                 existing # others \<Rightarrow> u_id existing
               | [] \<Rightarrow> Suc (users_seq (txn p)))"
    if "''audit_log'' \<in> set (tables (txn p))"
    using admin_upserter_healthy [OF f assms(2) that, of cfg]
    by (simp add: last_audit_effect audit_entry_def split: list.splits)
  have U: "(case admin_rows cfg (txn p) of
            existing # others \<Rightarrow>
              fst (upsert_user w cfg p) = Return (u_id existing) \<and>
              users (txn (snd (upsert_user w cfg p))) =
                map (\<lambda>u. if u_email u = ADMIN_EMAIL cfg
                         then u\<lparr>u_name := ADMIN_NAME cfg, u_role := ADMIN_ROLE cfg,
                                u_updated_at := now w\<rparr>
                         else u) (users (txn p)) \<and>
              map u_id (users (txn (snd (upsert_user w cfg p)))) = map u_id (users (txn p))
          | [] \<Rightarrow>
              fst (upsert_user w cfg p) = Return (Suc (users_seq (txn p))) \<and>
              users (txn (snd (upsert_user w cfg p))) =
                users (txn p) @
                  [\<lparr>u_id = Suc (users_seq (txn p)), u_email = ADMIN_EMAIL cfg,
                    u_name = ADMIN_NAME cfg, u_role = ADMIN_ROLE cfg,
                    u_created_at = now w, u_updated_at = now w\<rparr>])"
  proof (cases "admin_rows cfg (txn p)")
    case Nil
    then show ?thesis
      by (simp add: upsert_user_absent [OF f(1,2) assms(2) Nil])
  next
    case (Cons u us)
    then show ?thesis
      by (simp add: upsert_user_found [OF f(1,2) assms(2) Cons] comp_def)
  qed
  show ?thesis using U A by simp
qed

theorem upsert_user_keeps_id_witness:
  "(\<forall>n. fault w_ok n = None) \<and> ''users'' \<in> set (tables (txn (start db_admin))) \<and>
   ''users'' \<in> set (tables (txn (start db_fresh))) \<and>
   fst (upsert_user w_ok cfg0 (start db_admin)) = Return 5 \<and>
   users (txn (snd (upsert_user w_ok cfg0 (start db_admin)))) =
     [\<lparr>u_id = 5, u_email = ''admin@example.org'', u_name = ''Admin'', u_role = ''cto'',
       u_created_at = 1, u_updated_at = 7\<rparr>] \<and>
   fst (upsert_user w_ok cfg0 (start db_fresh)) = Return 1 \<and>
   users (txn (snd (upsert_user w_ok cfg0 (start db_fresh)))) =
     [\<lparr>u_id = 1, u_email = ''admin@example.org'', u_name = ''Admin'', u_role = ''cto'',
       u_created_at = 7, u_updated_at = 7\<rparr>]"
  using upsert_user_keeps_id [of w_ok "start db_admin" cfg0]
    upsert_user_keeps_id [of w_ok "start db_fresh" cfg0]
  by (simp add: admin_rows_def start_def db_admin_def db_fresh_def db_empty_def w_ok_def cfg0_def)

lemma details_hash:
  "map_of (details cfg) ''password_hash'' = Some (hash_password cfg (ADMIN_PASSWORD cfg))"
  by (simp add: details_def)

lemma admin_upserter_result:
  "(fst (admin_upserter w cfg p) = Return ()) =
     (fault w (length (sent p)) = None \<and> fault w (Suc (length (sent p))) = None \<and>
      fault w (Suc (Suc (length (sent p)))) = None \<and>
      ''users'' \<in> set (tables (txn p)) \<and> ''audit_log'' \<in> set (tables (txn p)))"
  using admin_upserter_healthy [of w p cfg] admin_upserter_success_D [of w cfg p]
  by blast

text \<open>
  Claim C7. The password hash that a run stores is the SHA-256 digest, in hexadecimal, of
  the password followed by the static secret, whatever the world, the state and the
  database of the run: two runs of the Admin Upserter with the same password and secret
  store the same value in the audit row they write. The value has 64 characters, all of
  them hexadecimal digits. The digest is the one of FIPS 180-4 and both inputs enter it,
  the password first: for the password \<open>a\<close> and the secret \<open>bc\<close> the hash is the
  standard's digest of \<open>abc\<close>, and for the two halves of the standard's message of 56
  bytes it is the standard's digest of that message.
\<close>

theorem stored_hash_deterministic:
  assumes "JWT_SECRET cfg1 = JWT_SECRET cfg2" and "ADMIN_PASSWORD cfg1 = ADMIN_PASSWORD cfg2"
      and "fst (admin_upserter w1 cfg1 p1) = Return ()"
      and "fst (admin_upserter w2 cfg2 p2) = Return ()"
  shows "map_of (a_details (last (audit_log (txn (snd (admin_upserter w1 cfg1 p1))))))
            ''password_hash'' =
           Some (hexdigest (sha256 (encode (ADMIN_PASSWORD cfg1 @ JWT_SECRET cfg1)))) \<and>
         map_of (a_details (last (audit_log (txn (snd (admin_upserter w2 cfg2 p2))))))
            ''password_hash'' =
         map_of (a_details (last (audit_log (txn (snd (admin_upserter w1 cfg1 p1))))))
            ''password_hash'' \<and>
         length (hash_password cfg1 pw) = 64 \<and>
         list_all (\<lambda>c. c \<in> set ''0123456789abcdef'') (hash_password cfg1 pw) \<and>
         hash_password (cfg1\<lparr>JWT_SECRET := ''bc''\<rparr>) ''a'' =
           ''ba7816bf8f01cfea414140de5dae2223b00361a396177a9cb410ff61f20015ad'' \<and>
         hash_password (cfg1\<lparr>JWT_SECRET := ''hijkijkljklmklmnlmnomnopnopq''\<rparr>)
             ''abcdbcdecdefdefgefghfghighij'' =
           ''248d6a61d20638b8e5c026930c3e6039a33ce45964ff2167f6ecedd419db06c1''"
proof -
  have s: "map_of (a_details (last (audit_log (txn (snd (admin_upserter w cfg p))))))
            ''password_hash'' =
           Some (hexdigest (sha256 (encode (ADMIN_PASSWORD cfg @ JWT_SECRET cfg))))"
    if "fst (admin_upserter w cfg p) = Return ()" for w cfg p
    using admin_upserter_healthy [of w p cfg] admin_upserter_success_D [OF that]
    by (simp add: last_audit_effect audit_entry_def details_hash hash_password_def)
  have l: "length (hash_password cfg1 pw) = 64"
    by (simp add: hash_password_def length_hexdigest length_sha256)
  have c: "list_all (\<lambda>c. c \<in> set ''0123456789abcdef'') (hash_password cfg1 pw)"
    unfolding hash_password_def by (rule hexdigest_chars)
  have v1: "hash_password (cfg1\<lparr>JWT_SECRET := ''bc''\<rparr>) ''a'' =
           ''ba7816bf8f01cfea414140de5dae2223b00361a396177a9cb410ff61f20015ad''"
    using sha256_abc by (simp add: hash_password_def)
  have v2: "hash_password (cfg1\<lparr>JWT_SECRET := ''hijkijkljklmklmnlmnomnopnopq''\<rparr>)
             ''abcdbcdecdefdefgefghfghighij'' =
           ''248d6a61d20638b8e5c026930c3e6039a33ce45964ff2167f6ecedd419db06c1''"
    using sha256_two by (simp add: hash_password_def)
  show ?thesis
    using s [OF assms(3)] s [OF assms(4)] assms(1,2) l c v1 v2
    by simp
qed

theorem stored_hash_deterministic_witness:
  "JWT_SECRET cfg_abc = JWT_SECRET (cfg_abc\<lparr>ADMIN_EMAIL := ''root@example.org''\<rparr>) \<and>
   ADMIN_PASSWORD cfg_abc = ADMIN_PASSWORD (cfg_abc\<lparr>ADMIN_EMAIL := ''root@example.org''\<rparr>) \<and>
   fst (admin_upserter w_ok cfg_abc (start db_fresh)) = Return () \<and>
   fst (admin_upserter w_later (cfg_abc\<lparr>ADMIN_EMAIL := ''root@example.org''\<rparr>) (start db_admin))
     = Return () \<and>
   map_of (a_details (last (audit_log (txn (snd (admin_upserter w_ok cfg_abc (start db_fresh)))))))
      ''password_hash'' =
     Some ''ba7816bf8f01cfea414140de5dae2223b00361a396177a9cb410ff61f20015ad'' \<and>
   map_of (a_details (last (audit_log (txn (snd (admin_upserter w_later
       (cfg_abc\<lparr>ADMIN_EMAIL := ''root@example.org''\<rparr>) (start db_admin))))))) ''password_hash'' =
     Some ''ba7816bf8f01cfea414140de5dae2223b00361a396177a9cb410ff61f20015ad''"
proof -
  have a: "fst (admin_upserter w_ok cfg_abc (start db_fresh)) = Return ()"
    by (simp add: admin_upserter_result start_def db_fresh_def db_empty_def w_ok_def)
  have b: "fst (admin_upserter w_later (cfg_abc\<lparr>ADMIN_EMAIL := ''root@example.org''\<rparr>)
             (start db_admin)) = Return ()"
    by (simp add: admin_upserter_result start_def db_admin_def db_fresh_def db_empty_def
        w_ok_def w_later_def)
  have e: "ADMIN_PASSWORD cfg_abc @ JWT_SECRET cfg_abc = ''abc''"
    by (simp add: cfg_abc_def cfg0_def)
  show ?thesis
    using a b stored_hash_deterministic [of cfg_abc "cfg_abc\<lparr>ADMIN_EMAIL := ''root@example.org''\<rparr>"
        w_ok "start db_fresh" w_later "start db_admin" "''x''"]
    by (simp add: e sha256_abc)
qed

subsection \<open>Programs that never exit\<close>

lemma commits_append: "commits (p\<lparr>sent := sent p @ rs\<rparr>) = commits p + length (filter (\<lambda>r. r = Commit) rs)"
  by (simp add: commits_def)

lemma commits_simps [simp]:
  "commits (p\<lparr>console := c\<rparr>) = commits p"
  "commits (p\<lparr>txn := t\<rparr>) = commits p"
  "commits (p\<lparr>durable := dd\<rparr>) = commits p"
  "commits (p\<lparr>attempts := a\<rparr>) = commits p"
  by (simp_all add: commits_def)

lemma no_exit_ret: "no_exit (ret x)"
  by (simp add: no_exit_def ret_def)

lemma no_exit_raise: "no_exit (raise (Exc e))"
  by (simp add: no_exit_def raise_def)

lemma no_exit_print: "no_exit (print l)"
  by (simp add: no_exit_def print_def)

lemma no_exit_andthen: "no_exit m \<Longrightarrow> (\<And>x. no_exit (f x)) \<Longrightarrow> no_exit (andthen m f)"
  by (auto simp: no_exit_def andthen_alt split: result.splits)

lemma no_exit_seq: "no_exit m \<Longrightarrow> no_exit n \<Longrightarrow> no_exit (seq m n)"
  by (simp add: seq_def no_exit_andthen)

lemma no_exit_block: "(\<And>m. m \<in> set ms \<Longrightarrow> no_exit m) \<Longrightarrow> no_exit (block ms)"
  by (induction ms) (simp_all add: block_Nil block_Cons no_exit_ret no_exit_seq)

lemma no_exit_execute: "no_exit (execute w q)"
  by (auto simp: no_exit_def execute_def Let_def split: option.splits sum.splits)

lemma no_exit_commit: "no_exit (commit w)"
  by (auto simp: no_exit_def commit_def Let_def split: option.splits)

lemma no_exit_close: "no_exit close"
  by (simp add: no_exit_def close_def)

lemma no_exit_connect: "no_exit (connect w a)"
  by (auto simp: no_exit_def connect_def Let_def split: option.splits)

lemma no_exit_open_read: "no_exit (open_read w path)"
  by (auto simp: open_read_def no_exit_ret no_exit_raise split: file_result.splits)

lemma no_exit_fetchone_id: "no_exit (fetchone_id r)"
  by (cases r rule: fetchone_id.cases) (simp_all add: no_exit_ret no_exit_raise)

lemma no_exit_fetchone_counts: "no_exit (fetchone_counts r)"
  by (auto simp: fetchone_counts_def no_exit_ret no_exit_raise split: rows.splits list.splits)

lemmas no_exit_intros = no_exit_ret no_exit_raise no_exit_print no_exit_andthen no_exit_seq
  no_exit_block no_exit_execute no_exit_commit no_exit_close no_exit_connect no_exit_open_read
  no_exit_fetchone_id no_exit_fetchone_counts

lemma no_exit_report_tables: "no_exit (report_tables w h)"
  unfolding report_tables_def by (intro no_exit_intros) (auto simp: no_exit_print)

lemma no_exit_main_body: "no_exit (main_body w cfg)"
  unfolding main_body_def apply_schema_def admin_upserter_def upsert_user_def store_hash_def
    verify_admin_def report_stats_def print_success_def
  by (intro no_exit_intros) (auto intro!: no_exit_intros no_exit_report_tables split: option.splits)

lemma no_exit_setup_body: "no_exit (setup_body w a)"
  unfolding setup_body_def apply_setup_def verify_admin_ipv6_def print_success_ipv6_def
  by (intro no_exit_intros) (auto intro!: no_exit_intros no_exit_report_tables split: option.splits)

lemma handlers_result: "fst (handlers e p) = Raise (SystemExit 1)"
  by (cases e) (simp_all add: prog_defs print_exc_def)

lemma setup_handler_result: "fst (setup_handler e p) = Raise (SystemExit 1)"
  by (simp add: setup_handler_def prog_defs print_exc_def)

lemma try_except_result:
  assumes "no_exit m" and "\<And>e p. fst (h e p) = Raise (SystemExit 1)"
  shows "fst (try_except m h p) = Return () \<or> fst (try_except m h p) = Raise (SystemExit 1)"
proof (cases "m p")
  case (Pair r p')
  show ?thesis
  proof (cases r)
    case (Return x)
    then show ?thesis using Pair by (simp add: try_except_def)
  next
    case (Raise e)
    show ?thesis
    proof (cases e)
      case (Exc x)
      then show ?thesis using Pair Raise assms(2) by (simp add: try_except_def)
    next
      case (SystemExit n)
      then show ?thesis using Pair Raise assms(1) by (auto simp: no_exit_def dest: spec [of _ p])
    qed
  qed
qed

lemma main_db_result:
  "fst (main_setup_database w cfg p) = Return () \<or>
   fst (main_setup_database w cfg p) = Raise (SystemExit 1)"
  using try_except_result [OF no_exit_main_body handlers_result]
  by (simp add: main_setup_database_def seq_alt print_def)

lemma main_ipv6_result:
  "fst (main_setup_with_ipv6 w pw apw p) = Return () \<or>
   fst (main_setup_with_ipv6 w pw apw p) = Raise (SystemExit 1)"
proof -
  let ?p = "snd (print ''Attempting Database Connection...'' p)"
  let ?c = "connector w 1 (CONNECTION_ATTEMPTS pw) ?p"
  show ?thesis
  proof (cases "find (\<lambda>c. \<not> refused w c) (CONNECTION_ATTEMPTS pw)")
    case None
    then have "fst ?c = Return None" by (simp add: connector_result)
    then show ?thesis
      by (simp add: main_setup_with_ipv6_def seq_alt andthen_alt print_def all_failed_eq)
  next
    case (Some c)
    then have "fst ?c = Return (Some (ConnectKw c 10))" by (simp add: connector_result)
    then show ?thesis
      using try_except_result [OF no_exit_setup_body setup_handler_result]
      by (simp add: main_setup_with_ipv6_def seq_alt andthen_alt print_def)
  qed
qed

lemma exit_code_db:
  "exit_code (main_setup_database w cfg p) = (if fst (main_setup_database w cfg p) = Return () then 0 else 1)"
  using main_db_result [of w cfg p] by (cases "main_setup_database w cfg p") auto

lemma exit_code_ipv6:
  "exit_code (main_setup_with_ipv6 w pw apw p) =
     (if fst (main_setup_with_ipv6 w pw apw p) = Return () then 0 else 1)"
  using main_ipv6_result [of w pw apw p] by (cases "main_setup_with_ipv6 w pw apw p") auto

subsection \<open>The requests of a run, one component at a time\<close>

lemma report_tables_run:
  "sent (snd (report_tables w h p)) = sent p @ [Execute SelectTables] \<and>
   txn (snd (report_tables w h p)) = txn p \<and>
   durable (snd (report_tables w h p)) = durable p \<and>
   (fst (report_tables w h p) = Return ()) = (fault w (length (sent p)) = None)"
  unfolding report_tables_def
  by (auto simp: execute_def Let_def prog_defs block_prints split: option.splits sum.splits)

lemma verify_admin_run:
  "sent (snd (verify_admin w cfg p)) = sent p @ [Execute (SelectUsersByEmail (ADMIN_EMAIL cfg))] \<and>
   txn (snd (verify_admin w cfg p)) = txn p \<and>
   durable (snd (verify_admin w cfg p)) = durable p \<and>
   (fst (verify_admin w cfg p) = Return ()) =
     (fault w (length (sent p)) = None \<and> ''users'' \<in> set (tables (txn p)))"
  unfolding verify_admin_def
  by (auto simp: execute_def Let_def prog_defs split: option.splits sum.splits)

lemma verify_admin_ipv6_run:
  "sent (snd (verify_admin_ipv6 w p)) =
     sent p @ [Execute (SelectUsersByEmail ''jonathan.mitchell.anderson@gmail.com'')] \<and>
   txn (snd (verify_admin_ipv6 w p)) = txn p \<and>
   durable (snd (verify_admin_ipv6 w p)) = durable p \<and>
   (fst (verify_admin_ipv6 w p) = Return ()) =
     (fault w (length (sent p)) = None \<and> ''users'' \<in> set (tables (txn p)))"
  unfolding verify_admin_ipv6_def
  by (auto simp: execute_def Let_def prog_defs split: option.splits sum.splits)

lemma report_stats_run:
  "sent (snd (report_stats w p)) = sent p @ [Execute SelectCounts] \<and>
   txn (snd (report_stats w p)) = txn p \<and>
   durable (snd (report_stats w p)) = durable p \<and>
   (fst (report_stats w p) = Return ()) =
     (fault w (length (sent p)) = None \<and>
      ''users'' \<in> set (tables (txn p)) \<and> ''projects'' \<in> set (tables (txn p)) \<and>
      ''bugs'' \<in> set (tables (txn p)) \<and> ''audit_log'' \<in> set (tables (txn p)))"
  unfolding report_stats_def
  by (auto simp: execute_def Let_def prog_defs fetchone_counts_def
      split: option.splits sum.splits if_splits)

lemma commit_run:
  "sent (snd (commit w p)) = sent p @ [Commit] \<and>
   txn (snd (commit w p)) = txn p \<and>
   durable (snd (commit w p)) = (if fault w (length (sent p)) = None then txn p else durable p) \<and>
   (fst (commit w p) = Return ()) = (fault w (length (sent p)) = None)"
  by (auto simp: commit_def Let_def split: option.splits)

lemma print_success_run:
  "fst (print_success cfg p) = Return () \<and> sent (snd (print_success cfg p)) = sent p \<and>
   txn (snd (print_success cfg p)) = txn p \<and> durable (snd (print_success cfg p)) = durable p"
  by (simp add: print_success_def prog_defs)

lemma print_success_ipv6_run:
  "fst (print_success_ipv6 a p) = Return () \<and> sent (snd (print_success_ipv6 a p)) = sent p \<and>
   txn (snd (print_success_ipv6 a p)) = txn p \<and>
   durable (snd (print_success_ipv6 a p)) = durable p"
  by (simp add: print_success_ipv6_def prog_defs)

lemma close_run:
  "fst (close p) = Return () \<and> sent (snd (close p)) = sent p \<and>
   durable (snd (close p)) = durable p"
  by (simp add: close_def)

lemma admin_upserter_sent:
  "prefix (sent (snd (admin_upserter w cfg p))) (sent p @ upserter_requests cfg (txn p)) \<and>
   length (sent p) < length (sent (snd (admin_upserter w cfg p))) \<and>
   (fst (admin_upserter w cfg p) = Return () \<longrightarrow>
      sent (snd (admin_upserter w cfg p)) = sent p @ upserter_requests cfg (txn p))"
  unfolding admin_upserter_def upsert_user_def store_hash_def upserter_requests_def
    upsert_request_def upsert_id_def admin_rows_def
  by (auto simp: execute_def Let_def prog_defs
      split: option.splits sum.splits if_splits list.splits prod.splits result.splits)

lemma tail_run:
  fixes w cfg p
  defines "t \<equiv> block [verify_admin w cfg, report_stats w, print_success cfg, close] p"
  shows "prefix (sent (snd t))
           (sent p @ [Execute (SelectUsersByEmail (ADMIN_EMAIL cfg)), Execute SelectCounts]) \<and>
         length (sent p) < length (sent (snd t)) \<and>
         durable (snd t) = durable p \<and>
         (fst t = Return ()) =
           (fault w (length (sent p)) = None \<and> fault w (Suc (length (sent p))) = None \<and>
            ''users'' \<in> set (tables (txn p)) \<and> ''projects'' \<in> set (tables (txn p)) \<and>
            ''bugs'' \<in> set (tables (txn p)) \<and> ''audit_log'' \<in> set (tables (txn p))) \<and>
         (fst t = Return () \<longrightarrow>
            sent (snd t) =
              sent p @ [Execute (SelectUsersByEmail (ADMIN_EMAIL cfg)), Execute SelectCounts])"
proof -
  let ?V = "verify_admin w cfg p"
  let ?S = "report_stats w (snd ?V)"
  let ?P = "print_success cfg (snd ?S)"
  let ?Z = "close (snd ?P)"
  note V = verify_admin_run [of w cfg p]
  note S = report_stats_run [of w "snd ?V"]
  note P = print_success_run [of cfg "snd ?S"]
  note Z = close_run [of "snd ?P"]
  have t: "t = (case fst ?V of Raise e \<Rightarrow> (Raise e, snd ?V)
                | Return x \<Rightarrow>
                   (case fst ?S of Raise e \<Rightarrow> (Raise e, snd ?S)
                    | Return y \<Rightarrow> (Return (), snd ?Z)))"
    unfolding t_def
    using P Z
    by (cases "close (snd ?P)")
       (simp add: block_Cons block_Nil seq_alt ret_def split: result.splits)
  show ?thesis
  proof (cases "fst ?V")
    case (Raise e)
    then show ?thesis using V by (auto simp: t)
  next
    case (Return x)
    note rV = Return
    show ?thesis
    proof (cases "fst ?S")
      case (Raise e)
      then show ?thesis using rV V S by (auto simp: t)
    next
      case (Return y)
      then show ?thesis using rV V S P Z by (auto simp: t)
    qed
  qed
qed

lemma rest_run:
  fixes w h cfg p sql S1
  defines "r \<equiv> block [report_tables w h, admin_upserter w cfg, commit w,
                      verify_admin w cfg, report_stats w, print_success cfg, close] p"
  assumes s: "sent p = [Execute (Script sql), Commit]"
      and t: "txn p = S1" and d: "durable p = S1"
  shows "prefix (sent (snd r)) (requests cfg sql S1) \<and> 3 \<le> length (sent (snd r)) \<and>
         (fst r = Return ()) =
           (fault w 2 = None \<and> fault w 3 = None \<and> fault w 4 = None \<and> fault w 5 = None \<and>
            fault w 6 = None \<and> fault w 7 = None \<and> fault w 8 = None \<and>
            ''users'' \<in> set (tables S1) \<and> ''projects'' \<in> set (tables S1) \<and>
            ''bugs'' \<in> set (tables S1) \<and> ''audit_log'' \<in> set (tables S1)) \<and>
         (fst r = Return () \<longrightarrow> sent (snd r) = requests cfg sql S1) \<and>
         durable (snd r) =
           (if 7 \<le> length (sent (snd r)) \<and> fault w 6 = None
            then upsert_effect cfg w S1 else S1)"
proof -
  let ?B = "report_tables w h p"
  let ?pB = "snd ?B"
  have B: "sent ?pB = [Execute (Script sql), Commit, Execute SelectTables]"
      "txn ?pB = S1" "durable ?pB = S1" "(fst ?B = Return ()) = (fault w 2 = None)"
    using report_tables_run [of w h p] s t d by (simp_all add: eval_nat_numeral)
  let ?C = "admin_upserter w cfg ?pB"
  let ?pC = "snd ?C"
  have C: "prefix (sent ?pC)
             ([Execute (Script sql), Commit, Execute SelectTables] @ upserter_requests cfg S1)"
      "3 < length (sent ?pC)" "durable ?pC = S1"
      "(fst ?C = Return ()) =
         (fault w 3 = None \<and> fault w 4 = None \<and> fault w 5 = None \<and>
          ''users'' \<in> set (tables S1) \<and> ''audit_log'' \<in> set (tables S1))"
    using admin_upserter_sent [of w cfg ?pB] admin_upserter_durable [of w cfg ?pB]
      admin_upserter_result [of w cfg ?pB] B
    by (simp_all add: eval_nat_numeral)
  have C': "sent ?pC = [Execute (Script sql), Commit, Execute SelectTables] @ upserter_requests cfg S1"
      "txn ?pC = upsert_effect cfg w S1"
    if "fst ?C = Return ()"
    using admin_upserter_sent [of w cfg ?pB] admin_upserter_healthy [of w ?pB cfg]
      admin_upserter_success_D [OF that] B that
    by simp_all
  have Cl: "length (sent ?pC) \<le> 6"
    using prefix_length_le [OF C(1)] by (simp add: upserter_requests_def)
  let ?K = "commit w ?pC"
  let ?pK = "snd ?K"
  note K = commit_run [of w ?pC]
  let ?D = "block [verify_admin w cfg, report_stats w, print_success cfg, close]"
  note D = tail_run [of w cfg ?pK]
  have r: "r = (case fst ?B of Raise e \<Rightarrow> (Raise e, ?pB)
                | Return x \<Rightarrow>
                   (case fst ?C of Raise e \<Rightarrow> (Raise e, ?pC)
                    | Return y \<Rightarrow>
                       (case fst ?K of Raise e \<Rightarrow> (Raise e, ?pK)
                        | Return z \<Rightarrow> ?D ?pK)))"
    unfolding r_def
    by (simp add: block_Cons [of "report_tables w h"] block_Cons [of "admin_upserter w cfg"]
        block_Cons [of "commit w"] seq_alt split: result.splits)
  show ?thesis
  proof (cases "fst ?B")
    case (Raise e)
    then show ?thesis using B by (simp add: r requests_def eval_nat_numeral)
  next
    case (Return x)
    note rB = Return
    then have f2: "fault w 2 = None" using B(4) by simp
    show ?thesis
    proof (cases "fst ?C")
      case (Raise e)
      then have "fst ?C \<noteq> Return ()" by simp
      then show ?thesis
        using Raise rB C Cl f2 prefix_prefix [OF C(1)]
        by (auto simp: r requests_def eval_nat_numeral)
    next
      case (Return y)
      note rC = Return
      have rC': "fst ?C = Return ()" using Return by simp
      note C2 = C' [OF rC']
      show ?thesis
      proof (cases "fst ?K")
        case (Raise e)
        then have "fst ?K \<noteq> Return ()" by simp
        then show ?thesis
          using Raise rB rC C C2 K f2
          by (auto simp: r requests_def upserter_requests_def eval_nat_numeral)
      next
        case (Return z)
        have f6: "fault w 6 = None"
          using Return K C2 by (simp add: upserter_requests_def eval_nat_numeral)
        have lK: "length (sent ?pK) = 7" "txn ?pK = upsert_effect cfg w S1"
            "durable ?pK = upsert_effect cfg w S1"
            "sent ?pK = [Execute (Script sql), Commit, Execute SelectTables] @
                 upserter_requests cfg S1 @ [Commit]"
          using K C2 f6 by (simp_all add: upserter_requests_def eval_nat_numeral)
        show ?thesis
          using Return rB rC C C2 D f2 f6 lK
          by (auto simp: r requests_def upsert_effect_props upserter_requests_def eval_nat_numeral)
      qed
    qed
  qed
qed

lemma try_handlers_state:
  "durable (snd (try_except m handlers p)) = durable (snd (m p)) \<and>
   sent (snd (try_except m handlers p)) = sent (snd (m p)) \<and>
   (fst (try_except m handlers p) = Return () \<longleftrightarrow> fst (m p) = Return ())"
proof (cases "m p")
  case (Pair r p')
  then show ?thesis
    using handlers_exit [of _ p'] handlers_result [of _ p']
    by (auto simp: try_except_def split: result.splits raised.splits)
qed

lemma try_setup_state:
  "durable (snd (try_except m setup_handler p)) = durable (snd (m p)) \<and>
   sent (snd (try_except m setup_handler p)) = sent (snd (m p)) \<and>
   (fst (try_except m setup_handler p) = Return () \<longleftrightarrow> fst (m p) = Return ())"
proof (cases "m p")
  case (Pair r p')
  then show ?thesis
    by (auto simp: try_except_def setup_handler_def print_exc_def prog_defs
        split: result.splits raised.splits)
qed

lemma connector_txn: "txn p = durable p \<Longrightarrow> txn (snd (connector w i cs p)) = durable p"
  by (induction cs arbitrary: i p)
     (auto simp: prog_defs try_connection_eq split: option.splits)

lemma connector_Some:
  "\<not> list_all (refused w) cs \<Longrightarrow> \<exists>c. fst (connector w i cs p) = Return (Some c)"
proof -
  assume "\<not> list_all (refused w) cs"
  then have "find (\<lambda>c. \<not> refused w c) cs \<noteq> None"
    by (induction cs) auto
  then show ?thesis by (auto simp: connector_result)
qed

lemma main_ipv6_connected:
  assumes "\<not> list_all (refused w) (CONNECTION_ATTEMPTS pw)"
  shows "\<exists>pc. main_setup_with_ipv6 w pw a (start d) = try_except (setup_body w a) setup_handler pc \<and>
              sent pc = [] \<and> durable pc = d \<and> txn pc = d"
proof -
  let ?p = "snd (print ''Attempting Database Connection...'' (start d))"
  let ?c = "connector w 1 (CONNECTION_ATTEMPTS pw) ?p"
  obtain c where c: "fst ?c = Return (Some c)"
    using connector_Some [OF assms] by blast
  have p: "sent ?p = []" "durable ?p = d" "txn ?p = durable ?p"
    by (simp_all add: print_def start_def)
  have "main_setup_with_ipv6 w pw a (start d) = try_except (setup_body w a) setup_handler (snd ?c)"
    using c by (simp add: main_setup_with_ipv6_def seq_alt andthen_alt print_def)
  moreover have "sent (snd ?c) = [] \<and> durable (snd ?c) = d \<and> txn (snd ?c) = d"
    using connector_frame [of w 1 "CONNECTION_ATTEMPTS pw" ?p] connector_txn [OF p(3)] p
    by simp
  ultimately show ?thesis by blast
qed

subsection \<open>The run of \<^verbatim>\<open>setup-database.py\<close>\<close>

lemma mainA_ok:
  assumes "sent p = []"
      and "server_accepts w (ConnectUrl (DATABASE_URL cfg) ''require'' 10) = None"
      and "files w ''database/schema.sql'' = Contents sql"
      and "fault w 0 = None" and "snd (server_script w sql (durable p)) = Inr S1"
      and "fault w 1 = None"
  shows "main_body w cfg p =
     block [report_tables w ''Verifying tables...'', admin_upserter w cfg, commit w,
            verify_admin w cfg, report_stats w, print_success cfg, close]
       (p\<lparr>attempts := attempts p @ [ConnectUrl (DATABASE_URL cfg) ''require'' 10],
          txn := S1, sent := [Execute (Script sql), Commit], durable := S1,
          console := console p @ [''Connecting to Supabase...'', ''Connected to database'',
             ''Creating database schema...'', ''   Executing schema.sql (409 lines)...'',
             ''Database schema created successfully!'']\<rparr>)"
  using assms
  by (simp add: main_body_def apply_schema_def open_read_def connect_def execute_def commit_def
      Let_def prog_defs split: option.splits)

lemma main_body_refused:
  assumes "server_accepts w (ConnectUrl (DATABASE_URL cfg) ''require'' 10) = Some e"
  shows "fst (main_body w cfg p) = Raise (Exc e) \<and> sent (snd (main_body w cfg p)) = sent p \<and>
         durable (snd (main_body w cfg p)) = durable p"
  using assms by (simp add: main_body_def connect_def Let_def prog_defs)

lemma main_body_no_file:
  assumes "server_accepts w (ConnectUrl (DATABASE_URL cfg) ''require'' 10) = None"
      and "\<And>sql. files w ''database/schema.sql'' \<noteq> Contents sql"
  shows "fst (main_body w cfg p) \<noteq> Return () \<and> sent (snd (main_body w cfg p)) = sent p \<and>
         durable (snd (main_body w cfg p)) = durable p"
proof (cases "files w ''database/schema.sql''")
  case (Contents sql)
  then show ?thesis using assms(2) by simp
next
  case Missing
  then show ?thesis
    using assms(1)
    by (simp add: main_body_def apply_schema_def open_read_def connect_def Let_def prog_defs)
next
  case (Unreadable c m)
  then show ?thesis
    using assms(1)
    by (simp add: main_body_def apply_schema_def open_read_def connect_def Let_def prog_defs)
qed

lemma main_body_missing:
  assumes "server_accepts w (ConnectUrl (DATABASE_URL cfg) ''require'' 10) = None"
      and "files w ''database/schema.sql'' = Missing"
  shows "fst (main_body w cfg p) =
           Raise (Exc (FileNotFoundError (no_such_file ''database/schema.sql'')))"
  using assms
  by (simp add: main_body_def apply_schema_def open_read_def connect_def Let_def prog_defs)

lemma main_body_script_fails:
  assumes "sent p = []"
      and "server_accepts w (ConnectUrl (DATABASE_URL cfg) ''require'' 10) = None"
      and "files w ''database/schema.sql'' = Contents sql"
      and "script_fails w sql (durable p) e"
  shows "fst (main_body w cfg p) = Raise (Exc (DbError e)) \<and>
         sent (snd (main_body w cfg p)) = [Execute (Script sql)] \<and>
         durable (snd (main_body w cfg p)) = left_by_script w sql (durable p)"
  using assms
  by (auto simp: script_fails_def left_by_script_def main_body_def apply_schema_def
      open_read_def connect_def execute_def Let_def prog_defs split: option.splits)

lemma main_body_commit_fails:
  assumes "sent p = []"
      and "server_accepts w (ConnectUrl (DATABASE_URL cfg) ''require'' 10) = None"
      and "files w ''database/schema.sql'' = Contents sql"
      and "fault w 0 = None" and "snd (server_script w sql (durable p)) = Inr S1"
      and "fault w 1 = Some e"
  shows "fst (main_body w cfg p) = Raise (Exc (DbError e)) \<and>
         sent (snd (main_body w cfg p)) = [Execute (Script sql), Commit] \<and>
         durable (snd (main_body w cfg p)) = left_by_script w sql (durable p)"
  using assms
  by (auto simp: left_by_script_def main_body_def apply_schema_def
      open_read_def connect_def execute_def commit_def Let_def prog_defs split: option.splits)

lemma main_db_script_fails:
  assumes "server_accepts w (ConnectUrl (DATABASE_URL cfg) ''require'' 10) = None"
      and "files w ''database/schema.sql'' = Contents sql"
      and "script_fails w sql d e"
  shows "main_setup_database w cfg (start d) =
     (Raise (SystemExit 1),
      \<lparr>console = [''CTO Dashboard - Complete Database Setup'', ''Connecting to Supabase...'',
                  ''Connected to database'', ''Creating database schema...'',
                  ''   Executing schema.sql (409 lines)...'',
                  ''Database Error: '' @ err_str e,
                  ''Error Code: '' @ str_opt (pgcode e),
                  ''Error Details: '' @ str_opt (pgerror e)],
       attempts = [ConnectUrl (DATABASE_URL cfg) ''require'' 10],
       sent = [Execute (Script sql)], txn = d, durable = left_by_script w sql d\<rparr>)"
  using assms
  by (auto simp: script_fails_def left_by_script_def main_setup_database_def main_body_def
      apply_schema_def open_read_def connect_def execute_def Let_def prog_defs start_def
      split: option.splits)

lemma main_db_missing:
  assumes "server_accepts w (ConnectUrl (DATABASE_URL cfg) ''require'' 10) = None"
      and "files w ''database/schema.sql'' = Missing"
  shows "main_setup_database w cfg (start d) =
     (Raise (SystemExit 1),
      \<lparr>console = [''CTO Dashboard - Complete Database Setup'', ''Connecting to Supabase...'',
                  ''Connected to database'', ''Creating database schema...'',
                  ''Error: database/schema.sql not found'',
                  ''   Make sure you're running this from the project root directory''],
       attempts = [ConnectUrl (DATABASE_URL cfg) ''require'' 10],
       sent = [], txn = d, durable = d\<rparr>)"
  using assms
  by (simp add: main_setup_database_def main_body_def apply_schema_def
      open_read_def connect_def Let_def prog_defs start_def)

text \<open>The run as a whole: the banner, then the body under the handlers.\<close>

lemma main_db_body:
  "main_setup_database w cfg (start d) =
     try_except (main_body w cfg) handlers
       (snd (print ''CTO Dashboard - Complete Database Setup'' (start d)))"
  by (simp add: main_setup_database_def seq_alt print_def)

lemma main_db_state:
  fixes w cfg d
  defines "p0 \<equiv> snd (print ''CTO Dashboard - Complete Database Setup'' (start d))"
  shows "durable (snd (main_setup_database w cfg (start d))) = durable (snd (main_body w cfg p0)) \<and>
         sent (snd (main_setup_database w cfg (start d))) = sent (snd (main_body w cfg p0)) \<and>
         (fst (main_setup_database w cfg (start d)) = Return ()) =
           (fst (main_body w cfg p0) = Return ()) \<and>
         sent p0 = [] \<and> durable p0 = d \<and> txn p0 = d"
  using try_handlers_state [of "main_body w cfg" p0]
  by (simp add: main_db_body p0_def [symmetric]) (simp add: p0_def print_def start_def)

lemma main_db_goes_on:
  fixes w cfg d sql S1
  defines "M \<equiv> main_setup_database w cfg (start d)"
  assumes "server_accepts w (ConnectUrl (DATABASE_URL cfg) ''require'' 10) = None"
      and "files w ''database/schema.sql'' = Contents sql"
      and "fault w 0 = None" and "snd (server_script w sql d) = Inr S1"
      and "fault w 1 = None"
  shows "prefix (sent (snd M)) (requests cfg sql S1) \<and> 3 \<le> length (sent (snd M)) \<and>
         (fst M = Return ()) =
           (fault w 2 = None \<and> fault w 3 = None \<and> fault w 4 = None \<and> fault w 5 = None \<and>
            fault w 6 = None \<and> fault w 7 = None \<and> fault w 8 = None \<and>
            ''users'' \<in> set (tables S1) \<and> ''projects'' \<in> set (tables S1) \<and>
            ''bugs'' \<in> set (tables S1) \<and> ''audit_log'' \<in> set (tables S1)) \<and>
         (fst M = Return () \<longrightarrow> sent (snd M) = requests cfg sql S1) \<and>
         durable (snd M) =
           (if 7 \<le> length (sent (snd M)) \<and> fault w 6 = None
            then upsert_effect cfg w S1 else S1)"
proof -
  let ?p0 = "snd (print ''CTO Dashboard - Complete Database Setup'' (start d))"
  note S = main_db_state [of w cfg d, folded M_def]
  have sc: "snd (server_script w sql (durable ?p0)) = Inr S1"
    using assms(5) S by simp
  have s0: "sent ?p0 = []" using S by simp
  note A = mainA_ok [OF s0 assms(2,3,4) sc assms(6)]
  have R: "prefix (sent (snd (main_body w cfg ?p0))) (requests cfg sql S1) \<and>
         3 \<le> length (sent (snd (main_body w cfg ?p0))) \<and>
         (fst (main_body w cfg ?p0) = Return ()) =
           (fault w 2 = None \<and> fault w 3 = None \<and> fault w 4 = None \<and> fault w 5 = None \<and>
            fault w 6 = None \<and> fault w 7 = None \<and> fault w 8 = None \<and>
            ''users'' \<in> set (tables S1) \<and> ''projects'' \<in> set (tables S1) \<and>
            ''bugs'' \<in> set (tables S1) \<and> ''audit_log'' \<in> set (tables S1)) \<and>
         (fst (main_body w cfg ?p0) = Return () \<longrightarrow>
            sent (snd (main_body w cfg ?p0)) = requests cfg sql S1) \<and>
         durable (snd (main_body w cfg ?p0)) =
           (if 7 \<le> length (sent (snd (main_body w cfg ?p0))) \<and> fault w 6 = None
            then upsert_effect cfg w S1 else S1)"
    unfolding A by (rule rest_run) simp_all
  show ?thesis
    using R S by simp
qed

lemma commits_prefix:
  "prefix (sent p) rs \<Longrightarrow> commits p \<le> length (filter (\<lambda>r. r = Commit) rs)"
  by (auto simp: commits_def prefix_def)

lemma commits_requests: "length (filter (\<lambda>r. r = Commit) (requests cfg sql S1)) = 2"
  by (simp add: requests_def upserter_requests_def upsert_request_def split: list.splits)

lemma main_db_cases [case_names refused no_file script_fails commit_fails goes_on]:
  fixes w cfg d
  defines "M \<equiv> main_setup_database w cfg (start d)"
  obtains e where "server_accepts w (ConnectUrl (DATABASE_URL cfg) ''require'' 10) = Some e"
      "fst M \<noteq> Return ()" "sent (snd M) = []" "durable (snd M) = d"
  | "server_accepts w (ConnectUrl (DATABASE_URL cfg) ''require'' 10) = None"
      "\<And>sql. files w ''database/schema.sql'' \<noteq> Contents sql"
      "fst M \<noteq> Return ()" "sent (snd M) = []" "durable (snd M) = d"
  | sql e where "server_accepts w (ConnectUrl (DATABASE_URL cfg) ''require'' 10) = None"
      "files w ''database/schema.sql'' = Contents sql" "script_fails w sql d e"
      "fst M \<noteq> Return ()" "sent (snd M) = [Execute (Script sql)]"
      "durable (snd M) = left_by_script w sql d"
  | sql S1 e where "server_accepts w (ConnectUrl (DATABASE_URL cfg) ''require'' 10) = None"
      "files w ''database/schema.sql'' = Contents sql" "fault w 0 = None"
      "snd (server_script w sql d) = Inr S1" "fault w 1 = Some e"
      "fst M \<noteq> Return ()" "sent (snd M) = [Execute (Script sql), Commit]"
      "durable (snd M) = left_by_script w sql d"
  | sql S1 where "server_accepts w (ConnectUrl (DATABASE_URL cfg) ''require'' 10) = None"
      "files w ''database/schema.sql'' = Contents sql" "fault w 0 = None"
      "snd (server_script w sql d) = Inr S1" "fault w 1 = None"
      "prefix (sent (snd M)) (requests cfg sql S1)" "3 \<le> length (sent (snd M))"
      "(fst M = Return ()) =
           (fault w 2 = None \<and> fault w 3 = None \<and> fault w 4 = None \<and> fault w 5 = None \<and>
            fault w 6 = None \<and> fault w 7 = None \<and> fault w 8 = None \<and>
            ''users'' \<in> set (tables S1) \<and> ''projects'' \<in> set (tables S1) \<and>
            ''bugs'' \<in> set (tables S1) \<and> ''audit_log'' \<in> set (tables S1))"
      "fst M = Return () \<longrightarrow> sent (snd M) = requests cfg sql S1"
      "durable (snd M) =
           (if 7 \<le> length (sent (snd M)) \<and> fault w 6 = None
            then upsert_effect cfg w S1 else S1)"
proof -
  let ?p0 = "snd (print ''CTO Dashboard - Complete Database Setup'' (start d))"
  note S = main_db_state [of w cfg d, folded M_def]
  have s0: "sent ?p0 = []" and d0: "durable ?p0 = d" using S by simp_all
  show thesis
  proof (cases "server_accepts w (ConnectUrl (DATABASE_URL cfg) ''require'' 10)")
    case (Some e)
    show ?thesis
      using main_body_refused [OF Some, of ?p0] S Some
      by (intro that(1) [of e]) simp_all
  next
    case None
    note acc = None
    show ?thesis
    proof (cases "\<exists>sql. files w ''database/schema.sql'' = Contents sql")
      case False
      then have nf: "\<And>sql. files w ''database/schema.sql'' \<noteq> Contents sql" by blast
      show ?thesis
        using main_body_no_file [OF acc nf, of ?p0] S
        by (intro that(2) acc nf) simp_all
    next
      case True
      then obtain sql where sql: "files w ''database/schema.sql'' = Contents sql" by blast
      show ?thesis
      proof (cases "\<exists>e. script_fails w sql d e")
        case True
        then obtain e where e: "script_fails w sql d e" by blast
        then have e0: "script_fails w sql (durable ?p0) e" using d0 by simp
        show ?thesis
          using main_body_script_fails [OF s0 acc sql e0] S
          by (intro that(3) [of sql e] acc sql e) simp_all
      next
        case False
        then have f0: "fault w 0 = None"
          by (cases "fault w 0") (auto simp: script_fails_def)
        obtain S1 where S1: "snd (server_script w sql d) = Inr S1"
          using False f0 by (cases "snd (server_script w sql d)") (auto simp: script_fails_def)
        have S1': "snd (server_script w sql (durable ?p0)) = Inr S1" using S1 d0 by simp
        show ?thesis
        proof (cases "fault w 1")
          case (Some e)
          show ?thesis
            using main_body_commit_fails [OF s0 acc sql f0 S1' Some] S
            by (intro that(4) [of sql S1 e] acc sql f0 S1 Some) simp_all
        next
          case None
          note G = main_db_goes_on [OF acc sql f0 S1 None, folded M_def]
          show ?thesis
            using G by (intro that(5) [of sql S1] acc sql f0 S1 None) simp_all
        qed
      qed
    qed
  qed
qed

lemma upsert_effect_neq: "upsert_effect cfg w S1 \<noteq> S1"
proof
  assume "upsert_effect cfg w S1 = S1"
  then have "length (audit_log (upsert_effect cfg w S1)) = length (audit_log S1)" by simp
  then show False by (simp add: upsert_effect_props)
qed

text \<open>
  Claim C9. A run of \<^verbatim>\<open>setup-database.py\<close> sends at most two commits. When it succeeds,
  the requests it has sent are exactly those of \<open>requests\<close>: the script, a commit, the
  table listing, the look-up, the update or the insert of the administrator's row, the
  insert of the audit row, a commit, and the two reads; and the committed database is
  the one the script made with the upsert and the audit row both applied. When the
  script has run without error, what the run has sent is a prefix of that list, so a
  commit goes out only right after the script and right after the audit insert.
  (i) The committed database is then what the script had committed by itself, or the one
  the script made, or that one with the upsert and the audit row both applied: never one
  of the two without the other. Once the first commit has succeeded, it is the last of
  these exactly when the second commit has been sent and has not failed. (ii) Once the
  first commit has succeeded, whatever fails afterwards, the committed database has the
  tables that the script made, and the process ends with exit status 1.
\<close>

theorem two_commits_atomic_pair:
  "commits (snd (main_setup_database w cfg (start d))) \<le> 2 \<and>
   (fst (main_setup_database w cfg (start d)) = Return () \<longrightarrow>
      (\<exists>sql S1. files w ''database/schema.sql'' = Contents sql \<and>
         snd (server_script w sql d) = Inr S1 \<and>
         sent (snd (main_setup_database w cfg (start d))) = requests cfg sql S1 \<and>
         commits (snd (main_setup_database w cfg (start d))) = 2 \<and>
         durable (snd (main_setup_database w cfg (start d))) = upsert_effect cfg w S1)) \<and>
   (server_accepts w (ConnectUrl (DATABASE_URL cfg) ''require'' 10) = None \<and>
    files w ''database/schema.sql'' = Contents sql \<and> fault w 0 = None \<and>
    snd (server_script w sql d) = Inr S1 \<longrightarrow>
      prefix (sent (snd (main_setup_database w cfg (start d)))) (requests cfg sql S1) \<and>
      (durable (snd (main_setup_database w cfg (start d))) = left_by_script w sql d \<or>
       durable (snd (main_setup_database w cfg (start d))) = S1 \<or>
       durable (snd (main_setup_database w cfg (start d))) = upsert_effect cfg w S1) \<and>
      (fault w 1 = None \<longrightarrow>
         durable (snd (main_setup_database w cfg (start d))) =
           (if 7 \<le> length (sent (snd (main_setup_database w cfg (start d)))) \<and> fault w 6 = None
            then upsert_effect cfg w S1 else S1) \<and>
         tables (durable (snd (main_setup_database w cfg (start d)))) = tables S1 \<and>
         (fst (main_setup_database w cfg (start d)) \<noteq> Return () \<longrightarrow>
            exit_code (main_setup_database w cfg (start d)) = 1)))"
proof (cases rule: main_db_cases [of w cfg d])
  case (refused e)
  then show ?thesis by (simp add: commits_def)
next
  case no_file
  then show ?thesis by (simp add: commits_def)
next
  case (script_fails sql' e)
  then show ?thesis by (auto simp: commits_def script_fails_def)
next
  case (commit_fails sql' S1' e)
  then show ?thesis by (auto simp: commits_def requests_def)
next
  case (goes_on sql' S1')
  have c: "commits (snd (main_setup_database w cfg (start d))) \<le> 2"
    using commits_prefix [OF goes_on(6)] by (simp add: commits_requests)
  have c2: "commits (snd (main_setup_database w cfg (start d))) = 2"
    if "fst (main_setup_database w cfg (start d)) = Return ()"
    using goes_on(9) that by (simp add: commits_def commits_requests)
  have t: "tables (durable (snd (main_setup_database w cfg (start d)))) = tables S1'"
    using goes_on(10) by (simp add: upsert_effect_props)
  have e: "exit_code (main_setup_database w cfg (start d)) = 1"
    if "fst (main_setup_database w cfg (start d)) \<noteq> Return ()"
    using that by (simp add: exit_code_db)
  have s: "fst (main_setup_database w cfg (start d)) = Return () \<Longrightarrow>
      durable (snd (main_setup_database w cfg (start d))) = upsert_effect cfg w S1'"
    using goes_on(8,9,10) by (simp add: requests_def upserter_requests_def)
  show ?thesis
    using goes_on(1-6,10) c c2 t e s goes_on(9)
    by auto
qed

theorem two_commits_atomic_pair_witness:
  "server_accepts w_audit_fails (ConnectUrl (DATABASE_URL cfg0) ''require'' 10) = None \<and>
   files w_audit_fails ''database/schema.sql'' = Contents ''CREATE TABLE users (...); ...'' \<and>
   fault w_audit_fails 0 = None \<and>
   snd (server_script w_audit_fails ''CREATE TABLE users (...); ...'' db_empty) = Inr db_fresh \<and>
   fault w_audit_fails 1 = None \<and>
   fst (main_setup_database w_audit_fails cfg0 (start db_empty)) \<noteq> Return () \<and>
   length (sent (snd (main_setup_database w_audit_fails cfg0 (start db_empty)))) = 6 \<and>
   durable (snd (main_setup_database w_audit_fails cfg0 (start db_empty))) = db_fresh \<and>
   exit_code (main_setup_database w_audit_fails cfg0 (start db_empty)) = 1 \<and>
   fst (main_setup_database w_ok cfg0 (start db_empty)) = Return () \<and>
   sent (snd (main_setup_database w_ok cfg0 (start db_empty))) =
     [Execute (Script ''CREATE TABLE users (...); ...''), Commit, Execute SelectTables,
      Execute (SelectUsersByEmail ''admin@example.org''),
      Execute (InsertUser ''admin@example.org'' ''Admin'' ''cto''),
      Execute (InsertAudit 1 ''password_created'' ''user'' 1 (details cfg0)),
      Commit, Execute (SelectUsersByEmail ''admin@example.org''), Execute SelectCounts] \<and>
   durable (snd (main_setup_database w_ok cfg0 (start db_empty))) =
     upsert_effect cfg0 w_ok db_fresh"
proof -
  have a: "server_accepts w_audit_fails (ConnectUrl (DATABASE_URL cfg0) ''require'' 10) = None"
      "files w_audit_fails ''database/schema.sql'' = Contents ''CREATE TABLE users (...); ...''"
      "fault w_audit_fails 0 = None"
      "snd (server_script w_audit_fails ''CREATE TABLE users (...); ...'' db_empty) = Inr db_fresh"
      "fault w_audit_fails 1 = None"
    by (simp_all add: w_audit_fails_def w_ok_def db_fresh_def)
  have b: "server_accepts w_ok (ConnectUrl (DATABASE_URL cfg0) ''require'' 10) = None"
      "files w_ok ''database/schema.sql'' = Contents ''CREATE TABLE users (...); ...''"
      "fault w_ok 0 = None"
      "snd (server_script w_ok ''CREATE TABLE users (...); ...'' db_empty) = Inr db_fresh"
      "fault w_ok 1 = None"
    by (simp_all add: w_ok_def db_fresh_def)
  note A = main_db_goes_on [OF a]
  note B = main_db_goes_on [OF b]
  have f: "fst (main_setup_database w_audit_fails cfg0 (start db_empty)) \<noteq> Return ()"
    using A by (simp add: w_audit_fails_def)
  have g: "fst (main_setup_database w_ok cfg0 (start db_empty)) = Return ()"
    using B by (simp add: w_ok_def db_fresh_def)
  have l: "length (sent (snd (main_setup_database w_audit_fails cfg0 (start db_empty)))) = 6"
    by (simp add: main_setup_database_def main_body_def apply_schema_def report_tables_def
        admin_upserter_def upsert_user_def store_hash_def open_read_def connect_def execute_def
        commit_def Let_def prog_defs block_prints w_audit_fails_def w_ok_def db_fresh_def
        db_empty_def cfg0_def start_def constraint_error_def)
  have r: "requests cfg0 ''CREATE TABLE users (...); ...'' db_fresh =
     [Execute (Script ''CREATE TABLE users (...); ...''), Commit, Execute SelectTables,
      Execute (SelectUsersByEmail ''admin@example.org''),
      Execute (InsertUser ''admin@example.org'' ''Admin'' ''cto''),
      Execute (InsertAudit 1 ''password_created'' ''user'' 1 (details cfg0)),
      Commit, Execute (SelectUsersByEmail ''admin@example.org''), Execute SelectCounts]"
    by (simp add: requests_def upserter_requests_def upsert_request_def upsert_id_def
        admin_rows_def db_fresh_def db_empty_def cfg0_def)
  show ?thesis
    using a f g l r
      two_commits_atomic_pair [of w_audit_fails cfg0 db_empty
        "''CREATE TABLE users (...); ...''" db_fresh]
      two_commits_atomic_pair [of w_ok cfg0 db_empty "''CREATE TABLE users (...); ...''" db_fresh]
    by (auto simp: w_ok_def db_fresh_def)
qed

subsection \<open>The run of \<^verbatim>\<open>setup-with-ipv6.py\<close>\<close>

lemma setup_mainA_ok:
  assumes "sent p = []"
      and "files w ''database/complete-setup.sql'' = Contents sql"
      and "fault w 0 = None" and "snd (server_script w sql (txn p)) = Inr S1"
      and "fault w 1 = None"
  shows "setup_body w a p =
     block [report_tables w ''Verifying setup...'', verify_admin_ipv6 w, close, print_success_ipv6 a]
       (p\<lparr>txn := S1, sent := [Execute (Script sql), Commit], durable := S1,
          console := console p @ [''Connected! Executing setup...'',
             ''Executing complete-setup.sql...'', ''Setup SQL executed successfully!'']\<rparr>)"
  using assms
  by (simp add: setup_body_def apply_setup_def open_read_def execute_def commit_def
      Let_def prog_defs split: option.splits)

lemma setup_rest_run:
  fixes w h a p sql S1
  defines "r \<equiv> block [report_tables w h, verify_admin_ipv6 w, close, print_success_ipv6 a] p"
  assumes s: "sent p = [Execute (Script sql), Commit]"
      and t: "txn p = S1" and d: "durable p = S1"
  shows "prefix (sent (snd r)) (requests_ipv6 sql) \<and> 3 \<le> length (sent (snd r)) \<and>
         (fst r = Return ()) =
           (fault w 2 = None \<and> fault w 3 = None \<and> ''users'' \<in> set (tables S1)) \<and>
         (fst r = Return () \<longrightarrow> sent (snd r) = requests_ipv6 sql) \<and>
         durable (snd r) = S1"
proof -
  let ?B = "report_tables w h p"
  let ?V = "verify_admin_ipv6 w (snd ?B)"
  let ?Z = "close (snd ?V)"
  let ?P = "print_success_ipv6 a (snd ?Z)"
  have B: "sent (snd ?B) = [Execute (Script sql), Commit, Execute SelectTables]"
      "txn (snd ?B) = S1" "durable (snd ?B) = S1" "(fst ?B = Return ()) = (fault w 2 = None)"
    using report_tables_run [of w h p] s t d by (simp_all add: eval_nat_numeral)
  have V: "sent (snd ?V) = requests_ipv6 sql" "durable (snd ?V) = S1"
      "(fst ?V = Return ()) = (fault w 3 = None \<and> ''users'' \<in> set (tables S1))"
    using verify_admin_ipv6_run [of w "snd ?B"] B
    by (simp_all add: requests_ipv6_def eval_nat_numeral)
  note Z = close_run [of "snd ?V"]
  note P = print_success_ipv6_run [of a "snd ?Z"]
  have r: "r = (case fst ?B of Raise e \<Rightarrow> (Raise e, snd ?B)
                | Return x \<Rightarrow>
                   (case fst ?V of Raise e \<Rightarrow> (Raise e, snd ?V)
                    | Return y \<Rightarrow> (Return (), snd ?P)))"
    unfolding r_def
    using P Z
    by (cases "print_success_ipv6 a (snd ?Z)")
       (simp add: block_Cons block_Nil seq_alt ret_def split: result.splits)
  show ?thesis
  proof (cases "fst ?B")
    case (Raise e)
    then show ?thesis using B by (simp add: r requests_ipv6_def)
  next
    case (Return x)
    note rB = Return
    show ?thesis
    proof (cases "fst ?V")
      case (Raise e)
      then show ?thesis using rB B V by (auto simp: r requests_ipv6_def)
    next
      case (Return y)
      then show ?thesis using rB B V Z P by (auto simp: r requests_ipv6_def)
    qed
  qed
qed

lemma setup_body_no_file:
  assumes "\<And>sql. files w ''database/complete-setup.sql'' \<noteq> Contents sql"
  shows "fst (setup_body w a p) \<noteq> Return () \<and> sent (snd (setup_body w a p)) = sent p \<and>
         durable (snd (setup_body w a p)) = durable p"
proof (cases "files w ''database/complete-setup.sql''")
  case (Contents sql)
  then show ?thesis using assms by simp
next
  case Missing
  then show ?thesis
    by (simp add: setup_body_def apply_setup_def open_read_def Let_def prog_defs)
next
  case (Unreadable c m)
  then show ?thesis
    by (simp add: setup_body_def apply_setup_def open_read_def Let_def prog_defs)
qed

lemma setup_body_missing:
  assumes "files w ''database/complete-setup.sql'' = Missing"
  shows "fst (setup_body w a p) =
           Raise (Exc (FileNotFoundError (no_such_file ''database/complete-setup.sql'')))"
  using assms
  by (simp add: setup_body_def apply_setup_def open_read_def Let_def prog_defs)

lemma setup_body_script_fails:
  assumes "sent p = []"
      and "files w ''database/complete-setup.sql'' = Contents sql"
      and "script_fails w sql (txn p) e" and "durable p = txn p"
  shows "fst (setup_body w a p) = Raise (Exc (DbError e)) \<and>
         sent (snd (setup_body w a p)) = [Execute (Script sql)] \<and>
         durable (snd (setup_body w a p)) = left_by_script w sql (txn p) \<and>
         console (snd (setup_body w a p)) =
           console p @ [''Connected! Executing setup...'', ''Executing complete-setup.sql...'']"
  using assms
  by (auto simp: script_fails_def left_by_script_def setup_body_def apply_setup_def
      open_read_def execute_def Let_def prog_defs split: option.splits)

lemma setup_body_commit_fails:
  assumes "sent p = []"
      and "files w ''database/complete-setup.sql'' = Contents sql"
      and "fault w 0 = None" and "snd (server_script w sql (txn p)) = Inr S1"
      and "fault w 1 = Some e" and "durable p = txn p"
  shows "fst (setup_body w a p) = Raise (Exc (DbError e)) \<and>
         sent (snd (setup_body w a p)) = [Execute (Script sql), Commit] \<and>
         durable (snd (setup_body w a p)) = left_by_script w sql (txn p)"
  using assms
  by (auto simp: left_by_script_def setup_body_def apply_setup_def
      open_read_def execute_def commit_def Let_def prog_defs split: option.splits)

lemma try_setup_script_fails:
  assumes "sent p = []"
      and "files w ''database/complete-setup.sql'' = Contents sql"
      and "script_fails w sql (txn p) e" and "durable p = txn p"
  shows "fst (try_except (setup_body w a) setup_handler p) = Raise (SystemExit 1) \<and>
         sent (snd (try_except (setup_body w a) setup_handler p)) = [Execute (Script sql)] \<and>
         durable (snd (try_except (setup_body w a) setup_handler p)) =
           left_by_script w sql (txn p) \<and>
         console (snd (try_except (setup_body w a) setup_handler p)) =
           console p @
           [''Connected! Executing setup...'', ''Executing complete-setup.sql...'',
            ''Error during setup: '' @ err_str e, ''Traceback (most recent call last):'',
            err_class e @ '': '' @ err_str e]"
proof (cases "setup_body w a p")
  case (Pair r p')
  then show ?thesis
    using setup_body_script_fails [OF assms, of a]
    by (simp add: try_except_def setup_handler_def print_exc_def prog_defs)
qed

lemma try_setup_missing:
  assumes "files w ''database/complete-setup.sql'' = Missing"
  shows "try_except (setup_body w a) setup_handler p =
     (Raise (SystemExit 1),
      p\<lparr>console := console p @
          [''Connected! Executing setup...'',
           ''Error during setup: '' @ no_such_file ''database/complete-setup.sql'',
           ''Traceback (most recent call last):'',
           ''FileNotFoundError: '' @ no_such_file ''database/complete-setup.sql'']\<rparr>)"
  using assms
  by (simp add: setup_body_def apply_setup_def setup_handler_def print_exc_def
      open_read_def Let_def prog_defs)

lemma main_ipv6_cases [case_names refused no_file script_fails commit_fails goes_on]:
  fixes w pw a d
  defines "M \<equiv> main_setup_with_ipv6 w pw a (start d)"
  obtains "list_all (refused w) (CONNECTION_ATTEMPTS pw)"
      "fst M \<noteq> Return ()" "sent (snd M) = []" "durable (snd M) = d"
  | "\<not> list_all (refused w) (CONNECTION_ATTEMPTS pw)"
      "\<And>sql. files w ''database/complete-setup.sql'' \<noteq> Contents sql"
      "fst M \<noteq> Return ()" "sent (snd M) = []" "durable (snd M) = d"
  | sql e where "\<not> list_all (refused w) (CONNECTION_ATTEMPTS pw)"
      "files w ''database/complete-setup.sql'' = Contents sql" "script_fails w sql d e"
      "fst M \<noteq> Return ()" "sent (snd M) = [Execute (Script sql)]"
      "durable (snd M) = left_by_script w sql d"
  | sql S1 e where "\<not> list_all (refused w) (CONNECTION_ATTEMPTS pw)"
      "files w ''database/complete-setup.sql'' = Contents sql" "fault w 0 = None"
      "snd (server_script w sql d) = Inr S1" "fault w 1 = Some e"
      "fst M \<noteq> Return ()" "sent (snd M) = [Execute (Script sql), Commit]"
      "durable (snd M) = left_by_script w sql d"
  | sql S1 where "\<not> list_all (refused w) (CONNECTION_ATTEMPTS pw)"
      "files w ''database/complete-setup.sql'' = Contents sql" "fault w 0 = None"
      "snd (server_script w sql d) = Inr S1" "fault w 1 = None"
      "prefix (sent (snd M)) (requests_ipv6 sql)" "3 \<le> length (sent (snd M))"
      "(fst M = Return ()) =
           (fault w 2 = None \<and> fault w 3 = None \<and> ''users'' \<in> set (tables S1))"
      "fst M = Return () \<longrightarrow> sent (snd M) = requests_ipv6 sql"
      "durable (snd M) = S1"
proof (cases "list_all (refused w) (CONNECTION_ATTEMPTS pw)")
  case True
  show ?thesis
    using main_ipv6_all_refused [OF True, of a "start d"]
    by (intro that(1) True) (simp_all add: M_def start_def)
next
  case False
  from main_ipv6_connected [OF False, of a d]
  obtain pc where pc: "M = try_except (setup_body w a) setup_handler pc"
      "sent pc = []" "durable pc = d" "txn pc = d"
    unfolding M_def by blast
  note T = try_setup_state [of "setup_body w a" pc, folded pc(1)]
  show ?thesis
  proof (cases "\<exists>sql. files w ''database/complete-setup.sql'' = Contents sql")
    case False
    then have nf: "\<And>sql. files w ''database/complete-setup.sql'' \<noteq> Contents sql" by blast
    show ?thesis
      using setup_body_no_file [OF nf, of a pc] T pc
      by (intro that(2) \<open>\<not> list_all (refused w) (CONNECTION_ATTEMPTS pw)\<close> nf) simp_all
  next
    case True
    then obtain sql where sql: "files w ''database/complete-setup.sql'' = Contents sql" by blast
    show ?thesis
    proof (cases "\<exists>e. script_fails w sql d e")
      case True
      then obtain e where e: "script_fails w sql d e" by blast
      then have e0: "script_fails w sql (txn pc) e" using pc by simp
      have dt: "durable pc = txn pc" using pc by simp
      show ?thesis
        using setup_body_script_fails [OF pc(2) sql e0 dt, of a] T pc
        by (intro that(3) [of sql e] \<open>\<not> list_all (refused w) (CONNECTION_ATTEMPTS pw)\<close> sql e)
           simp_all
    next
      case False
      then have f0: "fault w 0 = None"
        by (cases "fault w 0") (auto simp: script_fails_def)
      obtain S1 where S1: "snd (server_script w sql d) = Inr S1"
        using False f0 by (cases "snd (server_script w sql d)") (auto simp: script_fails_def)
      have S1': "snd (server_script w sql (txn pc)) = Inr S1" using S1 pc by simp
      have dt: "durable pc = txn pc" using pc by simp
      show ?thesis
      proof (cases "fault w 1")
        case (Some e)
        show ?thesis
          using setup_body_commit_fails [OF pc(2) sql f0 S1' Some dt, of a] T pc
          by (intro that(4) [of sql S1 e] \<open>\<not> list_all (refused w) (CONNECTION_ATTEMPTS pw)\<close>
              sql f0 S1 Some) simp_all
      next
        case None
        note A = setup_mainA_ok [OF pc(2) sql f0 S1' None, of a]
        have R: "prefix (sent (snd (setup_body w a pc))) (requests_ipv6 sql) \<and>
             3 \<le> length (sent (snd (setup_body w a pc))) \<and>
             (fst (setup_body w a pc) = Return ()) =
               (fault w 2 = None \<and> fault w 3 = None \<and> ''users'' \<in> set (tables S1)) \<and>
             (fst (setup_body w a pc) = Return () \<longrightarrow>
                sent (snd (setup_body w a pc)) = requests_ipv6 sql) \<and>
             durable (snd (setup_body w a pc)) = S1"
          unfolding A by (rule setup_rest_run) simp_all
        show ?thesis
          using R T
          by (intro that(5) [of sql S1] \<open>\<not> list_all (refused w) (CONNECTION_ATTEMPTS pw)\<close>
              sql f0 S1 None) simp_all
      qed
    qed
  qed
qed

lemma main_ipv6_goes_on:
  assumes "\<not> list_all (refused w) (CONNECTION_ATTEMPTS pw)"
      and "files w ''database/complete-setup.sql'' = Contents sql"
      and "fault w 0 = None" and "snd (server_script w sql d) = Inr S1"
      and "fault w 1 = None"
  shows "prefix (sent (snd (main_setup_with_ipv6 w pw a (start d)))) (requests_ipv6 sql) \<and>
         3 \<le> length (sent (snd (main_setup_with_ipv6 w pw a (start d)))) \<and>
         (fst (main_setup_with_ipv6 w pw a (start d)) = Return ()) =
           (fault w 2 = None \<and> fault w 3 = None \<and> ''users'' \<in> set (tables S1)) \<and>
         (fst (main_setup_with_ipv6 w pw a (start d)) = Return () \<longrightarrow>
            sent (snd (main_setup_with_ipv6 w pw a (start d))) = requests_ipv6 sql) \<and>
         durable (snd (main_setup_with_ipv6 w pw a (start d))) = S1"
proof (cases rule: main_ipv6_cases [of w pw a d])
  case refused
  then show ?thesis using assms by simp
next
  case no_file
  then show ?thesis using assms(2) no_file(2) [of sql] by simp
next
  case (script_fails sql' e)
  then show ?thesis using assms by (auto simp: script_fails_def)
next
  case (commit_fails sql' S1' e)
  then show ?thesis using assms by auto
next
  case (goes_on sql' S1')
  then show ?thesis using assms by auto
qed

subsection \<open>The exit status\<close>

lemma upt_0_9: "[0..<9] = [0, 1, 2, 3, 4, 5, 6, 7, 8]"
  by (simp add: upt_rec)

lemma upt_0_4: "[0..<4] = [0, 1, 2, 3]"
  by (simp add: upt_rec)

lemma exit_status_db:
  "exit_code (main_setup_database w cfg (start d)) =
     (if connection_error w cfg \<or> file_error w ''database/schema.sql'' \<or> database_error w d
      then 1 else 0)"
proof (cases rule: main_db_cases [of w cfg d])
  case (refused e)
  then show ?thesis by (simp add: exit_code_db connection_error_def)
next
  case no_file
  have "file_error w ''database/schema.sql''"
    using no_file(2) by (cases "files w ''database/schema.sql''") (auto simp: file_error_def)
  then show ?thesis using no_file by (simp add: exit_code_db)
next
  case (script_fails sql e)
  then show ?thesis
    by (auto simp: exit_code_db database_error_def script_fails_def upt_0_9)
next
  case (commit_fails sql S1 e)
  then show ?thesis
    by (simp add: exit_code_db database_error_def upt_0_9)
next
  case (goes_on sql S1)
  then show ?thesis
    by (auto simp: exit_code_db database_error_def connection_error_def file_error_def upt_0_9)
qed

lemma exit_status_ipv6:
  "exit_code (main_setup_with_ipv6 w pw a (start d)) =
     (if connection_error_ipv6 w pw \<or> file_error w ''database/complete-setup.sql'' \<or>
         database_error_ipv6 w d
      then 1 else 0)"
proof (cases rule: main_ipv6_cases [of w pw a d])
  case refused
  then show ?thesis by (simp add: exit_code_ipv6 connection_error_ipv6_def)
next
  case no_file
  have "file_error w ''database/complete-setup.sql''"
    using no_file(2)
    by (cases "files w ''database/complete-setup.sql''") (auto simp: file_error_def)
  then show ?thesis using no_file by (simp add: exit_code_ipv6)
next
  case (script_fails sql e)
  then show ?thesis
    by (auto simp: exit_code_ipv6 database_error_ipv6_def script_fails_def upt_0_4)
next
  case (commit_fails sql S1 e)
  then show ?thesis
    by (simp add: exit_code_ipv6 database_error_ipv6_def upt_0_4)
next
  case (goes_on sql S1)
  then show ?thesis
    by (auto simp: exit_code_ipv6 database_error_ipv6_def connection_error_ipv6_def
        file_error_def upt_0_4)
qed

lemma main_db_commit_after_script:
  assumes "0 < commits (snd (main_setup_database w cfg (start d)))"
  shows "\<exists>sql S1. files w ''database/schema.sql'' = Contents sql \<and> fault w 0 = None \<and>
           snd (server_script w sql d) = Inr S1 \<and>
           take 2 (sent (snd (main_setup_database w cfg (start d)))) = [Execute (Script sql), Commit]"
proof (cases rule: main_db_cases [of w cfg d])
  case (refused e)
  then show ?thesis using assms by (simp add: commits_def)
next
  case no_file
  then show ?thesis using assms by (simp add: commits_def)
next
  case (script_fails sql e)
  then show ?thesis using assms by (simp add: commits_def)
next
  case (commit_fails sql S1 e)
  then show ?thesis by simp
next
  case (goes_on sql S1)
  from goes_on(6) obtain zs where
    zs: "requests cfg sql S1 = sent (snd (main_setup_database w cfg (start d))) @ zs"
    by (auto simp: prefix_def)
  have "take 2 (requests cfg sql S1) = take 2 (sent (snd (main_setup_database w cfg (start d))))"
    unfolding zs using goes_on(7) by simp
  then show ?thesis using goes_on by (simp add: requests_def)
qed

lemma main_ipv6_commit_after_script:
  assumes "0 < commits (snd (main_setup_with_ipv6 w pw a (start d)))"
  shows "\<exists>sql S1. files w ''database/complete-setup.sql'' = Contents sql \<and> fault w 0 = None \<and>
           snd (server_script w sql d) = Inr S1 \<and>
           take 2 (sent (snd (main_setup_with_ipv6 w pw a (start d)))) =
             [Execute (Script sql), Commit]"
proof (cases rule: main_ipv6_cases [of w pw a d])
  case refused
  then show ?thesis using assms by (simp add: commits_def)
next
  case no_file
  then show ?thesis using assms by (simp add: commits_def)
next
  case (script_fails sql e)
  then show ?thesis using assms by (simp add: commits_def)
next
  case (commit_fails sql S1 e)
  then show ?thesis by simp
next
  case (goes_on sql S1)
  from goes_on(6) obtain zs where
    zs: "requests_ipv6 sql = sent (snd (main_setup_with_ipv6 w pw a (start d))) @ zs"
    by (auto simp: prefix_def)
  have "take 2 (requests_ipv6 sql) = take 2 (sent (snd (main_setup_with_ipv6 w pw a (start d))))"
    unfolding zs using goes_on(7) by simp
  then show ?thesis using goes_on by (simp add: requests_ipv6_def)
qed

lemma main_ipv6_script_fails:
  assumes "\<not> list_all (refused w) (CONNECTION_ATTEMPTS pw)"
      and "files w ''database/complete-setup.sql'' = Contents sql"
      and "script_fails w sql d e"
  shows "exit_code (main_setup_with_ipv6 w pw a (start d)) = 1 \<and>
         sent (snd (main_setup_with_ipv6 w pw a (start d))) = [Execute (Script sql)] \<and>
         durable (snd (main_setup_with_ipv6 w pw a (start d))) = left_by_script w sql d \<and>
         (\<exists>before. console (snd (main_setup_with_ipv6 w pw a (start d))) =
            before @ [''Error during setup: '' @ err_str e,
                      ''Traceback (most recent call last):'',
                      err_class e @ '': '' @ err_str e])"
proof -
  from main_ipv6_connected [OF assms(1), of a d]
  obtain pc where pc: "main_setup_with_ipv6 w pw a (start d)
        = try_except (setup_body w a) setup_handler pc"
      "sent pc = []" "durable pc = d" "txn pc = d"
    by blast
  have e: "script_fails w sql (txn pc) e" and dt: "durable pc = txn pc"
    using assms(3) pc by simp_all
  note F = try_setup_script_fails [OF pc(2) assms(2) e dt, of a, folded pc(1)]
  have x: "exit_code (main_setup_with_ipv6 w pw a (start d)) = 1"
    using F by (simp add: exit_code_ipv6)
  have c: "console (snd (main_setup_with_ipv6 w pw a (start d))) =
        (console pc @ [''Connected! Executing setup...'', ''Executing complete-setup.sql...'']) @
        [''Error during setup: '' @ err_str e, ''Traceback (most recent call last):'',
         err_class e @ '': '' @ err_str e]"
    using F by simp
  show ?thesis
    using F x c pc(4) by blast
qed

lemma main_ipv6_missing:
  assumes "\<not> list_all (refused w) (CONNECTION_ATTEMPTS pw)"
      and "files w ''database/complete-setup.sql'' = Missing"
  shows "exit_code (main_setup_with_ipv6 w pw a (start d)) = 1 \<and>
         sent (snd (main_setup_with_ipv6 w pw a (start d))) = [] \<and>
         durable (snd (main_setup_with_ipv6 w pw a (start d))) = d \<and>
         (\<exists>before. console (snd (main_setup_with_ipv6 w pw a (start d))) =
            before @ [''Connected! Executing setup...'',
                      ''Error during setup: '' @ no_such_file ''database/complete-setup.sql'',
                      ''Traceback (most recent call last):'',
                      ''FileNotFoundError: '' @ no_such_file ''database/complete-setup.sql''])"
proof -
  from main_ipv6_connected [OF assms(1), of a d]
  obtain pc where pc: "main_setup_with_ipv6 w pw a (start d)
        = try_except (setup_body w a) setup_handler pc"
      "sent pc = []" "durable pc = d" "txn pc = d"
    by blast
  show ?thesis
    unfolding pc(1) try_setup_missing [OF assms(2)]
    using pc(2,3) by simp
qed

subsection \<open>A database error while the schema is applied\<close>

text \<open>
  Claim C4, as the code has it. In both scripts the whole file goes to the server as one
  statement, the first request of the run, and the program sends a commit only after
  that statement has returned without error. When the statement raises a database error,
  the run ends there with exit status 1 and no commit has been sent: what is durable
  afterwards is what the file had committed by itself before the error (a \<^verbatim>\<open>COMMIT\<close>
  among its statements), and the database the run found if the file commits nothing.
  \<^verbatim>\<open>setup-database.py\<close> then prints the error's text, its \<^verbatim>\<open>pgcode\<close> and its \<^verbatim>\<open>pgerror\<close>
  as they are; \<^verbatim>\<open>setup-with-ipv6.py\<close> prints the error's text and the traceback's last
  line (class and text).
\<close>

theorem schema_error_no_commit:
  "(server_accepts w (ConnectUrl (DATABASE_URL cfg) ''require'' 10) = None \<and>
    files w ''database/schema.sql'' = Contents sql \<and> script_fails w sql d e \<longrightarrow>
      exit_code (main_setup_database w cfg (start d)) = 1 \<and>
      sent (snd (main_setup_database w cfg (start d))) = [Execute (Script sql)] \<and>
      durable (snd (main_setup_database w cfg (start d))) = left_by_script w sql d \<and>
      drop 5 (console (snd (main_setup_database w cfg (start d)))) =
        [''Database Error: '' @ err_str e,
         ''Error Code: '' @ str_opt (pgcode e),
         ''Error Details: '' @ str_opt (pgerror e)]) \<and>
   (\<not> list_all (refused w) (CONNECTION_ATTEMPTS pw) \<and>
    files w ''database/complete-setup.sql'' = Contents sql' \<and> script_fails w sql' d e' \<longrightarrow>
      exit_code (main_setup_with_ipv6 w pw admin_pw (start d)) = 1 \<and>
      sent (snd (main_setup_with_ipv6 w pw admin_pw (start d))) = [Execute (Script sql')] \<and>
      durable (snd (main_setup_with_ipv6 w pw admin_pw (start d))) = left_by_script w sql' d \<and>
      (\<exists>before. console (snd (main_setup_with_ipv6 w pw admin_pw (start d))) =
         before @ [''Error during setup: '' @ err_str e',
                   ''Traceback (most recent call last):'',
                   err_class e' @ '': '' @ err_str e'])) \<and>
   (0 < commits (snd (main_setup_database w cfg (start d))) \<longrightarrow>
      (\<exists>sql S1. files w ''database/schema.sql'' = Contents sql \<and> fault w 0 = None \<and>
         snd (server_script w sql d) = Inr S1 \<and>
         take 2 (sent (snd (main_setup_database w cfg (start d)))) =
           [Execute (Script sql), Commit])) \<and>
   (0 < commits (snd (main_setup_with_ipv6 w pw admin_pw (start d))) \<longrightarrow>
      (\<exists>sql S1. files w ''database/complete-setup.sql'' = Contents sql \<and> fault w 0 = None \<and>
         snd (server_script w sql d) = Inr S1 \<and>
         take 2 (sent (snd (main_setup_with_ipv6 w pw admin_pw (start d)))) =
           [Execute (Script sql), Commit]))"
proof -
  have A: "exit_code (main_setup_database w cfg (start d)) = 1 \<and>
      sent (snd (main_setup_database w cfg (start d))) = [Execute (Script sql)] \<and>
      durable (snd (main_setup_database w cfg (start d))) = left_by_script w sql d \<and>
      drop 5 (console (snd (main_setup_database w cfg (start d)))) =
        [''Database Error: '' @ err_str e,
         ''Error Code: '' @ str_opt (pgcode e),
         ''Error Details: '' @ str_opt (pgerror e)]"
    if "server_accepts w (ConnectUrl (DATABASE_URL cfg) ''require'' 10) = None"
       "files w ''database/schema.sql'' = Contents sql" "script_fails w sql d e"
    by (simp add: main_db_script_fails [OF that])
  show ?thesis
    using A main_ipv6_script_fails [of w pw sql' d e' admin_pw]
      main_db_commit_after_script [of w cfg d]
      main_ipv6_commit_after_script [of w pw admin_pw d]
    by blast
qed

theorem schema_error_no_commit_witness:
  "server_accepts w_syntax (ConnectUrl (DATABASE_URL cfg0) ''require'' 10) = None \<and>
   files w_syntax ''database/schema.sql'' = Contents ''CREATE TABLE users (...); ...'' \<and>
   script_fails w_syntax ''CREATE TABLE users (...); ...'' db_empty syntax_error \<and>
   \<not> list_all (refused w_syntax) (CONNECTION_ATTEMPTS ''pw'') \<and>
   files w_syntax ''database/complete-setup.sql'' = Contents ''CREATE TABLE users (...); ...'' \<and>
   0 < commits (snd (main_setup_database w_ok cfg0 (start db_empty))) \<and>
   0 < commits (snd (main_setup_with_ipv6 w_ok ''pw'' ''hunter2'' (start db_empty))) \<and>
   exit_code (main_setup_database w_syntax cfg0 (start db_empty)) = 1 \<and>
   sent (snd (main_setup_database w_syntax cfg0 (start db_empty))) =
     [Execute (Script ''CREATE TABLE users (...); ...'')] \<and>
   durable (snd (main_setup_database w_syntax cfg0 (start db_empty))) = db_empty \<and>
   drop 5 (console (snd (main_setup_database w_syntax cfg0 (start db_empty)))) =
     [''Database Error: syntax error at or near CREAT'', ''Error Code: 42601'',
      ''Error Details: ERROR:  syntax error at or near CREAT''] \<and>
   exit_code (main_setup_with_ipv6 w_syntax ''pw'' ''hunter2'' (start db_empty)) = 1 \<and>
   sent (snd (main_setup_with_ipv6 w_syntax ''pw'' ''hunter2'' (start db_empty))) =
     [Execute (Script ''CREATE TABLE users (...); ...'')] \<and>
   durable (snd (main_setup_with_ipv6 w_syntax ''pw'' ''hunter2'' (start db_empty))) = db_empty \<and>
   take 2 (sent (snd (main_setup_database w_ok cfg0 (start db_empty)))) =
     [Execute (Script ''CREATE TABLE users (...); ...''), Commit] \<and>
   take 2 (sent (snd (main_setup_with_ipv6 w_ok ''pw'' ''hunter2'' (start db_empty)))) =
     [Execute (Script ''CREATE TABLE users (...); ...''), Commit]"
proof -
  have b: "server_accepts w_ok (ConnectUrl (DATABASE_URL cfg0) ''require'' 10) = None"
      "files w_ok ''database/schema.sql'' = Contents ''CREATE TABLE users (...); ...''"
      "fault w_ok 0 = None"
      "snd (server_script w_ok ''CREATE TABLE users (...); ...'' db_empty) = Inr db_fresh"
      "fault w_ok 1 = None"
    by (simp_all add: w_ok_def db_fresh_def)
  have c: "0 < commits (snd (main_setup_database w_ok cfg0 (start db_empty)))"
    using main_db_goes_on [OF b]
    by (simp add: w_ok_def db_fresh_def commits_def requests_def)
  have n: "\<not> list_all (refused w_ok) (CONNECTION_ATTEMPTS ''pw'')"
    by (simp add: refused_def w_ok_def CONNECTION_ATTEMPTS_def)
  have b6: "files w_ok ''database/complete-setup.sql'' = Contents ''CREATE TABLE users (...); ...''"
    by (simp add: w_ok_def)
  have c6: "0 < commits (snd (main_setup_with_ipv6 w_ok ''pw'' ''hunter2'' (start db_empty)))"
    using main_ipv6_goes_on [OF n b6 b(3,4,5), of "''hunter2''"]
    by (simp add: w_ok_def db_fresh_def commits_def requests_ipv6_def)
  show ?thesis
    using c c6
      schema_error_no_commit [of w_syntax cfg0 "''CREATE TABLE users (...); ...''" db_empty
        syntax_error "''pw''" "''CREATE TABLE users (...); ...''" syntax_error "''hunter2''"]
      schema_error_no_commit [of w_ok cfg0 "''''" db_empty syntax_error "''pw''" "''''"
        syntax_error "''hunter2''"]
    by (auto simp: w_syntax_def w_ok_def script_fails_def left_by_script_def refused_def
        CONNECTION_ATTEMPTS_def syntax_error_def str_opt_def)
qed

text \<open>
  Claim C4 as stated does not hold. The file of the world \<open>w_partial\<close> creates a table,
  commits, and fails on its next statement with SQLSTATE 42P07. Neither script sends a
  commit, and both end with an error, yet the table is durable afterwards: a part of
  the file has been applied. And the only handler of \<^verbatim>\<open>setup-with-ipv6.py\<close> is the generic
  one at the end of \<^verbatim>\<open>main\<close>, which prints \<^verbatim>\<open>str(e)\<close> and the traceback: the error code
  appears in no line of its console.
\<close>

theorem schema_error_counterexample:
  "\<not> list_all (refused w_partial) (CONNECTION_ATTEMPTS ''pw'') \<and>
   files w_partial ''database/complete-setup.sql'' =
     Contents ''CREATE TABLE users (id int); COMMIT; CREATE TABLE users (id int);'' \<and>
   script_fails w_partial ''CREATE TABLE users (id int); COMMIT; CREATE TABLE users (id int);''
     db_empty duplicate_table \<and>
   pgcode duplicate_table = Some ''42P07'' \<and>
   exit_code (main_setup_with_ipv6 w_partial ''pw'' ''hunter2'' (start db_empty)) = 1 \<and>
   sent (snd (main_setup_with_ipv6 w_partial ''pw'' ''hunter2'' (start db_empty))) =
     [Execute (Script ''CREATE TABLE users (id int); COMMIT; CREATE TABLE users (id int);'')] \<and>
   console (snd (main_setup_with_ipv6 w_partial ''pw'' ''hunter2'' (start db_empty))) =
     [''Attempting Database Connection...'', ''Attempt 1:'',
      ''  Trying: db.iithtbuedvwmtbagquxy.supabase.co:5432...'', ''SUCCESS!'',
      ''Connected! Executing setup...'', ''Executing complete-setup.sql...'',
      ''Error during setup: relation users already exists'',
      ''Traceback (most recent call last):'',
      ''psycopg2.errors.DuplicateTable: relation users already exists''] \<and>
   \<not> list_ex (sublist ''42P07'')
       (console (snd (main_setup_with_ipv6 w_partial ''pw'' ''hunter2'' (start db_empty)))) \<and>
   tables db_empty = [] \<and>
   tables (durable (snd (main_setup_with_ipv6 w_partial ''pw'' ''hunter2'' (start db_empty)))) =
     [''users''] \<and>
   tables (durable (snd (main_setup_database w_partial cfg0 (start db_empty)))) = [''users'']"
proof -
  have n: "\<not> list_all (refused w_partial) (CONNECTION_ATTEMPTS ''pw'')"
    by (simp add: refused_def w_partial_def w_ok_def CONNECTION_ATTEMPTS_def)
  have f: "files w_partial ''database/complete-setup.sql'' =
     Contents ''CREATE TABLE users (id int); COMMIT; CREATE TABLE users (id int);''"
     "files w_partial ''database/schema.sql'' =
     Contents ''CREATE TABLE users (id int); COMMIT; CREATE TABLE users (id int);''"
     "server_accepts w_partial (ConnectUrl (DATABASE_URL cfg0) ''require'' 10) = None"
    by (simp_all add: w_partial_def w_ok_def)
  have s: "script_fails w_partial
      ''CREATE TABLE users (id int); COMMIT; CREATE TABLE users (id int);'' db_empty duplicate_table"
    by (simp add: script_fails_def w_partial_def w_ok_def)
  have l: "left_by_script w_partial
      ''CREATE TABLE users (id int); COMMIT; CREATE TABLE users (id int);'' db_empty =
      db_empty\<lparr>tables := [''users'']\<rparr>"
    by (simp add: left_by_script_def w_partial_def w_ok_def)
  have c: "console (snd (main_setup_with_ipv6 w_partial ''pw'' ''hunter2'' (start db_empty))) =
     [''Attempting Database Connection...'', ''Attempt 1:'',
      ''  Trying: db.iithtbuedvwmtbagquxy.supabase.co:5432...'', ''SUCCESS!'',
      ''Connected! Executing setup...'', ''Executing complete-setup.sql...'',
      ''Error during setup: relation users already exists'',
      ''Traceback (most recent call last):'',
      ''psycopg2.errors.DuplicateTable: relation users already exists'']"
    by (simp add: main_setup_with_ipv6_def CONNECTION_ATTEMPTS_def try_connection_def
        setup_body_def apply_setup_def setup_handler_def print_exc_def open_read_def connect_def
        execute_def Let_def prog_defs str_nat.simps hex_digit_def w_partial_def w_ok_def
        start_def duplicate_table_def)
  have x: "\<not> list_ex (sublist ''42P07'')
     [''Attempting Database Connection...'', ''Attempt 1:'',
      ''  Trying: db.iithtbuedvwmtbagquxy.supabase.co:5432...'', ''SUCCESS!'',
      ''Connected! Executing setup...'', ''Executing complete-setup.sql...'',
      ''Error during setup: relation users already exists'',
      ''Traceback (most recent call last):'',
      ''psycopg2.errors.DuplicateTable: relation users already exists'']"
    by code_simp
  have p: "pgcode duplicate_table = Some ''42P07''" "tables db_empty = []"
    by (simp_all add: duplicate_table_def db_empty_def)
  have v: "exit_code (main_setup_with_ipv6 w_partial ''pw'' ''hunter2'' (start db_empty)) = 1"
      "sent (snd (main_setup_with_ipv6 w_partial ''pw'' ''hunter2'' (start db_empty))) =
        [Execute (Script ''CREATE TABLE users (id int); COMMIT; CREATE TABLE users (id int);'')]"
      "tables (durable (snd (main_setup_with_ipv6 w_partial ''pw'' ''hunter2'' (start db_empty)))) =
        [''users'']"
    using main_ipv6_script_fails [OF n f(1) s, of "''hunter2''"] by (simp_all add: l)
  have u: "tables (durable (snd (main_setup_database w_partial cfg0 (start db_empty)))) = [''users'']"
    by (simp add: main_db_script_fails [OF f(3) f(2) s] l)
  show ?thesis
    unfolding c using n f(1) s p v u x by simp
qed

subsection \<open>An absent SQL file, and the exit status\<close>

text \<open>
  Claim C5. When the Schema Applier finds no file at its path (the connection is open:
  the file is read after the connect call has returned), the body of the script raises
  \<^verbatim>\<open>FileNotFoundError\<close> and the run ends with exit status 1 before any request is sent,
  the committed database unchanged. \<^verbatim>\<open>setup-database.py\<close> reports it through its own
  \<^verbatim>\<open>except FileNotFoundError\<close> clause: the console ends with the two lines of that clause
  and has no line of the database-error clause. \<^verbatim>\<open>setup-with-ipv6.py\<close> reports it with the
  operating system's text for a missing file and a traceback that names
  \<^verbatim>\<open>FileNotFoundError\<close>. In every world and from every committed database, the exit
  status of either script is 1 when the run meets a connection error, a file error or
  a database error, and 0 otherwise.
\<close>

theorem missing_file_reported:
  "(server_accepts w (ConnectUrl (DATABASE_URL cfg) ''require'' 10) = None \<and>
    files w ''database/schema.sql'' = Missing \<longrightarrow>
      fst (main_body w cfg (snd (print ''CTO Dashboard - Complete Database Setup'' (start d)))) =
        Raise (Exc (FileNotFoundError (no_such_file ''database/schema.sql''))) \<and>
      exit_code (main_setup_database w cfg (start d)) = 1 \<and>
      sent (snd (main_setup_database w cfg (start d))) = [] \<and>
      durable (snd (main_setup_database w cfg (start d))) = d \<and>
      console (snd (main_setup_database w cfg (start d))) =
        [''CTO Dashboard - Complete Database Setup'', ''Connecting to Supabase...'',
         ''Connected to database'', ''Creating database schema...'',
         ''Error: database/schema.sql not found'',
         ''   Make sure you're running this from the project root directory'']) \<and>
   (\<not> list_all (refused w) (CONNECTION_ATTEMPTS pw) \<and>
    files w ''database/complete-setup.sql'' = Missing \<longrightarrow>
      fst (setup_body w admin_pw p) =
        Raise (Exc (FileNotFoundError (no_such_file ''database/complete-setup.sql''))) \<and>
      exit_code (main_setup_with_ipv6 w pw admin_pw (start d)) = 1 \<and>
      sent (snd (main_setup_with_ipv6 w pw admin_pw (start d))) = [] \<and>
      durable (snd (main_setup_with_ipv6 w pw admin_pw (start d))) = d \<and>
      (\<exists>before. console (snd (main_setup_with_ipv6 w pw admin_pw (start d))) =
         before @ [''Connected! Executing setup...'',
                   ''Error during setup: '' @ no_such_file ''database/complete-setup.sql'',
                   ''Traceback (most recent call last):'',
                   ''FileNotFoundError: '' @ no_such_file ''database/complete-setup.sql''])) \<and>
   exit_code (main_setup_database w cfg (start d)) =
     (if connection_error w cfg \<or> file_error w ''database/schema.sql'' \<or> database_error w d
      then 1 else 0) \<and>
   exit_code (main_setup_with_ipv6 w pw admin_pw (start d)) =
     (if connection_error_ipv6 w pw \<or> file_error w ''database/complete-setup.sql'' \<or>
         database_error_ipv6 w d
      then 1 else 0)"
proof -
  have A: "fst (main_body w cfg (snd (print ''CTO Dashboard - Complete Database Setup'' (start d)))) =
        Raise (Exc (FileNotFoundError (no_such_file ''database/schema.sql''))) \<and>
      exit_code (main_setup_database w cfg (start d)) = 1 \<and>
      sent (snd (main_setup_database w cfg (start d))) = [] \<and>
      durable (snd (main_setup_database w cfg (start d))) = d \<and>
      console (snd (main_setup_database w cfg (start d))) =
        [''CTO Dashboard - Complete Database Setup'', ''Connecting to Supabase...'',
         ''Connected to database'', ''Creating database schema...'',
         ''Error: database/schema.sql not found'',
         ''   Make sure you're running this from the project root directory'']"
    if "server_accepts w (ConnectUrl (DATABASE_URL cfg) ''require'' 10) = None"
       "files w ''database/schema.sql'' = Missing"
    by (simp add: main_db_missing [OF that] main_body_missing [OF that])
  show ?thesis
    using A main_ipv6_missing [of w pw admin_pw d] setup_body_missing [of w admin_pw p]
      exit_status_db [of w cfg d] exit_status_ipv6 [of w pw admin_pw d]
    by blast
qed

theorem missing_file_reported_witness:
  "server_accepts w_nofile (ConnectUrl (DATABASE_URL cfg0) ''require'' 10) = None \<and>
   files w_nofile ''database/schema.sql'' = Missing \<and>
   \<not> list_all (refused w_nofile) (CONNECTION_ATTEMPTS ''pw'') \<and>
   files w_nofile ''database/complete-setup.sql'' = Missing \<and>
   exit_code (main_setup_database w_nofile cfg0 (start db_empty)) = 1 \<and>
   sent (snd (main_setup_database w_nofile cfg0 (start db_empty))) = [] \<and>
   last (console (snd (main_setup_database w_nofile cfg0 (start db_empty)))) =
     ''   Make sure you're running this from the project root directory'' \<and>
   exit_code (main_setup_with_ipv6 w_nofile ''pw'' ''hunter2'' (start db_empty)) = 1 \<and>
   sent (snd (main_setup_with_ipv6 w_nofile ''pw'' ''hunter2'' (start db_empty))) = [] \<and>
   exit_code (main_setup_database w_ok cfg0 (start db_empty)) = 0 \<and>
   exit_code (main_setup_with_ipv6 w_ok ''pw'' ''hunter2'' (start db_empty)) = 0 \<and>
   exit_code (main_setup_database w_down cfg0 (start db_empty)) = 1 \<and>
   exit_code (main_setup_with_ipv6 w_down ''pw'' ''hunter2'' (start db_empty)) = 1 \<and>
   exit_code (main_setup_database w_syntax cfg0 (start db_empty)) = 1 \<and>
   exit_code (main_setup_with_ipv6 w_syntax ''pw'' ''hunter2'' (start db_empty)) = 1 \<and>
   exit_code (main_setup_database w_audit_fails cfg0 (start db_empty)) = 1"
  using missing_file_reported [of w_nofile cfg0 db_empty "''pw''" "''hunter2''" "start db_empty"]
    missing_file_reported [of w_ok cfg0 db_empty "''pw''" "''hunter2''" "start db_empty"]
    missing_file_reported [of w_down cfg0 db_empty "''pw''" "''hunter2''" "start db_empty"]
    missing_file_reported [of w_syntax cfg0 db_empty "''pw''" "''hunter2''" "start db_empty"]
    missing_file_reported [of w_audit_fails cfg0 db_empty "''pw''" "''hunter2''" "start db_empty"]
  by (simp add: w_nofile_def w_ok_def w_down_def w_syntax_def w_audit_fails_def refused_def
      CONNECTION_ATTEMPTS_def connection_error_def connection_error_ipv6_def file_error_def
      database_error_def database_error_ipv6_def upt_0_9 upt_0_4 unreachable_def)

end
